theory Spec2Isabelle
  imports Main "HOL-Library.Sublist" "HOL-Library.List_Lexorder" "HOL-Library.Multiset" "HOL-Library.AList"
begin

section \<open>Strings and library functions\<close>

text \<open>
  A Python \<^verbatim>\<open>str\<close> is a sequence of Unicode code points and is modelled as a list of
  natural numbers. The string literals of \<^verbatim>\<open>bot.py\<close> are named constants: \<open>la_...\<close>
  spells an ASCII literal as it is (a blank is \<open>_\<close>), \<open>cy_...\<close> transliterates a literal with
  Cyrillic letters
  (\<open>zh ts ch sh shch yo yu ya\<close> as usual, \<open>y\<close> short i, \<open>x\<close> kha, \<open>yi\<close> yery, \<open>eh\<close> e oborotnoye,
  \<open>qh\<close> hard sign, \<open>j\<close> soft sign, \<open>w\<close> short u, \<open>q\<close> ka with descender, \<open>gh\<close> ghe with stroke,
  \<open>h\<close> ha with descender; a capital letter is a capital in the name), and \<open>UXXXX\<close> is the code
  point itself.
\<close>

type_synonym ustr = "nat list"

definition la_True :: ustr where
  "la_True = [84, 114, 117, 101]"

definition la_False :: ustr where
  "la_False = [70, 97, 108, 115, 101]"

definition la_nan :: ustr where
  "la_nan = [110, 97, 110]"

definition cy_v :: ustr where
  "cy_v = [1074]"

definition cy_raboch :: ustr where
  "cy_raboch = [1088, 1072, 1073, 1086, 1095]"

definition cy_em :: ustr where
  "cy_em = [1077, 1084]"

definition cy_ee :: ustr where
  "cy_ee = [1077, 1077]"

definition cy_sostoyani :: ustr where
  "cy_sostoyani = [1089, 1086, 1089, 1090, 1086, 1103, 1085, 1080]"

definition cy_i :: ustr where
  "cy_i = [1080]"

definition cy_e :: ustr where
  "cy_e = [1077]"

definition cy_remontn :: ustr where
  "cy_remontn = [1088, 1077, 1084, 1086, 1085, 1090, 1085]"

definition cy_yaroqli :: ustr where
  "cy_yaroqli = [1103, 1088, 1086, 1179, 1083, 1080]"

definition cy_yarokli :: ustr where
  "cy_yarokli = [1103, 1088, 1086, 1082, 1083, 1080]"

definition cy_ishlaydi :: ustr where
  "cy_ishlaydi = [1080, 1096, 1083, 1072, 1081, 1076, 1080]"

definition cy_ishlamoqda :: ustr where
  "cy_ishlamoqda = [1080, 1096, 1083, 1072, 1084, 1086, 1179, 1076, 1072]"

definition cy_ishlab_turibdi :: ustr where
  "cy_ishlab_turibdi = [1080, 1096, 1083, 1072, 1073, 32, 1090, 1091, 1088, 1080, 1073, 1076, 1080]"

definition cy_ishga_yaroqli :: ustr where
  "cy_ishga_yaroqli = [1080, 1096, 1075, 1072, 32, 1103, 1088, 1086, 1179, 1083, 1080]"

definition cy_ishga_yarokli :: ustr where
  "cy_ishga_yarokli = [1080, 1096, 1075, 1072, 32, 1103, 1088, 1086, 1082, 1083, 1080]"

definition cy_ehkspluatatsiyada :: ustr where
  "cy_ehkspluatatsiyada = [1101, 1082, 1089, 1087, 1083, 1091, 1072, 1090, 1072, 1094, 1080, 1103, 1076, 1072]"

definition cy_foydalanishda :: ustr where
  "cy_foydalanishda = [1092, 1086, 1081, 1076, 1072, 1083, 1072, 1085, 1080, 1096, 1076, 1072]"

definition cy_v_ehkspluatatsii :: ustr where
  "cy_v_ehkspluatatsii = [1074, 32, 1101, 1082, 1089, 1087, 1083, 1091, 1072, 1090, 1072, 1094, 1080, 1080]"

definition la_operational :: ustr where
  "la_operational = [111, 112, 101, 114, 97, 116, 105, 111, 110, 97, 108]"

definition la_in_service :: ustr where
  "la_in_service = [105, 110, 32, 115, 101, 114, 118, 105, 99, 101]"

definition la_working :: ustr where
  "la_working = [119, 111, 114, 107, 105, 110, 103]"

definition cy_ispraven :: ustr where
  "cy_ispraven = [1080, 1089, 1087, 1088, 1072, 1074, 1077, 1085]"

definition cy_ispravna :: ustr where
  "cy_ispravna = [1080, 1089, 1087, 1088, 1072, 1074, 1085, 1072]"

definition cy_ispravno :: ustr where
  "cy_ispravno = [1080, 1089, 1087, 1088, 1072, 1074, 1085, 1086]"

definition cy_ispravnyiy :: ustr where
  "cy_ispravnyiy = [1080, 1089, 1087, 1088, 1072, 1074, 1085, 1099, 1081]"

definition cy_rabotaet :: ustr where
  "cy_rabotaet = [1088, 1072, 1073, 1086, 1090, 1072, 1077, 1090]"

definition la_ready :: ustr where
  "la_ready = [114, 101, 97, 100, 121]"

definition la_good :: ustr where
  "la_good = [103, 111, 111, 100]"

definition la_active :: ustr where
  "la_active = [97, 99, 116, 105, 118, 101]"

definition cy_yaroqsiz :: ustr where
  "cy_yaroqsiz = [1103, 1088, 1086, 1179, 1089, 1080, 1079]"

definition cy_yaroksiz :: ustr where
  "cy_yaroksiz = [1103, 1088, 1086, 1082, 1089, 1080, 1079]"

definition cy_ishlamayapti :: ustr where
  "cy_ishlamayapti = [1080, 1096, 1083, 1072, 1084, 1072, 1103, 1087, 1090, 1080]"

definition cy_ishlamaydi :: ustr where
  "cy_ishlamaydi = [1080, 1096, 1083, 1072, 1084, 1072, 1081, 1076, 1080]"

definition cy_ishlamagan :: ustr where
  "cy_ishlamagan = [1080, 1096, 1083, 1072, 1084, 1072, 1075, 1072, 1085]"

definition cy_ishdan_chiqqan :: ustr where
  "cy_ishdan_chiqqan = [1080, 1096, 1076, 1072, 1085, 32, 1095, 1080, 1179, 1179, 1072, 1085]"

definition cy_ishdan_chikkan :: ustr where
  "cy_ishdan_chikkan = [1080, 1096, 1076, 1072, 1085, 32, 1095, 1080, 1082, 1082, 1072, 1085]"

definition cy_tizimdan_tashqari :: ustr where
  "cy_tizimdan_tashqari = [1090, 1080, 1079, 1080, 1084, 1076, 1072, 1085, 32, 1090, 1072, 1096, 1179, 1072, 1088, 1080]"

definition cy_ne_rabotaet :: ustr where
  "cy_ne_rabotaet = [1085, 1077, 32, 1088, 1072, 1073, 1086, 1090, 1072, 1077, 1090]"

definition cy_v_ne_ispravn :: ustr where
  "cy_v_ne_ispravn = [1074, 32, 1085, 1077, 32, 1080, 1089, 1087, 1088, 1072, 1074, 1085]"

definition cy_vne_ispravn :: ustr where
  "cy_vne_ispravn = [1074, 1085, 1077, 32, 1080, 1089, 1087, 1088, 1072, 1074, 1085]"

definition la_broken :: ustr where
  "la_broken = [98, 114, 111, 107, 101, 110]"

definition la_inactive :: ustr where
  "la_inactive = [105, 110, 97, 99, 116, 105, 118, 101]"

definition la_out_of_order :: ustr where
  "la_out_of_order = [111, 117, 116, 32, 111, 102, 32, 111, 114, 100, 101, 114]"

definition cy_qisman_ishlamaydi :: ustr where
  "cy_qisman_ishlamaydi = [1179, 1080, 1089, 1084, 1072, 1085, 32, 1080, 1096, 1083, 1072, 1084, 1072, 1081, 1076, 1080]"

definition cy_chastichno_ne_rabotaet :: ustr where
  "cy_chastichno_ne_rabotaet = [1095, 1072, 1089, 1090, 1080, 1095, 1085, 1086, 32, 1085, 1077, 32, 1088, 1072, 1073, 1086, 1090, 1072, 1077, 1090]"

definition cy_ne :: ustr where
  "cy_ne = [1085, 1077]"

definition cy_neisprav :: ustr where
  "cy_neisprav = [1085, 1077, 1080, 1089, 1087, 1088, 1072, 1074]"

definition cy_taqhmirtalab :: ustr where
  "cy_taqhmirtalab = [1090, 1072, 1098, 1084, 1080, 1088, 1090, 1072, 1083, 1072, 1073]"

definition cy_tamirtalab :: ustr where
  "cy_tamirtalab = [1090, 1072, 1084, 1080, 1088, 1090, 1072, 1083, 1072, 1073]"

definition cy_taqhmirda :: ustr where
  "cy_taqhmirda = [1090, 1072, 1098, 1084, 1080, 1088, 1076, 1072]"

definition cy_remontda :: ustr where
  "cy_remontda = [1088, 1077, 1084, 1086, 1085, 1090, 1076, 1072]"

definition cy_remont :: ustr where
  "cy_remont = [1088, 1077, 1084, 1086, 1085, 1090]"

definition cy_remontiruetsya :: ustr where
  "cy_remontiruetsya = [1088, 1077, 1084, 1086, 1085, 1090, 1080, 1088, 1091, 1077, 1090, 1089, 1103]"

definition cy_na_remonte :: ustr where
  "cy_na_remonte = [1085, 1072, 32, 1088, 1077, 1084, 1086, 1085, 1090, 1077]"

definition cy_obsluzhivan :: ustr where
  "cy_obsluzhivan = [1086, 1073, 1089, 1083, 1091, 1078, 1080, 1074, 1072, 1085]"

definition cy_texobsluzh :: ustr where
  "cy_texobsluzh = [1090, 1077, 1093, 1086, 1073, 1089, 1083, 1091, 1078]"

definition la_maintenance :: ustr where
  "la_maintenance = [109, 97, 105, 110, 116, 101, 110, 97, 110, 99, 101]"

definition la_under_repair :: ustr where
  "la_under_repair = [117, 110, 100, 101, 114, 32, 114, 101, 112, 97, 105, 114]"

definition la_repair :: ustr where
  "la_repair = [114, 101, 112, 97, 105, 114]"

definition cy_Xolati_nomaqhlum :: ustr where
  "cy_Xolati_nomaqhlum = [1061, 1086, 1083, 1072, 1090, 1080, 32, 1085, 1086, 1084, 1072, 1098, 1083, 1091, 1084]"

definition la_green :: ustr where
  "la_green = [103, 114, 101, 101, 110]"

definition la_ok :: ustr where
  "la_ok = [111, 107]"

definition cy_Yarokli :: ustr where
  "cy_Yarokli = [1071, 1088, 1086, 1082, 1083, 1080]"

definition cy_Yaroksiz :: ustr where
  "cy_Yaroksiz = [1071, 1088, 1086, 1082, 1089, 1080, 1079]"

definition cy_Taqhmirtalab :: ustr where
  "cy_Taqhmirtalab = [1058, 1072, 1098, 1084, 1080, 1088, 1090, 1072, 1083, 1072, 1073]"

definition cy_zhami :: ustr where
  "cy_zhami = [1078, 1072, 1084, 1080]"

definition cy_itogo :: ustr where
  "cy_itogo = [1080, 1090, 1086, 1075, 1086]"

definition cy_barchasi :: ustr where
  "cy_barchasi = [1073, 1072, 1088, 1095, 1072, 1089, 1080]"

definition cy_vsego :: ustr where
  "cy_vsego = [1074, 1089, 1077, 1075, 1086]"

definition la_jami :: ustr where
  "la_jami = [106, 97, 109, 105]"

definition la_all :: ustr where
  "la_all = [97, 108, 108]"

definition cy_pogruzchik :: ustr where
  "cy_pogruzchik = [1087, 1086, 1075, 1088, 1091, 1079, 1095, 1080, 1082]"

definition cy_Pogruzchik :: ustr where
  "cy_Pogruzchik = [1055, 1086, 1075, 1088, 1091, 1079, 1095, 1080, 1082]"

definition cy_mini_bortovoy :: ustr where
  "cy_mini_bortovoy = [1084, 1080, 1085, 1080, 32, 1073, 1086, 1088, 1090, 1086, 1074, 1086, 1081]"

definition cy_Mini_bortovoy :: ustr where
  "cy_Mini_bortovoy = [1052, 1080, 1085, 1080, 32, 1073, 1086, 1088, 1090, 1086, 1074, 1086, 1081]"

definition cy_minii_bortovoy :: ustr where
  "cy_minii_bortovoy = [1084, 1080, 1085, 1080, 1080, 32, 1073, 1086, 1088, 1090, 1086, 1074, 1086, 1081]"

definition cy_mikro_bortovoy :: ustr where
  "cy_mikro_bortovoy = [1084, 1080, 1082, 1088, 1086, 32, 1073, 1086, 1088, 1090, 1086, 1074, 1086, 1081]"

definition cy_ehvakuator :: ustr where
  "cy_ehvakuator = [1101, 1074, 1072, 1082, 1091, 1072, 1090, 1086, 1088]"

definition cy_Ehvakuator :: ustr where
  "cy_Ehvakuator = [1069, 1074, 1072, 1082, 1091, 1072, 1090, 1086, 1088]"

definition cy_xlorovoz :: ustr where
  "cy_xlorovoz = [1093, 1083, 1086, 1088, 1086, 1074, 1086, 1079]"

definition cy_Xlorovoz :: ustr where
  "cy_Xlorovoz = [1061, 1083, 1086, 1088, 1086, 1074, 1086, 1079]"

definition cy_samosval :: ustr where
  "cy_samosval = [1089, 1072, 1084, 1086, 1089, 1074, 1072, 1083]"

definition cy_Samosval :: ustr where
  "cy_Samosval = [1057, 1072, 1084, 1086, 1089, 1074, 1072, 1083]"

definition cy_ehkskavator :: ustr where
  "cy_ehkskavator = [1101, 1082, 1089, 1082, 1072, 1074, 1072, 1090, 1086, 1088]"

definition cy_Ehkskavator :: ustr where
  "cy_Ehkskavator = [1069, 1082, 1089, 1082, 1072, 1074, 1072, 1090, 1086, 1088]"

definition cy_traktor :: ustr where
  "cy_traktor = [1090, 1088, 1072, 1082, 1090, 1086, 1088]"

definition cy_Traktor :: ustr where
  "cy_Traktor = [1058, 1088, 1072, 1082, 1090, 1086, 1088]"

definition cy_buljdozer :: ustr where
  "cy_buljdozer = [1073, 1091, 1083, 1100, 1076, 1086, 1079, 1077, 1088]"

definition cy_Buljdozer :: ustr where
  "cy_Buljdozer = [1041, 1091, 1083, 1100, 1076, 1086, 1079, 1077, 1088]"

definition cy_avtokran :: ustr where
  "cy_avtokran = [1072, 1074, 1090, 1086, 1082, 1088, 1072, 1085]"

definition cy_Avtokran :: ustr where
  "cy_Avtokran = [1040, 1074, 1090, 1086, 1082, 1088, 1072, 1085]"

definition cy_betonomeshalka :: ustr where
  "cy_betonomeshalka = [1073, 1077, 1090, 1086, 1085, 1086, 1084, 1077, 1096, 1072, 1083, 1082, 1072]"

definition cy_Betonomeshalka :: ustr where
  "cy_Betonomeshalka = [1041, 1077, 1090, 1086, 1085, 1086, 1084, 1077, 1096, 1072, 1083, 1082, 1072]"

definition cy_tsisterna :: ustr where
  "cy_tsisterna = [1094, 1080, 1089, 1090, 1077, 1088, 1085, 1072]"

definition cy_Tsisterna :: ustr where
  "cy_Tsisterna = [1062, 1080, 1089, 1090, 1077, 1088, 1085, 1072]"

definition cy_furgon :: ustr where
  "cy_furgon = [1092, 1091, 1088, 1075, 1086, 1085]"

definition cy_Furgon :: ustr where
  "cy_Furgon = [1060, 1091, 1088, 1075, 1086, 1085]"

definition cy_refrizherator :: ustr where
  "cy_refrizherator = [1088, 1077, 1092, 1088, 1080, 1078, 1077, 1088, 1072, 1090, 1086, 1088]"

definition cy_Refrizherator :: ustr where
  "cy_Refrizherator = [1056, 1077, 1092, 1088, 1080, 1078, 1077, 1088, 1072, 1090, 1086, 1088]"

definition cy_gidrolinamicheskaya :: ustr where
  "cy_gidrolinamicheskaya = [1075, 1080, 1076, 1088, 1086, 1083, 1080, 1085, 1072, 1084, 1080, 1095, 1077, 1089, 1082, 1072, 1103]"

definition cy_Gidrodinamicheskaya :: ustr where
  "cy_Gidrodinamicheskaya = [1043, 1080, 1076, 1088, 1086, 1076, 1080, 1085, 1072, 1084, 1080, 1095, 1077, 1089, 1082, 1072, 1103]"

definition cy_gidrolinamicheskiy :: ustr where
  "cy_gidrolinamicheskiy = [1075, 1080, 1076, 1088, 1086, 1083, 1080, 1085, 1072, 1084, 1080, 1095, 1077, 1089, 1082, 1080, 1081]"

definition cy_gidrodinamicheskaya :: ustr where
  "cy_gidrodinamicheskaya = [1075, 1080, 1076, 1088, 1086, 1076, 1080, 1085, 1072, 1084, 1080, 1095, 1077, 1089, 1082, 1072, 1103]"

definition cy_gidrodinamicheskiy :: ustr where
  "cy_gidrodinamicheskiy = [1075, 1080, 1076, 1088, 1086, 1076, 1080, 1085, 1072, 1084, 1080, 1095, 1077, 1089, 1082, 1080, 1081]"

definition cy_gidravlicheskaya :: ustr where
  "cy_gidravlicheskaya = [1075, 1080, 1076, 1088, 1072, 1074, 1083, 1080, 1095, 1077, 1089, 1082, 1072, 1103]"

definition cy_labolatornaya :: ustr where
  "cy_labolatornaya = [1083, 1072, 1073, 1086, 1083, 1072, 1090, 1086, 1088, 1085, 1072, 1103]"

definition cy_Laboratornaya :: ustr where
  "cy_Laboratornaya = [1051, 1072, 1073, 1086, 1088, 1072, 1090, 1086, 1088, 1085, 1072, 1103]"

definition cy_loboratornaya :: ustr where
  "cy_loboratornaya = [1083, 1086, 1073, 1086, 1088, 1072, 1090, 1086, 1088, 1085, 1072, 1103]"

definition cy_laboratornaya :: ustr where
  "cy_laboratornaya = [1083, 1072, 1073, 1086, 1088, 1072, 1090, 1086, 1088, 1085, 1072, 1103]"

definition cy_kamaz :: ustr where
  "cy_kamaz = [1082, 1072, 1084, 1072, 1079]"

definition cy_Kamaz :: ustr where
  "cy_Kamaz = [1050, 1072, 1084, 1072, 1079]"

definition cy_zil :: ustr where
  "cy_zil = [1079, 1080, 1083]"

definition cy_ZIL :: ustr where
  "cy_ZIL = [1047, 1048, 1051]"

definition cy_gazelj :: ustr where
  "cy_gazelj = [1075, 1072, 1079, 1077, 1083, 1100]"

definition cy_GAZelj :: ustr where
  "cy_GAZelj = [1043, 1040, 1047, 1077, 1083, 1100]"

definition cy_uaz :: ustr where
  "cy_uaz = [1091, 1072, 1079]"

definition cy_UAZ :: ustr where
  "cy_UAZ = [1059, 1040, 1047]"

definition cy_kompressor :: ustr where
  "cy_kompressor = [1082, 1086, 1084, 1087, 1088, 1077, 1089, 1089, 1086, 1088]"

definition cy_Kompressor :: ustr where
  "cy_Kompressor = [1050, 1086, 1084, 1087, 1088, 1077, 1089, 1089, 1086, 1088]"

definition cy_generator :: ustr where
  "cy_generator = [1075, 1077, 1085, 1077, 1088, 1072, 1090, 1086, 1088]"

definition cy_Generator :: ustr where
  "cy_Generator = [1043, 1077, 1085, 1077, 1088, 1072, 1090, 1086, 1088]"

definition cy_avtobus :: ustr where
  "cy_avtobus = [1072, 1074, 1090, 1086, 1073, 1091, 1089]"

definition cy_Avtobus :: ustr where
  "cy_Avtobus = [1040, 1074, 1090, 1086, 1073, 1091, 1089]"

definition cy_mikroavtobus :: ustr where
  "cy_mikroavtobus = [1084, 1080, 1082, 1088, 1086, 1072, 1074, 1090, 1086, 1073, 1091, 1089]"

definition cy_Mikroavtobus :: ustr where
  "cy_Mikroavtobus = [1052, 1080, 1082, 1088, 1086, 1072, 1074, 1090, 1086, 1073, 1091, 1089]"

definition cy_mashina :: ustr where
  "cy_mashina = [1084, 1072, 1096, 1080, 1085, 1072]"

definition cy_Mashina :: ustr where
  "cy_Mashina = [1052, 1072, 1096, 1080, 1085, 1072]"

definition cy_gruzovik :: ustr where
  "cy_gruzovik = [1075, 1088, 1091, 1079, 1086, 1074, 1080, 1082]"

definition cy_Gruzovik :: ustr where
  "cy_Gruzovik = [1043, 1088, 1091, 1079, 1086, 1074, 1080, 1082]"

definition la_none :: ustr where
  "la_none = [110, 111, 110, 101]"

definition la_null :: ustr where
  "la_null = [110, 117, 108, 108]"

definition la_infatye :: ustr where
  "la_infatye = [105, 110, 102, 97, 116, 121, 101]"

definition la_INFATYE :: ustr where
  "la_INFATYE = [73, 78, 70, 65, 84, 89, 69]"

definition la_inf :: ustr where
  "la_inf = [105, 110, 102]"

definition la_infinity :: ustr where
  "la_infinity = [105, 110, 102, 105, 110, 105, 116, 121]"

definition cy_mavzhud_ehmas :: ustr where
  "cy_mavzhud_ehmas = [1084, 1072, 1074, 1078, 1091, 1076, 32, 1101, 1084, 1072, 1089]"

definition la_mavjud_emas :: ustr where
  "la_mavjud_emas = [109, 97, 118, 106, 117, 100, 32, 101, 109, 97, 115]"

definition cy_mavzhud :: ustr where
  "cy_mavzhud = [1084, 1072, 1074, 1078, 1091, 1076]"

definition la_mavjud :: ustr where
  "la_mavjud = [109, 97, 118, 106, 117, 100]"

definition la_no :: ustr where
  "la_no = [110, 111]"

definition cy_net :: ustr where
  "cy_net = [1085, 1077, 1090]"

definition la_yo_a_q :: ustr where
  "la_yo_a_q = [121, 111, 39, 113]"

definition cy_ywq :: ustr where
  "cy_ywq = [1081, 1118, 1179]"

definition la_yuk :: ustr where
  "la_yuk = [121, 117, 107]"

definition cy_yuk :: ustr where
  "cy_yuk = [1081, 1091, 1082]"

definition la_0 :: ustr where
  "la_0 = [48]"

definition la_false :: ustr where
  "la_false = [102, 97, 108, 115, 101]"

definition la_n :: ustr where
  "la_n = [110]"

definition la_yes :: ustr where
  "la_yes = [121, 101, 115]"

definition cy_da :: ustr where
  "cy_da = [1076, 1072]"

definition la_ha :: ustr where
  "la_ha = [104, 97]"

definition la_bor :: ustr where
  "la_bor = [98, 111, 114]"

definition cy_estj :: ustr where
  "cy_estj = [1077, 1089, 1090, 1100]"

definition la_1 :: ustr where
  "la_1 = [49]"

definition la_true :: ustr where
  "la_true = [116, 114, 117, 101]"

definition la_y :: ustr where
  "la_y = [121]"

definition cy_d :: ustr where
  "cy_d = [1076]"

definition la_gps :: ustr where
  "la_gps = [103, 112, 115]"

definition cy_treker :: ustr where
  "cy_treker = [1090, 1088, 1077, 1082, 1077, 1088]"

definition cy_Xolati :: ustr where
  "cy_Xolati = [1061, 1086, 1083, 1072, 1090, 1080]"

definition cy_Holati :: ustr where
  "cy_Holati = [1202, 1086, 1083, 1072, 1090, 1080]"

definition cy_Status :: ustr where
  "cy_Status = [1057, 1090, 1072, 1090, 1091, 1089]"

definition cy_Sostoyanie :: ustr where
  "cy_Sostoyanie = [1057, 1086, 1089, 1090, 1086, 1103, 1085, 1080, 1077]"

definition cy_Holat :: ustr where
  "cy_Holat = [1202, 1086, 1083, 1072, 1090]"

definition la_Holati :: ustr where
  "la_Holati = [72, 111, 108, 97, 116, 105]"

definition la_Status :: ustr where
  "la_Status = [83, 116, 97, 116, 117, 115]"

definition cy_Texnika_xolati :: ustr where
  "cy_Texnika_xolati = [1058, 1077, 1093, 1085, 1080, 1082, 1072, 32, 1093, 1086, 1083, 1072, 1090, 1080]"

definition cy_Texnika_holati :: ustr where
  "cy_Texnika_holati = [1058, 1077, 1093, 1085, 1080, 1082, 1072, 32, 1203, 1086, 1083, 1072, 1090, 1080]"

definition cy_Texnika_statusyi :: ustr where
  "cy_Texnika_statusyi = [1058, 1077, 1093, 1085, 1080, 1082, 1072, 32, 1089, 1090, 1072, 1090, 1091, 1089, 1099]"

definition cy_Texnika_sostoyanie :: ustr where
  "cy_Texnika_sostoyanie = [1058, 1077, 1093, 1085, 1080, 1082, 1072, 32, 1089, 1086, 1089, 1090, 1086, 1103, 1085, 1080, 1077]"

definition cy_Texnika_turi :: ustr where
  "cy_Texnika_turi = [1058, 1077, 1093, 1085, 1080, 1082, 1072, 32, 1090, 1091, 1088, 1080]"

definition cy_Texniki_turi :: ustr where
  "cy_Texniki_turi = [1058, 1077, 1093, 1085, 1080, 1082, 1080, 32, 1090, 1091, 1088, 1080]"

definition cy_Tip_texniki :: ustr where
  "cy_Tip_texniki = [1058, 1080, 1087, 32, 1090, 1077, 1093, 1085, 1080, 1082, 1080]"

definition cy_Turi_texnika :: ustr where
  "cy_Turi_texnika = [1058, 1091, 1088, 1080, 32, 1090, 1077, 1093, 1085, 1080, 1082, 1072]"

definition cy_Texnika_twri :: ustr where
  "cy_Texnika_twri = [1058, 1077, 1093, 1085, 1080, 1082, 1072, 32, 1090, 1118, 1088, 1080]"

definition cy_Vid_texniki :: ustr where
  "cy_Vid_texniki = [1042, 1080, 1076, 32, 1090, 1077, 1093, 1085, 1080, 1082, 1080]"

definition cy_Naimenovanie_texniki :: ustr where
  "cy_Naimenovanie_texniki = [1053, 1072, 1080, 1084, 1077, 1085, 1086, 1074, 1072, 1085, 1080, 1077, 32, 1090, 1077, 1093, 1085, 1080, 1082, 1080]"

definition cy_Biriktirilgan_shaxar_yoki_tuman :: ustr where
  "cy_Biriktirilgan_shaxar_yoki_tuman = [1041, 1080, 1088, 1080, 1082, 1090, 1080, 1088, 1080, 1083, 1075, 1072, 1085, 32, 1096, 1072, 1093, 1072, 1088, 32, 1105, 1082, 1080, 32, 1090, 1091, 1084, 1072, 1085]"

definition cy_Gorod_s_rayon :: ustr where
  "cy_Gorod_s_rayon = [1043, 1086, 1088, 1086, 1076, 47, 1088, 1072, 1081, 1086, 1085]"

definition cy_Rayon :: ustr where
  "cy_Rayon = [1056, 1072, 1081, 1086, 1085]"

definition cy_Tuman :: ustr where
  "cy_Tuman = [1058, 1091, 1084, 1072, 1085]"

definition cy_Naselennyiy_punkt :: ustr where
  "cy_Naselennyiy_punkt = [1053, 1072, 1089, 1077, 1083, 1077, 1085, 1085, 1099, 1081, 32, 1087, 1091, 1085, 1082, 1090]"

definition cy_Shaxar_s_tuman :: ustr where
  "cy_Shaxar_s_tuman = [1064, 1072, 1093, 1072, 1088, 47, 1090, 1091, 1084, 1072, 1085]"

definition cy_Shaxar_yoki_tuman :: ustr where
  "cy_Shaxar_yoki_tuman = [1064, 1072, 1093, 1072, 1088, 32, 1105, 1082, 1080, 32, 1090, 1091, 1084, 1072, 1085]"

definition cy_Kolichestvo :: ustr where
  "cy_Kolichestvo = [1050, 1086, 1083, 1080, 1095, 1077, 1089, 1090, 1074, 1086]"

definition cy_Kol_d_vo :: ustr where
  "cy_Kol_d_vo = [1050, 1086, 1083, 45, 1074, 1086]"

definition cy_Soni :: ustr where
  "cy_Soni = [1057, 1086, 1085, 1080]"

definition la_Qty :: ustr where
  "la_Qty = [81, 116, 121]"

definition la_Count :: ustr where
  "la_Count = [67, 111, 117, 110, 116]"

definition la_GPS :: ustr where
  "la_GPS = [71, 80, 83]"

definition la_Gps :: ustr where
  "la_Gps = [71, 112, 115]"

definition cy_Treker :: ustr where
  "cy_Treker = [1058, 1088, 1077, 1082, 1077, 1088]"

definition cy_Treker_ustanovlen :: ustr where
  "cy_Treker_ustanovlen = [1058, 1088, 1077, 1082, 1077, 1088, 32, 1091, 1089, 1090, 1072, 1085, 1086, 1074, 1083, 1077, 1085]"

definition cy_Nalichie_trekera :: ustr where
  "cy_Nalichie_trekera = [1053, 1072, 1083, 1080, 1095, 1080, 1077, 32, 1090, 1088, 1077, 1082, 1077, 1088, 1072]"

definition cy_Nalichie_GPS :: ustr where
  "cy_Nalichie_GPS = [1053, 1072, 1083, 1080, 1095, 1080, 1077, 32, 71, 80, 83]"

definition cy_GPS_treker :: ustr where
  "cy_GPS_treker = [71, 80, 83, 32, 1090, 1088, 1077, 1082, 1077, 1088]"

definition cy_GPS_d_treker :: ustr where
  "cy_GPS_d_treker = [71, 80, 83, 45, 1090, 1088, 1077, 1082, 1077, 1088]"

definition cy_GPS__s__GLONASS :: ustr where
  "cy_GPS__s__GLONASS = [71, 80, 83, 32, 47, 32, 1043, 1051, 1054, 1053, 1040, 1057, 1057]"

definition cy_GPS_s_GLONASS :: ustr where
  "cy_GPS_s_GLONASS = [71, 80, 83, 47, 1043, 1051, 1054, 1053, 1040, 1057, 1057]"

definition cy_GPS_bilan_taqhminlanganligi :: ustr where
  "cy_GPS_bilan_taqhminlanganligi = [71, 80, 83, 32, 1073, 1080, 1083, 1072, 1085, 32, 1090, 1072, 1098, 1084, 1080, 1085, 1083, 1072, 1085, 1075, 1072, 1085, 1083, 1080, 1075, 1080]"

definition cy_GPS_bilapn_taqhminlanganligi :: ustr where
  "cy_GPS_bilapn_taqhminlanganligi = [71, 80, 83, 32, 1073, 1080, 1083, 1072, 1087, 1085, 32, 1090, 1072, 1098, 1084, 1080, 1085, 1083, 1072, 1085, 1075, 1072, 1085, 1083, 1080, 1075, 1080]"

definition cy_xolat :: ustr where
  "cy_xolat = [1093, 1086, 1083, 1072, 1090]"

definition cy_holat :: ustr where
  "cy_holat = [1203, 1086, 1083, 1072, 1090]"

definition la_holat :: ustr where
  "la_holat = [104, 111, 108, 97, 116]"

definition la_status :: ustr where
  "la_status = [115, 116, 97, 116, 117, 115]"

definition cy_sostoyanie :: ustr where
  "cy_sostoyanie = [1089, 1086, 1089, 1090, 1086, 1103, 1085, 1080, 1077]"

definition cy_shaxar :: ustr where
  "cy_shaxar = [1096, 1072, 1093, 1072, 1088]"

definition cy_tuman :: ustr where
  "cy_tuman = [1090, 1091, 1084, 1072, 1085]"

definition cy_rayon :: ustr where
  "cy_rayon = [1088, 1072, 1081, 1086, 1085]"

definition cy_gorod :: ustr where
  "cy_gorod = [1075, 1086, 1088, 1086, 1076]"

definition cy_texnika :: ustr where
  "cy_texnika = [1090, 1077, 1093, 1085, 1080, 1082, 1072]"

definition cy_tip :: ustr where
  "cy_tip = [1090, 1080, 1087]"

definition cy_tur :: ustr where
  "cy_tur = [1090, 1091, 1088]"

definition cy_vid :: ustr where
  "cy_vid = [1074, 1080, 1076]"

definition la_region_name :: ustr where
  "la_region_name = [114, 101, 103, 105, 111, 110, 95, 110, 97, 109, 101]"

definition la_city_district :: ustr where
  "la_city_district = [99, 105, 116, 121, 95, 100, 105, 115, 116, 114, 105, 99, 116]"

definition la_type_normalized :: ustr where
  "la_type_normalized = [116, 121, 112, 101, 95, 110, 111, 114, 109, 97, 108, 105, 122, 101, 100]"

definition la_status_normalized :: ustr where
  "la_status_normalized = [115, 116, 97, 116, 117, 115, 95, 110, 111, 114, 109, 97, 108, 105, 122, 101, 100]"

definition la_qty :: ustr where
  "la_qty = [113, 116, 121]"

definition la_has_tracker :: ustr where
  "la_has_tracker = [104, 97, 115, 95, 116, 114, 97, 99, 107, 101, 114]"

definition la_Cannot_convert_non_d_finite_values_U0028NA_or_infU0029_to_integer :: ustr where
  "la_Cannot_convert_non_d_finite_values_U0028NA_or_infU0029_to_integer = [67, 97, 110, 110, 111, 116, 32, 99, 111, 110, 118, 101, 114, 116, 32, 110, 111, 110, 45, 102, 105, 110, 105, 116, 101, 32, 118, 97, 108, 117, 101, 115, 32, 40, 78, 65, 32, 111, 114, 32, 105, 110, 102, 41, 32, 116, 111, 32, 105, 110, 116, 101, 103, 101, 114]"

definition cy_Ne_ukazan :: ustr where
  "cy_Ne_ukazan = [1053, 1077, 32, 1091, 1082, 1072, 1079, 1072, 1085]"

definition la_429 :: ustr where
  "la_429 = [52, 50, 57]"

definition la_ALL :: ustr where
  "la_ALL = [65, 76, 76]"

definition cy_ne_ispraven :: ustr where
  "cy_ne_ispraven = [1085, 1077, 32, 1080, 1089, 1087, 1088, 1072, 1074, 1077, 1085]"

definition la_1_p_5 :: ustr where
  "la_1_p_5 = [49, 46, 53]"

definition cy_GPS_mavzhud_ehmas :: ustr where
  "cy_GPS_mavzhud_ehmas = [71, 80, 83, 32, 1084, 1072, 1074, 1078, 1091, 1076, 32, 1101, 1084, 1072, 1089]"

definition la_Qty1 :: ustr where
  "la_Qty1 = [81, 116, 121, 49]"

definition cy_Xorazm :: ustr where
  "cy_Xorazm = [1061, 1086, 1088, 1072, 1079, 1084]"

definition cy_Zdanie :: ustr where
  "cy_Zdanie = [1047, 1076, 1072, 1085, 1080, 1077]"

definition la_sheet1 :: ustr where
  "la_sheet1 = [115, 104, 101, 101, 116, 49]"

definition cy_Navoiy :: ustr where
  "cy_Navoiy = [1053, 1072, 1074, 1086, 1080, 1081]"

definition cy_bor :: ustr where
  "cy_bor = [1073, 1086, 1088]"

definition cy_Sirdaryo :: ustr where
  "cy_Sirdaryo = [1057, 1080, 1088, 1076, 1072, 1088, 1105]"

text \<open>\<^verbatim>\<open>p in s\<close> on strings: \<open>p\<close> occurs in \<open>s\<close> as a contiguous block.\<close>

fun py_in :: "ustr \<Rightarrow> ustr \<Rightarrow> bool" where
  "py_in p [] = (p = [])"
| "py_in p (c # s) = (prefix p (c # s) \<or> py_in p s)"

text \<open>\<^verbatim>\<open>s.replace(a, b)\<close> for one-character strings \<open>a\<close> and \<open>b\<close>.\<close>

definition py_replace :: "nat \<Rightarrow> nat \<Rightarrow> ustr \<Rightarrow> ustr" where
  "py_replace a b s = map (\<lambda>c. if c = a then b else c) s"

text \<open>
  A cell of a data frame: a string, an integer, a float other than NaN (kept as its
  \<^verbatim>\<open>repr\<close>, which is all the program reads of it through \<^verbatim>\<open>str\<close>), a truth value, or a
  missing value (NaN or \<^verbatim>\<open>None\<close>).
\<close>

datatype cell = CStr ustr | CInt int | CFloat ustr | CBool bool | CNaN

text \<open>
  What \<^verbatim>\<open>pd.to_numeric(..., errors="coerce")\<close> makes of one cell, read as the integer that
  \<^verbatim>\<open>astype(int)\<close> truncates it to: a number, NaN for a cell that is not a number, or a
  non-finite float, on which \<^verbatim>\<open>astype(int)\<close> raises.
\<close>

datatype numeric = NumInt int | NumNaN | NumNonFinite

text \<open>What the comparisons \<^verbatim>\<open>num > 0\<close> and \<^verbatim>\<open>num == 0\<close> observe of a float.\<close>

datatype fclass = FPos | FZero | FNeg | FNan

text \<open>
  The tables of the Python runtime and of pandas that the program consults but does not contain.
  Every definition below takes them as the parameter \<open>L\<close>.
\<close>

record pylib =
  lib_nfkc :: "ustr \<Rightarrow> ustr"              \<comment> \<open>\<^verbatim>\<open>unicodedata.normalize("NFKC", s)\<close>\<close>
  lib_lower :: "ustr \<Rightarrow> ustr"             \<comment> \<open>\<^verbatim>\<open>s.lower()\<close>\<close>
  lib_capitalize :: "ustr \<Rightarrow> ustr"        \<comment> \<open>\<^verbatim>\<open>s.capitalize()\<close>\<close>
  lib_isspace :: "nat \<Rightarrow> bool"            \<comment> \<open>whitespace of \<^verbatim>\<open>str.strip\<close> and of \<^verbatim>\<open>\s\<close>\<close>
  lib_isword :: "nat \<Rightarrow> bool"             \<comment> \<open>the class \<^verbatim>\<open>\w\<close>\<close>
  lib_decimal :: "nat \<Rightarrow> nat option"      \<comment> \<open>value of a decimal digit (category Nd)\<close>
  lib_to_numeric :: "cell \<Rightarrow> numeric"      \<comment> \<open>\<^verbatim>\<open>pd.to_numeric\<close> then \<^verbatim>\<open>astype(int)\<close>, per cell\<close>

definition py_strip :: "pylib \<Rightarrow> ustr \<Rightarrow> ustr" where
  "py_strip L s = rev (dropWhile (lib_isspace L) (rev (dropWhile (lib_isspace L) s)))"

fun str_nat :: "nat \<Rightarrow> ustr" where
  "str_nat n = (if n < 10 then [48 + n] else str_nat (n div 10) @ [48 + n mod 10])"

declare str_nat.simps [simp del]

definition str_int :: "int \<Rightarrow> ustr" where
  "str_int i = (if i < 0 then 45 # str_nat (nat (- i)) else str_nat (nat i))"

text \<open>\<^verbatim>\<open>str(value)\<close> of a cell.\<close>

fun py_str :: "cell \<Rightarrow> ustr" where
  "py_str (CStr s) = s"
| "py_str (CInt i) = str_int i"
| "py_str (CFloat r) = r"
| "py_str (CBool b) = (if b then la_True else la_False)"
| "py_str CNaN = la_nan"

subsection \<open>Regular expressions\<close>

text \<open>
  The patterns of the program use literals, \<^verbatim>\<open>\s*\<close>, alternatives of literals and \<^verbatim>\<open>\b\<close>.
  \<open>rmatch\<close> says whether a pattern matches at the start of the text, \<open>prev\<close> being the
  character before it; \<open>re_search\<close> tries every position, as \<^verbatim>\<open>re.search\<close> does.
\<close>

datatype re_item = Lit ustr | Spaces | Alt "ustr list" | WordB

definition is_word_opt :: "pylib \<Rightarrow> nat option \<Rightarrow> bool" where
  "is_word_opt L c = (case c of None \<Rightarrow> False | Some x \<Rightarrow> lib_isword L x)"

definition after_lit :: "nat option \<Rightarrow> ustr \<Rightarrow> nat option" where
  "after_lit prev l = (if l = [] then prev else Some (last l))"

function rmatch :: "pylib \<Rightarrow> re_item list \<Rightarrow> nat option \<Rightarrow> ustr \<Rightarrow> bool" where
  "rmatch L [] prev s = True"
| "rmatch L (Lit l # r) prev s =
     (prefix l s \<and> rmatch L r (after_lit prev l) (drop (length l) s))"
| "rmatch L (Spaces # r) prev s =
     (rmatch L r prev s \<or>
      (case s of [] \<Rightarrow> False
       | c # t \<Rightarrow> lib_isspace L c \<and> rmatch L (Spaces # r) (Some c) t))"
| "rmatch L (Alt [] # r) prev s = False"
| "rmatch L (Alt (l # ls) # r) prev s =
     ((prefix l s \<and> rmatch L r (after_lit prev l) (drop (length l) s)) \<or>
      rmatch L (Alt ls # r) prev s)"
| "rmatch L (WordB # r) prev s =
     (is_word_opt L prev \<noteq> is_word_opt L (case s of [] \<Rightarrow> None | c # _ \<Rightarrow> Some c)
      \<and> rmatch L r prev s)"
  by pat_completeness auto
termination
  by (relation "measure (\<lambda>(L, r, prev, s).
        length s + length r + sum_list (map (\<lambda>i. case i of Alt ls \<Rightarrow> length ls | _ \<Rightarrow> 0) r))")
     auto

fun re_search :: "pylib \<Rightarrow> re_item list \<Rightarrow> nat option \<Rightarrow> ustr \<Rightarrow> bool" where
  "re_search L r prev [] = rmatch L r prev []"
| "re_search L r prev (c # s) = (rmatch L r prev (c # s) \<or> re_search L r (Some c) s)"

text \<open>\<^verbatim>\<open>re.sub(r"[^\w\s]", " ", s)\<close>\<close>

definition sub_nonword :: "pylib \<Rightarrow> ustr \<Rightarrow> ustr" where
  "sub_nonword L s = map (\<lambda>c. if lib_isword L c \<or> lib_isspace L c then c else 32) s"

text \<open>\<^verbatim>\<open>re.sub(r"\s+", rep, s)\<close>: every maximal run of whitespace becomes \<open>rep\<close>.\<close>

fun sub_spaces :: "pylib \<Rightarrow> ustr \<Rightarrow> ustr \<Rightarrow> ustr" where
  "sub_spaces L rep [] = []"
| "sub_spaces L rep [c] = (if lib_isspace L c then rep else [c])"
| "sub_spaces L rep (c # d # s) =
     (if lib_isspace L c
      then (if lib_isspace L d then sub_spaces L rep (d # s) else rep @ sub_spaces L rep (d # s))
      else c # sub_spaces L rep (d # s))"

section \<open>Text normalizer\<close>

definition APOSTS :: "nat list" where
  "APOSTS = [39, 700, 8217, 697, 8242, 96, 180, 701, 42892, 699]"

definition prenorm :: "pylib \<Rightarrow> ustr \<Rightarrow> ustr" where
  "prenorm L s = py_replace 160 32 (fold (\<lambda>a. py_replace a 39) APOSTS (lib_nfkc L s))"

text \<open>The normal form that both classifiers search: lines 222-224 and 279-281.\<close>

definition norm_text :: "pylib \<Rightarrow> ustr \<Rightarrow> ustr" where
  "norm_text L s =
     py_strip L (sub_spaces L [32] (sub_nonword L (lib_lower L (py_strip L (prenorm L s)))))"

subsection \<open>normalize_status\<close>

definition re_v_rabochem :: "re_item list" where
  "re_v_rabochem =
     [WordB, Lit cy_v, Spaces, Lit cy_raboch, Alt [cy_em, cy_ee, []], Spaces,
      Lit cy_sostoyani, Alt [cy_i, cy_e], WordB]"

definition re_v_remontn :: "re_item list" where
  "re_v_remontn = [WordB, Lit cy_v, Spaces, Lit cy_remontn]"

definition is_operational :: "pylib \<Rightarrow> ustr \<Rightarrow> bool" where
  "is_operational L s =
    (py_in cy_yaroqli s \<or> py_in cy_yarokli s
     \<or> py_in cy_ishlaydi s \<or> py_in cy_ishlamoqda s \<or> py_in cy_ishlab_turibdi s
     \<or> py_in cy_ishga_yaroqli s \<or> py_in cy_ishga_yarokli s
     \<or> py_in cy_ehkspluatatsiyada s \<or> py_in cy_foydalanishda s \<or> py_in cy_v_ehkspluatatsii s
     \<or> py_in la_operational s \<or> py_in la_in_service s \<or> py_in la_working s
     \<or> re_search L re_v_rabochem None s
     \<or> py_in cy_ispraven s \<or> py_in cy_ispravna s \<or> py_in cy_ispravno s
     \<or> py_in cy_ispravnyiy s
     \<or> py_in cy_rabotaet s \<or> py_in la_ready s \<or> py_in la_good s \<or> py_in la_active s)"

definition is_non_operational :: "ustr \<Rightarrow> bool" where
  "is_non_operational s =
    (py_in cy_yaroqsiz s \<or> py_in cy_yaroksiz s
     \<or> py_in cy_ishlamayapti s \<or> py_in cy_ishlamaydi s \<or> py_in cy_ishlamagan s
     \<or> py_in cy_ishdan_chiqqan s \<or> py_in cy_ishdan_chikkan s \<or> py_in cy_tizimdan_tashqari s
     \<or> py_in cy_ne_rabotaet s \<or> py_in cy_v_ne_ispravn s \<or> py_in cy_vne_ispravn s
     \<or> py_in la_broken s \<or> py_in la_inactive s \<or> py_in la_out_of_order s
     \<or> py_in cy_qisman_ishlamaydi s \<or> py_in cy_chastichno_ne_rabotaet s
     \<or> (py_in cy_ispraven s \<and> py_in cy_ne s)
     \<or> py_in cy_neisprav s)"

definition is_repair :: "pylib \<Rightarrow> ustr \<Rightarrow> bool" where
  "is_repair L s =
    (py_in cy_taqhmirtalab s \<or> py_in cy_tamirtalab s
     \<or> py_in cy_taqhmirda s \<or> py_in cy_remontda s
     \<or> py_in cy_remont s \<or> py_in cy_remontiruetsya s
     \<or> py_in cy_na_remonte s \<or> re_search L re_v_remontn None s
     \<or> py_in cy_obsluzhivan s \<or> py_in cy_texobsluzh s
     \<or> py_in la_maintenance s \<or> py_in la_under_repair s \<or> py_in la_repair s)"

definition normalize_status :: "pylib \<Rightarrow> cell \<Rightarrow> ustr" where
  "normalize_status L status =
    (case status of
       CStr raw \<Rightarrow>
         if py_strip L raw = [] then cy_Xolati_nomaqhlum
         else
           let s = norm_text L raw in
           if list_ex (\<lambda>tok. py_in tok s) [[9989], [128994], la_green, la_ok]
             then cy_Yarokli
           else if list_ex (\<lambda>tok. py_in tok s) [[9940], [128721], [128308], [10060]]
             then cy_Yaroksiz
           else if list_ex (\<lambda>tok. py_in tok s) [[128736], [128993], [9888]]
             then cy_Taqhmirtalab
           else if is_operational L s then cy_Yarokli
           else if is_non_operational s then cy_Yaroksiz
           else if is_repair L s then cy_Taqhmirtalab
           else cy_Xolati_nomaqhlum
     | _ \<Rightarrow> cy_Xolati_nomaqhlum)"

subsection \<open>normalize_tech_type\<close>

definition summary_keywords :: "ustr list" where
  "summary_keywords = [cy_zhami, cy_itogo, cy_barchasi, cy_vsego, la_jami, la_all]"

definition type_mapping :: "(ustr \<times> ustr) list" where
  "type_mapping =
    [(cy_pogruzchik, cy_Pogruzchik),
     (cy_mini_bortovoy, cy_Mini_bortovoy),
     (cy_minii_bortovoy, cy_Mini_bortovoy),
     (cy_mikro_bortovoy, cy_Mini_bortovoy),
     (cy_ehvakuator, cy_Ehvakuator),
     (cy_xlorovoz, cy_Xlorovoz),
     (cy_samosval, cy_Samosval),
     (cy_ehkskavator, cy_Ehkskavator),
     (cy_traktor, cy_Traktor),
     (cy_buljdozer, cy_Buljdozer),
     (cy_avtokran, cy_Avtokran),
     (cy_betonomeshalka, cy_Betonomeshalka),
     (cy_tsisterna, cy_Tsisterna),
     (cy_furgon, cy_Furgon),
     (cy_refrizherator, cy_Refrizherator),
     (cy_gidrolinamicheskaya, cy_Gidrodinamicheskaya),
     (cy_gidrolinamicheskiy, cy_Gidrodinamicheskaya),
     (cy_gidrodinamicheskaya, cy_Gidrodinamicheskaya),
     (cy_gidrodinamicheskiy, cy_Gidrodinamicheskaya),
     (cy_gidravlicheskaya, cy_Gidrodinamicheskaya),
     (cy_labolatornaya, cy_Laboratornaya),
     (cy_loboratornaya, cy_Laboratornaya),
     (cy_laboratornaya, cy_Laboratornaya),
     (cy_kamaz, cy_Kamaz),
     (cy_zil, cy_ZIL),
     (cy_gazelj, cy_GAZelj),
     (cy_uaz, cy_UAZ),
     (cy_kompressor, cy_Kompressor),
     (cy_generator, cy_Generator),
     (cy_avtobus, cy_Avtobus),
     (cy_mikroavtobus, cy_Mikroavtobus),
     (cy_mashina, cy_Mashina),
     (cy_gruzovik, cy_Gruzovik)]"

definition normalize_tech_type :: "pylib \<Rightarrow> cell \<Rightarrow> ustr option" where
  "normalize_tech_type L tech_type =
    (case tech_type of
       CStr raw \<Rightarrow>
         if py_strip L raw = [] then None
         else
           let normalized = norm_text L raw in
           if normalized = [] \<or> normalized \<in> set [la_nan, la_none, la_null, []] then None
           else if list_ex (\<lambda>k. py_in k normalized) summary_keywords then None
           else (case find (\<lambda>(key, standard_name). py_in key normalized) type_mapping of
                   Some (key, standard_name) \<Rightarrow> Some standard_name
                 | None \<Rightarrow> Some (lib_capitalize L (py_strip L raw)))
     | _ \<Rightarrow> None)"

subsection \<open>normalize_tracker_flag\<close>

text \<open>
  \<^verbatim>\<open>float(s)\<close> as the language reference defines it: surrounding whitespace, a sign, then
  \<^verbatim>\<open>inf\<close>, \<^verbatim>\<open>infinity\<close> or \<^verbatim>\<open>nan\<close> in any case, or a decimal number with an optional
  fraction and exponent whose digits may be grouped by single underscores. \<open>None\<close> is
  \<^verbatim>\<open>ValueError\<close>. The value is correctly rounded, so it is zero exactly when the digits are all
  zero or the number is at most \<open>2 ^ - 1075\<close>.
\<close>

fun digit_tail :: "pylib \<Rightarrow> nat list \<Rightarrow> ustr \<Rightarrow> nat list \<times> ustr" where
  "digit_tail L acc [] = (acc, [])"
| "digit_tail L acc [c] =
     (case lib_decimal L c of Some d \<Rightarrow> (acc @ [d], []) | None \<Rightarrow> (acc, [c]))"
| "digit_tail L acc (c # c' # s) =
     (case lib_decimal L c of
        Some d \<Rightarrow> digit_tail L (acc @ [d]) (c' # s)
      | None \<Rightarrow>
          if c = 95 then
            (case lib_decimal L c' of
               Some d \<Rightarrow> digit_tail L (acc @ [d]) s
             | None \<Rightarrow> (acc, c # c' # s))
          else (acc, c # c' # s))"

definition digitpart :: "pylib \<Rightarrow> ustr \<Rightarrow> (nat list \<times> ustr) option" where
  "digitpart L s =
     (case s of
        [] \<Rightarrow> None
      | c # t \<Rightarrow> (case lib_decimal L c of None \<Rightarrow> None | Some d \<Rightarrow> Some (digit_tail L [d] t)))"

definition digits_val :: "nat list \<Rightarrow> nat" where
  "digits_val ds = foldl (\<lambda>a d. 10 * a + d) 0 ds"

definition exponent :: "pylib \<Rightarrow> ustr \<Rightarrow> int option" where
  "exponent L s =
     (case s of
        [] \<Rightarrow> Some 0
      | c # t \<Rightarrow>
          if c = 101 \<or> c = 69 then
            (let (neg, r) = (case t of [] \<Rightarrow> (False, t)
                             | x # r \<Rightarrow> if x = 43 then (False, r)
                                        else if x = 45 then (True, r) else (False, t))
             in case digitpart L r of
                  Some (ds, rest) \<Rightarrow>
                    if rest = [] then Some ((if neg then - 1 else 1) * int (digits_val ds))
                    else None
                | None \<Rightarrow> None)
          else None)"

definition float_class :: "bool \<Rightarrow> nat \<Rightarrow> int \<Rightarrow> fclass" where
  "float_class neg m e =
     (if m = 0 then FZero
      else if - 323 \<le> e then (if neg then FNeg else FPos)
      else if m * 2 ^ 1075 \<le> 10 ^ nat (- e) then FZero
      else (if neg then FNeg else FPos))"

definition float_number :: "pylib \<Rightarrow> bool \<Rightarrow> nat list \<Rightarrow> nat list \<Rightarrow> ustr \<Rightarrow> fclass option" where
  "float_number L neg ip fp r =
     (case exponent L r of
        None \<Rightarrow> None
      | Some e \<Rightarrow> Some (float_class neg (digits_val (ip @ fp)) (e - int (length fp))))"

definition ascii_lower :: "ustr \<Rightarrow> ustr" where
  "ascii_lower s = map (\<lambda>c. if 65 \<le> c \<and> c \<le> 90 then c + 32 else c) s"

text \<open>
  The characters that can occur in a string \<^verbatim>\<open>float\<close> accepts, once stripped: digits, signs,
  the point, the underscore, and the letters of the exponent and of \<^verbatim>\<open>infinity\<close> and \<^verbatim>\<open>nan\<close>.
  A string with any other character is rejected, whatever the rest of it is.
\<close>

definition float_char :: "pylib \<Rightarrow> nat \<Rightarrow> bool" where
  "float_char L c =
     (lib_decimal L c \<noteq> None \<or> c \<in> set [43, 45, 46, 95] \<or> c \<in> set (ascii_lower la_infatye)
      \<or> c \<in> set la_INFATYE)"

definition py_float :: "pylib \<Rightarrow> ustr \<Rightarrow> fclass option" where
  "py_float L s =
     (let t = py_strip L s in
      if \<not> list_all (float_char L) t then None
      else
        let (neg, r) = (case t of [] \<Rightarrow> (False, t)
                        | x # r \<Rightarrow> if x = 43 then (False, r)
                                   else if x = 45 then (True, r) else (False, t))
        in if ascii_lower r = la_inf \<or> ascii_lower r = la_infinity
             then Some (if neg then FNeg else FPos)
           else if ascii_lower r = la_nan then Some FNan
           else
             (case digitpart L r of
                Some (ip, r1) \<Rightarrow>
                  (case r1 of
                     [] \<Rightarrow> float_number L neg ip [] r1
                   | x # r2 \<Rightarrow>
                       if x = 46 then
                         (case digitpart L r2 of
                            Some (fp, r3) \<Rightarrow> float_number L neg ip fp r3
                          | None \<Rightarrow> float_number L neg ip [] r2)
                       else float_number L neg ip [] r1)
              | None \<Rightarrow>
                  (case r of
                     [] \<Rightarrow> None
                   | x # r2 \<Rightarrow>
                       if x = 46 then
                         (case digitpart L r2 of
                            Some (fp, r3) \<Rightarrow> float_number L neg [] fp r3
                          | None \<Rightarrow> None)
                       else None)))"

definition normalize_tracker_flag :: "pylib \<Rightarrow> cell \<Rightarrow> bool" where
  "normalize_tracker_flag L v =
    (let s = py_strip L (py_str v) in
     if s = [] then False
     else
       (case py_float L (py_replace 44 46 s) of
          Some FPos \<Rightarrow> True
        | Some FZero \<Rightarrow> False
        | _ \<Rightarrow>
          let s_low = lib_lower L s in
          if py_in cy_mavzhud_ehmas s_low \<or> py_in la_mavjud_emas s_low then False
          else if py_in cy_mavzhud s_low \<or> py_in la_mavjud s_low then True
          else if s_low \<in> set [la_no, cy_net, la_yo_a_q, cy_ywq, la_yuk, cy_yuk, la_0,
                                la_false, la_n] then False
          else if s_low \<in> set [la_yes, cy_da, la_ha, la_bor, cy_estj, la_1, la_true,
                                la_y, cy_d] then True
          else if (py_in la_gps s_low \<or> py_in cy_treker s_low)
                  \<and> \<not> py_in cy_net s_low \<and> \<not> py_in la_yo_a_q s_low
                  \<and> \<not> py_in cy_ywq s_low then True
          else False))"

section \<open>Schema resolver\<close>

definition STATUS_ALIASES :: "ustr list" where
  "STATUS_ALIASES =
     [cy_Xolati, cy_Holati, cy_Status, cy_Sostoyanie, cy_Holat, la_Holati, la_Status,
      cy_Texnika_xolati, cy_Texnika_holati, cy_Texnika_statusyi, cy_Texnika_sostoyanie]"

definition TYPE_ALIASES :: "ustr list" where
  "TYPE_ALIASES =
     [cy_Texnika_turi, cy_Texniki_turi, cy_Tip_texniki, cy_Turi_texnika, cy_Texnika_twri,
      cy_Vid_texniki, cy_Naimenovanie_texniki]"

definition REGION_ALIASES :: "ustr list" where
  "REGION_ALIASES =
     [cy_Biriktirilgan_shaxar_yoki_tuman, cy_Gorod_s_rayon, cy_Rayon, cy_Tuman,
      cy_Naselennyiy_punkt, cy_Shaxar_s_tuman, cy_Shaxar_yoki_tuman]"

definition QTY_ALIASES :: "ustr list" where
  "QTY_ALIASES = [cy_Kolichestvo, cy_Kol_d_vo, cy_Soni, la_Qty, la_Count]"

definition TRACKER_ALIASES :: "ustr list" where
  "TRACKER_ALIASES =
     [la_GPS, la_Gps, la_gps, cy_Treker, cy_Treker_ustanovlen, cy_Nalichie_trekera,
      cy_Nalichie_GPS, cy_GPS_treker, cy_GPS_d_treker, cy_GPS__s__GLONASS, cy_GPS_s_GLONASS,
      cy_GPS_bilan_taqhminlanganligi, cy_GPS_bilapn_taqhminlanganligi]"

definition normalize_header :: "pylib \<Rightarrow> ustr \<Rightarrow> ustr" where
  "normalize_header L s = sub_spaces L [] (py_replace 1203 1093 (lib_lower L (py_strip L s)))"

text \<open>
  The dictionary \<^verbatim>\<open>{_normalize_header(c): c for c in cols}\<close>, in its iteration order: a key
  stays where it was first inserted and takes the last column that normalizes to it.
\<close>

definition norm_map :: "pylib \<Rightarrow> ustr list \<Rightarrow> (ustr \<times> ustr) list" where
  "norm_map L cols = fold (\<lambda>c m. AList.update (normalize_header L c) c m) cols []"

text \<open>Step 1, the loop over the aliases that returns at the first exact hit.\<close>

fun exact_match :: "pylib \<Rightarrow> (ustr \<times> ustr) list \<Rightarrow> ustr list \<Rightarrow> ustr option" where
  "exact_match L norm_cols [] = None"
| "exact_match L norm_cols (a # as) =
     (case map_of norm_cols (normalize_header L a) of
        Some orig \<Rightarrow> Some orig
      | None \<Rightarrow> exact_match L norm_cols as)"

text \<open>Step 2, the two nested loops that keep the hit with the shortest normalized header.\<close>

definition substring_step :: "pylib \<Rightarrow> ustr \<Rightarrow> ustr \<times> ustr \<Rightarrow> ustr option \<Rightarrow> ustr option" where
  "substring_step L ka p best =
     (case p of (nc, orig) \<Rightarrow>
        if ka \<noteq> [] \<and> py_in ka nc then
          (case best of
             None \<Rightarrow> Some orig
           | Some b \<Rightarrow> if length nc < length (normalize_header L b) then Some orig else best)
        else best)"

definition substring_match :: "pylib \<Rightarrow> (ustr \<times> ustr) list \<Rightarrow> ustr list \<Rightarrow> ustr option" where
  "substring_match L norm_cols aliases =
     fold (\<lambda>a best. let ka = normalize_header L a in fold (substring_step L ka) norm_cols best)
       aliases None"

definition token_sets :: "ustr list list" where
  "token_sets =
     [[cy_xolat, cy_holat, la_holat, la_status, cy_sostoyanie],
      [cy_shaxar, cy_tuman, cy_rayon, cy_gorod],
      [cy_texnika, cy_tip, cy_tur, cy_vid]]"

text \<open>Step 3, the loop over the token sets that returns at the first header with a token.\<close>

fun token_match :: "(ustr \<times> ustr) list \<Rightarrow> ustr list list \<Rightarrow> ustr option" where
  "token_match norm_cols [] = None"
| "token_match norm_cols (tokens # rest) =
     (case find (\<lambda>(nc, orig). list_ex (\<lambda>tok. py_in tok nc) tokens) norm_cols of
        Some (nc, orig) \<Rightarrow> Some orig
      | None \<Rightarrow> token_match norm_cols rest)"

definition find_column :: "pylib \<Rightarrow> ustr list \<Rightarrow> ustr list \<Rightarrow> ustr option" where
  "find_column L cols aliases =
     (let norm_cols = norm_map L cols in
      case exact_match L norm_cols aliases of
        Some orig \<Rightarrow> Some orig
      | None \<Rightarrow>
          (case substring_match L norm_cols aliases of
             Some best \<Rightarrow> if best \<noteq> [] then Some best else token_match norm_cols token_sets
           | None \<Rightarrow> token_match norm_cols token_sets))"

section \<open>Row pipeline\<close>

text \<open>
  A data frame: the column labels in order, and the rows, each a dictionary from label to cell,
  kept as an association list. A label that a row does not have reads as NaN. The frame \<^verbatim>\<open>pd.DataFrame(values)\<close> built
  from the records of a sheet is the input of the pipeline; column labels that collide after
  \<^verbatim>\<open>strip\<close> are outside the model.
\<close>

record frame =
  columns :: "ustr list"
  rows :: "(ustr \<times> cell) list list"

definition cell_of :: "(ustr \<times> cell) list \<Rightarrow> ustr \<Rightarrow> cell" where
  "cell_of r c = (case map_of r c of Some v \<Rightarrow> v | None \<Rightarrow> CNaN)"

definition frame_empty :: "frame \<Rightarrow> bool" where
  "frame_empty df = (rows df = [] \<or> columns df = [])"

definition get_col :: "frame \<Rightarrow> ustr \<Rightarrow> cell list" where
  "get_col df c = map (\<lambda>r. cell_of r c) (rows df)"

text \<open>\<^verbatim>\<open>df[c] = vs\<close>: a new label is appended, an old one keeps its place.\<close>

definition set_col :: "ustr \<Rightarrow> cell list \<Rightarrow> frame \<Rightarrow> frame" where
  "set_col c vs df =
     \<lparr> columns = (if c \<in> set (columns df) then columns df else columns df @ [c]),
       rows = map (\<lambda>(r, v). AList.update c v r) (zip (rows df) vs) \<rparr>"

definition set_col_const :: "ustr \<Rightarrow> cell \<Rightarrow> frame \<Rightarrow> frame" where
  "set_col_const c v df = set_col c (replicate (length (rows df)) v) df"

text \<open>\<^verbatim>\<open>df.columns = [f(c) for c in df.columns]\<close>\<close>

definition rename_columns :: "(ustr \<Rightarrow> ustr) \<Rightarrow> frame \<Rightarrow> frame" where
  "rename_columns f df =
     \<lparr> columns = map f (columns df),
       rows = map (map (\<lambda>(c, v). (f c, v))) (rows df) \<rparr>"

definition filter_rows :: "((ustr \<times> cell) list \<Rightarrow> bool) \<Rightarrow> frame \<Rightarrow> frame" where
  "filter_rows P df = \<lparr> columns = columns df, rows = filter P (rows df) \<rparr>"

definition fillna :: "cell \<Rightarrow> cell \<Rightarrow> cell" where
  "fillna d v = (if v = CNaN then d else v)"

text \<open>A canonical record: the six columns the pipeline keeps.\<close>

record crecord =
  region_name :: ustr
  city_district :: ustr
  type_normalized :: ustr
  status_normalized :: ustr
  qty :: int
  has_tracker :: bool

type_synonym dataset = "crecord list"

definition str_of_cell :: "cell \<Rightarrow> ustr" where
  "str_of_cell c = (case c of CStr s \<Rightarrow> s | _ \<Rightarrow> [])"

definition int_of_cell :: "cell \<Rightarrow> int" where
  "int_of_cell c = (case c of CInt i \<Rightarrow> i | _ \<Rightarrow> 0)"

definition bool_of_cell :: "cell \<Rightarrow> bool" where
  "bool_of_cell c = (case c of CBool b \<Rightarrow> b | _ \<Rightarrow> False)"

text \<open>\<^verbatim>\<open>df[keep]\<close>, each column read at the type the pipeline wrote it with.\<close>

definition to_dataset :: "frame \<Rightarrow> dataset" where
  "to_dataset df =
     map (\<lambda>r. \<lparr> region_name = str_of_cell (cell_of r la_region_name),
                 city_district = str_of_cell (cell_of r la_city_district),
                 type_normalized = str_of_cell (cell_of r la_type_normalized),
                 status_normalized = str_of_cell (cell_of r la_status_normalized),
                 qty = int_of_cell (cell_of r la_qty),
                 has_tracker = bool_of_cell (cell_of r la_has_tracker) \<rparr>) (rows df)"

text \<open>An exception is its message, \<^verbatim>\<open>str(e)\<close>.\<close>

type_synonym exn = ustr

definition non_finite_message :: exn where
  "non_finite_message = la_Cannot_convert_non_d_finite_values_U0028NA_or_infU0029_to_integer"

fun collect :: "(exn + 'a) list \<Rightarrow> exn + 'a list" where
  "collect [] = Inr []"
| "collect (x # xs) =
     (case x of
        Inl e \<Rightarrow> Inl e
      | Inr v \<Rightarrow> (case collect xs of Inl e \<Rightarrow> Inl e | Inr vs \<Rightarrow> Inr (v # vs)))"

text \<open>\<^verbatim>\<open>pd.to_numeric(..., errors="coerce").fillna(0).astype(int)\<close> on one cell.\<close>

definition astype_int :: "pylib \<Rightarrow> cell \<Rightarrow> exn + int" where
  "astype_int L c =
     (case lib_to_numeric L c of
        NumInt i \<Rightarrow> Inr i
      | NumNaN \<Rightarrow> Inr 0
      | NumNonFinite \<Rightarrow> Inl non_finite_message)"

text \<open>Lines 418 and 419: the quantity column.\<close>

definition qty_column :: "pylib \<Rightarrow> cell list \<Rightarrow> exn + int list" where
  "qty_column L cells =
     (case collect (map (astype_int L) cells) of
        Inl e \<Rightarrow> Inl e
      | Inr qs \<Rightarrow> Inr (map (\<lambda>q. if q \<le> 0 then 1 else q) qs))"

text \<open>A column name that passes \<^verbatim>\<open>if col:\<close>, which the empty string does not.\<close>

definition truthy :: "ustr option \<Rightarrow> ustr option" where
  "truthy c = (case c of None \<Rightarrow> None | Some s \<Rightarrow> if s = [] then None else Some s)"

definition opt_cell :: "ustr option \<Rightarrow> cell" where
  "opt_cell v = (case v of None \<Rightarrow> CNaN | Some s \<Rightarrow> CStr s)"

text \<open>Lines 445 to 448: the district of one row.\<close>

definition district_of :: "pylib \<Rightarrow> ustr \<Rightarrow> cell \<Rightarrow> cell" where
  "district_of L region v =
     (let x = fillna (CStr cy_Ne_ukazan) v in
      if x = CStr cy_Ne_ukazan \<or> py_strip L (py_str x) = [] then CStr region
      else CStr (py_strip L (py_str x)))"

text \<open>Lines 416 to 421: the column \<^verbatim>\<open>qty\<close>.\<close>

definition add_qty :: "pylib \<Rightarrow> ustr option \<Rightarrow> frame \<Rightarrow> exn + frame" where
  "add_qty L qty_col df =
     (case (case truthy qty_col of
              Some qc \<Rightarrow> qty_column L (get_col df qc)
            | None \<Rightarrow> Inr (replicate (length (rows df)) 1)) of
        Inl e \<Rightarrow> Inl e
      | Inr qs \<Rightarrow> Inr (set_col la_qty (map CInt qs) df))"

text \<open>Lines 426 and 428: the column \<^verbatim>\<open>type_normalized\<close>, and the rows that have a type.\<close>

definition add_type :: "pylib \<Rightarrow> ustr \<Rightarrow> frame \<Rightarrow> frame" where
  "add_type L tc df =
     filter_rows (\<lambda>r. cell_of r la_type_normalized \<noteq> CNaN
                       \<and> cell_of r la_type_normalized \<noteq> CStr [])
       (set_col la_type_normalized
          (map (\<lambda>v. opt_cell (normalize_tech_type L v)) (get_col df tc)) df)"

text \<open>Lines 436 to 442: the column \<^verbatim>\<open>status_normalized\<close>.\<close>

definition add_status :: "pylib \<Rightarrow> ustr option \<Rightarrow> frame \<Rightarrow> frame" where
  "add_status L status_col df =
     (case truthy status_col of
        Some sc \<Rightarrow>
          let df1 = set_col sc (map (fillna (CStr [])) (get_col df sc)) df
          in set_col la_status_normalized
               (map (\<lambda>v. CStr (normalize_status L v)) (get_col df1 sc)) df1
      | None \<Rightarrow> set_col_const la_status_normalized (CStr cy_Xolati_nomaqhlum) df)"

text \<open>Lines 444 to 451: the column \<^verbatim>\<open>city_district\<close>.\<close>

definition add_district :: "pylib \<Rightarrow> ustr \<Rightarrow> ustr option \<Rightarrow> frame \<Rightarrow> frame" where
  "add_district L region region_col df =
     (case truthy region_col of
        Some rc \<Rightarrow> set_col la_city_district (map (district_of L region) (get_col df rc)) df
      | None \<Rightarrow> set_col_const la_city_district (CStr region) df)"

text \<open>
  Lines 453 to 457: the column \<^verbatim>\<open>has_tracker\<close>. The tracker column is looked up among the
  columns the frame has by then, the added ones included.
\<close>

definition add_tracker :: "pylib \<Rightarrow> frame \<Rightarrow> frame" where
  "add_tracker L df =
     (case truthy (find_column L (columns df) TRACKER_ALIASES) of
        Some tc \<Rightarrow>
          set_col la_has_tracker
            (map (\<lambda>v. CBool (normalize_tracker_flag L v)) (get_col df tc)) df
      | None \<Rightarrow> set_col_const la_has_tracker (CBool False) df)"

text \<open>
  Lines 400 to 471, and again 481 to 527 in the retry: from the frame of a sheet to the
  records, or the exception that the conversion of the quantity column raises.
\<close>

definition build_dataset :: "pylib \<Rightarrow> ustr \<Rightarrow> frame \<Rightarrow> exn + dataset" where
  "build_dataset L region df0 =
    (if frame_empty df0 then Inr []
     else
       let df = rename_columns (py_strip L) df0;
           status_col = find_column L (columns df) STATUS_ALIASES;
           type_col = find_column L (columns df) TYPE_ALIASES;
           region_col = find_column L (columns df) REGION_ALIASES;
           qty_col = find_column L (columns df) QTY_ALIASES
       in
       case add_qty L qty_col df of
         Inl e \<Rightarrow> Inl e
       | Inr df1 \<Rightarrow>
           let df2 = set_col_const la_region_name (CStr region) df1 in
           (case truthy type_col of
              None \<Rightarrow> Inr []
            | Some tc \<Rightarrow>
                Inr (to_dataset
                       (add_tracker L
                          (add_district L region region_col
                             (add_status L status_col (add_type L tc df2)))))))"

text \<open>
  One call of \<^verbatim>\<open>gc.open_by_key(sheet_id).sheet1.get_all_records()\<close> with the frame built
  from it: it raises, or it gives a frame.
\<close>

datatype api_result = Raises exn | Frame frame

text \<open>
  \<open>attempt\<close> is the body of a \<^verbatim>\<open>try\<close>: the call and the conversion of what it returns.
\<close>

definition attempt :: "pylib \<Rightarrow> ustr \<Rightarrow> api_result \<Rightarrow> exn + dataset" where
  "attempt L region a = (case a of Raises e \<Rightarrow> Inl e | Frame df \<Rightarrow> build_dataset L region df)"

text \<open>
  \<open>load_single_region_sync L (first, second) (region, sheet_id)\<close>, where \<open>first\<close> is what
  the call of line 397 does and \<open>second\<close> what the call of line 478 does, if it is reached.
\<close>

definition load_single_region_sync ::
    "pylib \<Rightarrow> api_result \<times> api_result \<Rightarrow> ustr \<times> ustr option \<Rightarrow> ustr \<times> dataset" where
  "load_single_region_sync L calls region_sheet =
    (case region_sheet of (region, sheet_id) \<Rightarrow>
       (case truthy sheet_id of
          None \<Rightarrow> (region, [])
        | Some sid \<Rightarrow>
            (case attempt L region (fst calls) of
               Inr df \<Rightarrow> (region, df)
             | Inl e \<Rightarrow>
                 if py_in la_429 e then
                   (case attempt L region (snd calls) of
                      Inr df \<Rightarrow> (region, df)
                    | Inl retry_error \<Rightarrow> (region, []))
                 else (region, []))))"

section \<open>Fetch scheduler and cache\<close>

text \<open>
  \<open>load_all_regions_async sheets run\<close>: \<open>sheets\<close> is the dictionary \<^verbatim>\<open>REGION_SHEETS\<close>, whose
  sheet ids come from the environment, and \<open>run rs\<close> is the result that \<^verbatim>\<open>asyncio.gather\<close>
  holds for the task \<^verbatim>\<open>load_single_region_async(rs)\<close>: the exception it raised, or what it
  returned. The results are in the order of the tasks.
\<close>

definition load_all_regions_async ::
    "(ustr \<times> ustr option) list \<Rightarrow> (ustr \<times> ustr option \<Rightarrow> exn + ustr \<times> dataset) \<Rightarrow> dataset" where
  "load_all_regions_async sheets run =
    (let regions = filter (\<lambda>(name, sid). truthy sid \<noteq> None) sheets in
     if regions = [] then []
     else
       let results = map run regions;
           parts = concat (map (\<lambda>r. case r of Inl e \<Rightarrow> []
                                       | Inr (name, df) \<Rightarrow> if df \<noteq> [] then [df] else []) results)
       in if parts \<noteq> [] then concat parts else [])"

text \<open>
  The state: the dictionary \<^verbatim>\<open>CACHE\<close>, and a counter of the loads that \<^verbatim>\<open>get_df_async\<close> has
  started, which the program does not keep and which is there to state how often it fetches.
  Time is in microseconds, as an integer without bound.
\<close>

record cache_state =
  CACHE :: "ustr \<rightharpoonup> dataset \<times> int"
  fetches :: nat

definition CACHE_TTL :: int where
  "CACHE_TTL = 30 * 60 * 1000000"

definition cache_key :: "ustr option \<Rightarrow> ustr" where
  "cache_key region = (case truthy region of Some r \<Rightarrow> r | None \<Rightarrow> la_ALL)"

text \<open>
  The body of the \<^verbatim>\<open>try\<close> up to the load: \<open>load_single\<close> and \<open>load_all\<close> are what awaiting
  \<^verbatim>\<open>load_single_region_async\<close> and \<^verbatim>\<open>load_all_regions_async\<close> gives at this call, an
  exception or a value.
\<close>

definition fetch ::
    "(ustr \<times> ustr option \<Rightarrow> exn + ustr \<times> dataset) \<Rightarrow> (exn + dataset) \<Rightarrow>
     (ustr \<times> ustr option) list \<Rightarrow> ustr option \<Rightarrow> exn + dataset" where
  "fetch load_single load_all sheets region =
    (case truthy region of
       Some r \<Rightarrow>
         if r \<noteq> la_ALL then
           (case load_single (r, (case map_of sheets r of Some sid \<Rightarrow> sid | None \<Rightarrow> None)) of
              Inl e \<Rightarrow> Inl e
            | Inr (name, df) \<Rightarrow> Inr df)
         else load_all
     | None \<Rightarrow> load_all)"

definition cached :: "cache_state \<Rightarrow> ustr \<Rightarrow> int \<Rightarrow> dataset option" where
  "cached st key now =
     (case CACHE st key of
        Some (df, expiry) \<Rightarrow> if now < expiry then Some df else None
      | None \<Rightarrow> None)"

definition get_df_async ::
    "(ustr \<times> ustr option \<Rightarrow> exn + ustr \<times> dataset) \<Rightarrow> (exn + dataset) \<Rightarrow>
     (ustr \<times> ustr option) list \<Rightarrow> int \<Rightarrow> ustr option \<Rightarrow> bool \<Rightarrow> cache_state \<Rightarrow>
     dataset \<times> cache_state" where
  "get_df_async load_single load_all sheets now region force_refresh st =
    (let key = cache_key region in
     case (if force_refresh then None else cached st key now) of
       Some df \<Rightarrow> (df, st)
     | None \<Rightarrow>
         let st1 = st \<lparr> fetches := fetches st + 1 \<rparr> in
         (case fetch load_single load_all sheets region of
            Inr df \<Rightarrow> (df, st1 \<lparr> CACHE := (CACHE st1)(key \<mapsto> (df, now + CACHE_TTL)) \<rparr>)
          | Inl e \<Rightarrow>
              (case CACHE st key of
                 Some (df, expiry) \<Rightarrow> (df, st1)
               | None \<Rightarrow> ([], st1))))"

text \<open>
  \<open>get_df_async\<close> above is a call that runs from its first line to its last with no other
  coroutine in between. The coroutine gives up control once, where it awaits the loader (line
  588 or 590; \<^verbatim>\<open>asyncio.to_thread\<close> at line 544 suspends whenever a sheet is loaded), and
  the handlers of other updates run meanwhile. So a call is two steps on the state:
  \<open>get_df_begin\<close> is lines 580 to 584, up to the await, and gives the dataset served from the
  cache, or \<open>None\<close> when the call goes on to load; \<open>get_df_end\<close> is lines 592 to 598, on
  what the await gave and on the state as it is by then.
\<close>

definition get_df_begin ::
    "int \<Rightarrow> ustr option \<Rightarrow> bool \<Rightarrow> cache_state \<Rightarrow> dataset option \<times> cache_state" where
  "get_df_begin now region force_refresh st =
    (case (if force_refresh then None else cached st (cache_key region) now) of
       Some df \<Rightarrow> (Some df, st)
     | None \<Rightarrow> (None, st \<lparr> fetches := fetches st + 1 \<rparr>))"

definition get_df_end ::
    "exn + dataset \<Rightarrow> int \<Rightarrow> ustr option \<Rightarrow> cache_state \<Rightarrow> dataset \<times> cache_state" where
  "get_df_end loaded now region st =
    (let key = cache_key region in
     case loaded of
       Inr df \<Rightarrow> (df, st \<lparr> CACHE := (CACHE st)(key \<mapsto> (df, now + CACHE_TTL)) \<rparr>)
     | Inl e \<Rightarrow>
         (case CACHE st key of
            Some (df, expiry) \<Rightarrow> (df, st)
          | None \<Rightarrow> ([], st)))"

text \<open>
  The two loaders as the program has them, on the calls \<open>calls rs\<close> that the sheet of each
  region answers with: no task raises, since \<^verbatim>\<open>load_single_region_sync\<close> catches.
\<close>

definition run_sync ::
    "pylib \<Rightarrow> (ustr \<times> ustr option \<Rightarrow> api_result \<times> api_result) \<Rightarrow>
     ustr \<times> ustr option \<Rightarrow> exn + ustr \<times> dataset" where
  "run_sync L calls rs = Inr (load_single_region_sync L (calls rs) rs)"

definition get_df ::
    "pylib \<Rightarrow> (ustr \<times> ustr option \<Rightarrow> api_result \<times> api_result) \<Rightarrow>
     (ustr \<times> ustr option) list \<Rightarrow> int \<Rightarrow> ustr option \<Rightarrow> bool \<Rightarrow> cache_state \<Rightarrow>
     dataset \<times> cache_state" where
  "get_df L calls sheets =
     get_df_async (run_sync L calls) (Inr (load_all_regions_async sheets (run_sync L calls))) sheets"

section \<open>Aggregation engine\<close>

text \<open>
  \<^verbatim>\<open>groupby(key, as_index=False).agg(qty=("qty", "sum"))\<close>: one row for each key, the keys in
  ascending order of Python's string comparison, which is the lexicographic order of the code
  points. Quantities and their sums are integers without bound.
\<close>

definition groupby_sum :: "(crecord \<Rightarrow> ustr) \<Rightarrow> dataset \<Rightarrow> (ustr \<times> int) list" where
  "groupby_sum key df =
     map (\<lambda>k. (k, sum_list (map qty (filter (\<lambda>r. key r = k) df)))) (sort (remdups (map key df)))"

text \<open>
  \<^verbatim>\<open>sort_values("qty", ascending=False)\<close>, as pandas does it: the rows are reversed, sorted in
  ascending order and reversed again. The ascending sort is taken stable here, which that of
  numpy is on a short column; no order among rows of equal quantity is promised by pandas.
\<close>

definition sort_values_desc :: "(ustr \<times> int) list \<Rightarrow> (ustr \<times> int) list" where
  "sort_values_desc t = rev (sort_key snd (rev t))"

definition count_type_per_region :: "pylib \<Rightarrow> dataset \<Rightarrow> ustr \<Rightarrow> (ustr \<times> int) list" where
  "count_type_per_region L df_all tech_type =
    (if df_all = [] then []
     else
       (case truthy (normalize_tech_type L (CStr tech_type)) of
          None \<Rightarrow> []
        | Some normalized_type \<Rightarrow>
            let sub = filter (\<lambda>r. type_normalized r = normalized_type) df_all in
            if sub = [] then [] else sort_values_desc (groupby_sum region_name sub)))"

definition get_status_distribution_for_type_region ::
    "pylib \<Rightarrow> dataset \<Rightarrow> ustr \<Rightarrow> ustr \<Rightarrow> (ustr \<times> int) list" where
  "get_status_distribution_for_type_region L df_all tech_type region =
    (if df_all = [] then []
     else
       (case truthy (normalize_tech_type L (CStr tech_type)) of
          None \<Rightarrow> []
        | Some normalized_type \<Rightarrow>
            let filtered = filter (\<lambda>r. region_name r = region
                                       \<and> type_normalized r = normalized_type) df_all in
            if filtered = [] then []
            else sort_values_desc (groupby_sum status_normalized filtered)))"

text \<open>
  In \<open>all_types_summary\<close> the filter \<^verbatim>\<open>notna()\<close> keeps every record, a record having a type.
\<close>

definition all_types_summary :: "dataset \<Rightarrow> (ustr \<times> int) list" where
  "all_types_summary df =
    (if df = [] then []
     else
       let valid = filter (\<lambda>r. True) df in
       if valid = [] then [] else sort_values_desc (groupby_sum type_normalized valid))"

definition get_status_distribution_any :: "dataset \<Rightarrow> (ustr \<times> int) list" where
  "get_status_distribution_any df_subset =
    (if df_subset = [] then [] else sort_values_desc (groupby_sum status_normalized df_subset))"

definition count_trackers_by_region :: "dataset \<Rightarrow> (ustr \<times> int) list" where
  "count_trackers_by_region df_all =
    (if df_all = [] then []
     else
       let sub = filter has_tracker df_all in
       if sub = [] then [] else sort_values_desc (groupby_sum region_name sub))"

text \<open>The shape the five views share: filter, group and sum, sort.\<close>

definition ranked :: "(crecord \<Rightarrow> ustr) \<Rightarrow> (crecord \<Rightarrow> bool) \<Rightarrow> dataset \<Rightarrow> (ustr \<times> int) list" where
  "ranked key P df =
     (let sub = filter P df in if sub = [] then [] else sort_values_desc (groupby_sum key sub))"

text \<open>The five ranked views of a dataset, side by side.\<close>

definition ranked_views :: "pylib \<Rightarrow> ustr \<Rightarrow> ustr \<Rightarrow> dataset \<Rightarrow> (ustr \<times> int) list list" where
  "ranked_views L tech_type region df =
     [count_type_per_region L df tech_type,
      get_status_distribution_for_type_region L df tech_type region,
      all_types_summary df,
      get_status_distribution_any df,
      count_trackers_by_region df]"

text \<open>
  The order as the specification words it: descending by summed quantity, ties by ascending
  key name without regard to case.
\<close>

definition ranked_as_specified :: "pylib \<Rightarrow> (ustr \<times> int) list \<Rightarrow> bool" where
  "ranked_as_specified L t =
     sorted_wrt (\<lambda>a b. snd b < snd a
                      \<or> (snd a = snd b \<and> lib_lower L (fst a) \<le> lib_lower L (fst b))) t"

section \<open>Auxiliary notions\<close>

text \<open>A row whose \<^verbatim>\<open>qty\<close> is an integer with the property \<open>P\<close>.\<close>

definition qty_is :: "(int \<Rightarrow> bool) \<Rightarrow> (ustr \<times> cell) list \<Rightarrow> bool" where
  "qty_is P r = (\<exists>n. map_of r la_qty = Some (CInt n) \<and> P n)"

text \<open>
  The quantity that the specification gives a record, from its quantity cell: the number in
  the cell when that is positive, and 1 for a cell that is not a number, is missing, or is
  zero or negative. This definition is from the specification, not from the program.
\<close>

definition spec_quantity :: "pylib \<Rightarrow> cell \<Rightarrow> int" where
  "spec_quantity L c =
     (case lib_to_numeric L c of
        NumInt n \<Rightarrow> if n \<le> 0 then 1 else n
      | NumNaN \<Rightarrow> 1
      | NumNonFinite \<Rightarrow> 1)"

text \<open>
  A load that fails: the first attempt raises, and if its message has \<^verbatim>\<open>429\<close> in it, the
  retry raises too.
\<close>

definition load_fails :: "pylib \<Rightarrow> ustr \<Rightarrow> api_result \<times> api_result \<Rightarrow> bool" where
  "load_fails L region calls =
     (case attempt L region (fst calls) of
        Inr df \<Rightarrow> False
      | Inl e \<Rightarrow> if py_in la_429 e then isl (attempt L region (snd calls)) else True)"

section \<open>The library tables on ASCII and Cyrillic\<close>

text \<open>
  A concrete \<open>pylib\<close> for evaluating the program on given inputs. Whitespace is the full
  list of Python. Case mapping, the word class, NFKC and the decimal digits are those of the
  Unicode database on ASCII and on the letters of the Cyrillic block (U+0400 to U+0481 and
  U+048A to U+04FF), where NFKC changes nothing; outside of these a code point is taken to be
  caseless, fixed by NFKC (the no-break space apart), not a digit and not a word character.
  \<open>ucd_to_numeric\<close> is \<^verbatim>\<open>pd.to_numeric\<close> on the cells that \<^verbatim>\<open>get_all_records\<close> gives, which
  has made an \<^verbatim>\<open>int\<close> or a \<^verbatim>\<open>float\<close> of every text that Python reads as one: an integer is
  itself, a float is read from its \<^verbatim>\<open>repr\<close>, and of the strings only those of ASCII digits
  are numbers. The floats \<^verbatim>\<open>inf\<close> and \<^verbatim>\<open>-inf\<close> are not finite; a finite float is cut to the
  integral part of the decimal number that its \<^verbatim>\<open>repr\<close> writes, which is that of the float
  when its magnitude is below \<open>2 ^ 53\<close>.
\<close>

definition ucd_isspace :: "nat \<Rightarrow> bool" where
  "ucd_isspace c =
     ((9 \<le> c \<and> c \<le> 13) \<or> (28 \<le> c \<and> c \<le> 32) \<or> c = 133 \<or> c = 160 \<or> c = 5760
      \<or> (8192 \<le> c \<and> c \<le> 8202) \<or> c = 8232 \<or> c = 8233 \<or> c = 8239 \<or> c = 8287 \<or> c = 12288)"

definition ucd_isword :: "nat \<Rightarrow> bool" where
  "ucd_isword c =
     ((48 \<le> c \<and> c \<le> 57) \<or> (65 \<le> c \<and> c \<le> 90) \<or> (97 \<le> c \<and> c \<le> 122) \<or> c = 95
      \<or> (1024 \<le> c \<and> c \<le> 1153) \<or> (1162 \<le> c \<and> c \<le> 1279))"

definition ucd_lower_cp :: "nat \<Rightarrow> nat" where
  "ucd_lower_cp c =
     (if 65 \<le> c \<and> c \<le> 90 then c + 32
      else if 1024 \<le> c \<and> c \<le> 1039 then c + 80
      else if 1040 \<le> c \<and> c \<le> 1071 then c + 32
      else if ((1120 \<le> c \<and> c \<le> 1153) \<or> (1162 \<le> c \<and> c \<le> 1215) \<or> (1232 \<le> c \<and> c \<le> 1279))
              \<and> even c then c + 1
      else if c = 1216 then 1231
      else if 1217 \<le> c \<and> c \<le> 1230 \<and> odd c then c + 1
      else c)"

definition ucd_upper_cp :: "nat \<Rightarrow> nat" where
  "ucd_upper_cp c =
     (if 97 \<le> c \<and> c \<le> 122 then c - 32
      else if 1104 \<le> c \<and> c \<le> 1119 then c - 80
      else if 1072 \<le> c \<and> c \<le> 1103 then c - 32
      else if ((1120 \<le> c \<and> c \<le> 1153) \<or> (1162 \<le> c \<and> c \<le> 1215) \<or> (1232 \<le> c \<and> c \<le> 1279))
              \<and> odd c then c - 1
      else if c = 1231 then 1216
      else if 1217 \<le> c \<and> c \<le> 1230 \<and> even c then c - 1
      else c)"

definition ucd_capitalize :: "ustr \<Rightarrow> ustr" where
  "ucd_capitalize s = (case s of [] \<Rightarrow> [] | c # t \<Rightarrow> ucd_upper_cp c # map ucd_lower_cp t)"

definition ucd_decimal :: "nat \<Rightarrow> nat option" where
  "ucd_decimal c = (if 48 \<le> c \<and> c \<le> 57 then Some (c - 48) else None)"

text \<open>
  The integral part of the number written \<^verbatim>\<open>digits.digits\<close>, with \<^verbatim>\<open>e+digits\<close> or
  \<^verbatim>\<open>e-digits\<close> after it or not, as \<^verbatim>\<open>repr\<close> writes a finite float that is not negative.
\<close>

definition ucd_float_trunc :: "ustr \<Rightarrow> int" where
  "ucd_float_trunc u =
     (let digit = (\<lambda>c. ucd_decimal c \<noteq> None);
          val = (\<lambda>s. int (digits_val (map (\<lambda>d. d - 48) s)));
          ip = takeWhile digit u;
          r1 = dropWhile digit u;
          fp = (case r1 of [] \<Rightarrow> [] | x # t \<Rightarrow> if x = 46 then takeWhile digit t else []);
          r2 = (case r1 of [] \<Rightarrow> [] | x # t \<Rightarrow> if x = 46 then dropWhile digit t else r1);
          e = (case r2 of
                 x # y # ds \<Rightarrow> if x = 101 then (if y = 45 then - val ds else val ds) else 0
               | _ \<Rightarrow> 0);
          k = e - int (length fp)
      in if 0 \<le> k then val (ip @ fp) * 10 ^ nat k else val (ip @ fp) div 10 ^ nat (- k))"

definition ucd_to_numeric :: "cell \<Rightarrow> numeric" where
  "ucd_to_numeric c =
     (case c of
        CInt i \<Rightarrow> NumInt i
      | CStr s \<Rightarrow> if s \<noteq> [] \<and> list_all (\<lambda>d. ucd_decimal d \<noteq> None) s
                  then NumInt (int (digits_val (map (\<lambda>d. d - 48) s))) else NumNaN
      | CFloat r \<Rightarrow>
          (case r of
             [] \<Rightarrow> NumNaN
           | x # t \<Rightarrow>
               if x = 45 then (if t = la_inf then NumNonFinite else NumInt (- ucd_float_trunc t))
               else (if r = la_inf then NumNonFinite else NumInt (ucd_float_trunc r)))
      | CBool b \<Rightarrow> NumNaN
      | CNaN \<Rightarrow> NumNaN)"

definition ucd :: pylib where
  "ucd = \<lparr> lib_nfkc = py_replace 160 32,
           lib_lower = map ucd_lower_cp,
           lib_capitalize = ucd_capitalize,
           lib_isspace = ucd_isspace,
           lib_isword = ucd_isword,
           lib_decimal = ucd_decimal,
           lib_to_numeric = ucd_to_numeric \<rparr>"

section \<open>Evaluation\<close>

text \<open>The defining equations of the string constants, for evaluating the program on an input.\<close>

lemmas lexicon =
  la_True_def la_False_def la_nan_def cy_v_def cy_raboch_def cy_em_def cy_ee_def
  cy_sostoyani_def cy_i_def cy_e_def cy_remontn_def cy_yaroqli_def cy_yarokli_def
  cy_ishlaydi_def cy_ishlamoqda_def cy_ishlab_turibdi_def cy_ishga_yaroqli_def
  cy_ishga_yarokli_def cy_ehkspluatatsiyada_def cy_foydalanishda_def cy_v_ehkspluatatsii_def
  la_operational_def la_in_service_def la_working_def cy_ispraven_def cy_ispravna_def
  cy_ispravno_def cy_ispravnyiy_def cy_rabotaet_def la_ready_def la_good_def la_active_def
  cy_yaroqsiz_def cy_yaroksiz_def cy_ishlamayapti_def cy_ishlamaydi_def cy_ishlamagan_def
  cy_ishdan_chiqqan_def cy_ishdan_chikkan_def cy_tizimdan_tashqari_def cy_ne_rabotaet_def
  cy_v_ne_ispravn_def cy_vne_ispravn_def la_broken_def la_inactive_def la_out_of_order_def
  cy_qisman_ishlamaydi_def cy_chastichno_ne_rabotaet_def cy_ne_def cy_neisprav_def
  cy_taqhmirtalab_def cy_tamirtalab_def cy_taqhmirda_def cy_remontda_def cy_remont_def
  cy_remontiruetsya_def cy_na_remonte_def cy_obsluzhivan_def cy_texobsluzh_def
  la_maintenance_def la_under_repair_def la_repair_def cy_Xolati_nomaqhlum_def la_green_def
  la_ok_def cy_Yarokli_def cy_Yaroksiz_def cy_Taqhmirtalab_def cy_zhami_def cy_itogo_def
  cy_barchasi_def cy_vsego_def la_jami_def la_all_def cy_pogruzchik_def cy_Pogruzchik_def
  cy_mini_bortovoy_def cy_Mini_bortovoy_def cy_minii_bortovoy_def cy_mikro_bortovoy_def
  cy_ehvakuator_def cy_Ehvakuator_def cy_xlorovoz_def cy_Xlorovoz_def cy_samosval_def
  cy_Samosval_def cy_ehkskavator_def cy_Ehkskavator_def cy_traktor_def cy_Traktor_def
  cy_buljdozer_def cy_Buljdozer_def cy_avtokran_def cy_Avtokran_def cy_betonomeshalka_def
  cy_Betonomeshalka_def cy_tsisterna_def cy_Tsisterna_def cy_furgon_def cy_Furgon_def
  cy_refrizherator_def cy_Refrizherator_def cy_gidrolinamicheskaya_def
  cy_Gidrodinamicheskaya_def cy_gidrolinamicheskiy_def cy_gidrodinamicheskaya_def
  cy_gidrodinamicheskiy_def cy_gidravlicheskaya_def cy_labolatornaya_def cy_Laboratornaya_def
  cy_loboratornaya_def cy_laboratornaya_def cy_kamaz_def cy_Kamaz_def cy_zil_def cy_ZIL_def
  cy_gazelj_def cy_GAZelj_def cy_uaz_def cy_UAZ_def cy_kompressor_def cy_Kompressor_def
  cy_generator_def cy_Generator_def cy_avtobus_def cy_Avtobus_def cy_mikroavtobus_def
  cy_Mikroavtobus_def cy_mashina_def cy_Mashina_def cy_gruzovik_def cy_Gruzovik_def la_none_def
  la_null_def la_infatye_def la_INFATYE_def la_inf_def la_infinity_def cy_mavzhud_ehmas_def
  la_mavjud_emas_def cy_mavzhud_def la_mavjud_def la_no_def cy_net_def la_yo_a_q_def cy_ywq_def
  la_yuk_def cy_yuk_def la_0_def la_false_def la_n_def la_yes_def cy_da_def la_ha_def la_bor_def
  cy_estj_def la_1_def la_true_def la_y_def cy_d_def la_gps_def cy_treker_def cy_Xolati_def
  cy_Holati_def cy_Status_def cy_Sostoyanie_def cy_Holat_def la_Holati_def la_Status_def
  cy_Texnika_xolati_def cy_Texnika_holati_def cy_Texnika_statusyi_def cy_Texnika_sostoyanie_def
  cy_Texnika_turi_def cy_Texniki_turi_def cy_Tip_texniki_def cy_Turi_texnika_def
  cy_Texnika_twri_def cy_Vid_texniki_def cy_Naimenovanie_texniki_def
  cy_Biriktirilgan_shaxar_yoki_tuman_def cy_Gorod_s_rayon_def cy_Rayon_def cy_Tuman_def
  cy_Naselennyiy_punkt_def cy_Shaxar_s_tuman_def cy_Shaxar_yoki_tuman_def cy_Kolichestvo_def
  cy_Kol_d_vo_def cy_Soni_def la_Qty_def la_Count_def la_GPS_def la_Gps_def cy_Treker_def
  cy_Treker_ustanovlen_def cy_Nalichie_trekera_def cy_Nalichie_GPS_def cy_GPS_treker_def
  cy_GPS_d_treker_def cy_GPS__s__GLONASS_def cy_GPS_s_GLONASS_def
  cy_GPS_bilan_taqhminlanganligi_def cy_GPS_bilapn_taqhminlanganligi_def cy_xolat_def
  cy_holat_def la_holat_def la_status_def cy_sostoyanie_def cy_shaxar_def cy_tuman_def
  cy_rayon_def cy_gorod_def cy_texnika_def cy_tip_def cy_tur_def cy_vid_def la_region_name_def
  la_city_district_def la_type_normalized_def la_status_normalized_def la_qty_def
  la_has_tracker_def la_Cannot_convert_non_d_finite_values_U0028NA_or_infU0029_to_integer_def
  cy_Ne_ukazan_def la_429_def la_ALL_def cy_ne_ispraven_def la_1_p_5_def
  cy_GPS_mavzhud_ehmas_def la_Qty1_def cy_Xorazm_def cy_Zdanie_def la_sheet1_def cy_Navoiy_def
  cy_bor_def cy_Sirdaryo_def

lemmas ucd_defs =
  ucd_def ucd_isspace_def ucd_isword_def ucd_lower_cp_def ucd_upper_cp_def ucd_capitalize_def
  ucd_decimal_def ucd_to_numeric_def ucd_float_trunc_def

lemmas text_defs =
  py_strip_def py_replace_def prenorm_def APOSTS_def norm_text_def sub_nonword_def

lemmas status_defs =
  normalize_status_def is_operational_def is_non_operational_def is_repair_def
  re_v_rabochem_def re_v_remontn_def is_word_opt_def after_lit_def

lemmas float_defs =
  py_float_def digitpart_def digits_val_def exponent_def float_class_def float_number_def
  ascii_lower_def float_char_def

lemmas column_defs =
  find_column_def norm_map_def normalize_header_def substring_match_def substring_step_def
  token_sets_def STATUS_ALIASES_def TYPE_ALIASES_def REGION_ALIASES_def QTY_ALIASES_def
  TRACKER_ALIASES_def

lemmas frame_defs =
  frame_empty_def get_col_def set_col_def set_col_const_def rename_columns_def filter_rows_def
  cell_of_def fillna_def to_dataset_def str_of_cell_def int_of_cell_def bool_of_cell_def
  truthy_def opt_cell_def

section \<open>Facts about strings\<close>

lemma py_in_iff: "py_in p s \<longleftrightarrow> (\<exists>a b. s = a @ p @ b)"
proof (induction s)
  case Nil
  then show ?case by auto
next
  case (Cons c s)
  show ?case
  proof
    assume "py_in p (c # s)"
    then consider "prefix p (c # s)" | "py_in p s" by auto
    then show "\<exists>a b. c # s = a @ p @ b"
    proof cases
      case 1
      then obtain b where "c # s = p @ b" by (auto simp: prefix_def)
      then have "c # s = [] @ p @ b" by simp
      then show ?thesis by blast
    next
      case 2
      with Cons.IH obtain a b where "s = a @ p @ b" by blast
      then have "c # s = (c # a) @ p @ b" by simp
      then show ?thesis by blast
    qed
  next
    assume "\<exists>a b. c # s = a @ p @ b"
    then obtain a b where ab: "c # s = a @ p @ b" by blast
    show "py_in p (c # s)"
    proof (cases a)
      case Nil
      with ab have "prefix p (c # s)" by (simp add: prefix_def)
      then show ?thesis by simp
    next
      case (Cons x a')
      with ab have "s = a' @ p @ b" by simp
      with Cons.IH have "py_in p s" by blast
      then show ?thesis by simp
    qed
  qed
qed

lemma py_in_set: "py_in p s \<Longrightarrow> set p \<subseteq> set s"
  by (auto simp: py_in_iff)

lemma py_in_map:
  assumes "py_in p s" and "map f p = p"
  shows "py_in p (map f s)"
proof -
  from assms(1) obtain a b where "s = a @ p @ b" by (auto simp: py_in_iff)
  then have "map f s = map f a @ p @ map f b" using assms(2) by simp
  then show ?thesis unfolding py_in_iff by blast
qed

lemma dropWhile_keeps_block:
  assumes "p \<noteq> []" and "\<not> P (hd p)"
  shows "\<exists>a'. dropWhile P (a @ p @ b) = a' @ p @ b"
proof (induction a)
  case Nil
  from assms obtain x xs where "p = x # xs" and "\<not> P x" by (cases p) auto
  then have "dropWhile P ([] @ p @ b) = [] @ p @ b" by simp
  then show ?case by blast
next
  case (Cons x a)
  show ?case
  proof (cases "P x")
    case True
    with Cons show ?thesis by simp
  next
    case False
    then have "dropWhile P ((x # a) @ p @ b) = (x # a) @ p @ b" by simp
    then show ?thesis by blast
  qed
qed

lemma py_in_strip:
  assumes "py_in p s" and "p \<noteq> []"
    and "\<not> lib_isspace L (hd p)" and "\<not> lib_isspace L (last p)"
  shows "py_in p (py_strip L s)"
proof -
  let ?P = "lib_isspace L"
  from assms(1) obtain a b where "s = a @ p @ b" by (auto simp: py_in_iff)
  moreover obtain a' where a': "dropWhile ?P (a @ p @ b) = a' @ p @ b"
    using dropWhile_keeps_block [of p ?P a b] assms(2,3) by blast
  moreover have "rev (a' @ p @ b) = rev b @ rev p @ rev a'" by simp
  moreover obtain b' where "dropWhile ?P (rev b @ rev p @ rev a') = b' @ rev p @ rev a'"
    using dropWhile_keeps_block [of "rev p" ?P "rev b" "rev a'"] assms(2,4)
    by (auto simp: hd_rev)
  ultimately have "py_strip L s = a' @ p @ rev b'" by (simp add: py_strip_def)
  then show ?thesis unfolding py_in_iff by blast
qed

section \<open>The status classifier\<close>

text \<open>
  C1. The input \<open>cy_ne_ispraven\<close> ("not serviceable", U+043D U+0435, a blank, U+0438 U+0441
  U+043F U+0440 U+0430 U+0432 U+0435 U+043D) is its own normal form, which contains the word for "serviceable" and the negation token,
  and \<open>normalize_status\<close> classifies it as operational (\<open>cy_Yarokli\<close>), not as non-operational
  (\<open>cy_Yaroksiz\<close>): the test for the operational words comes first and returns.
\<close>

theorem normalize_status_negation_is_operational:
  "norm_text ucd cy_ne_ispraven = cy_ne_ispraven
   \<and> py_in cy_ispraven (norm_text ucd cy_ne_ispraven)
   \<and> py_in cy_ne (norm_text ucd cy_ne_ispraven)
   \<and> normalize_status ucd (CStr cy_ne_ispraven) = cy_Yarokli
   \<and> normalize_status ucd (CStr cy_ne_ispraven) \<noteq> cy_Yaroksiz"
  by (simp add: lexicon ucd_defs text_defs status_defs)

text \<open>
  C6. Each of the four canonical labels is classified as itself, and whatever the input and
  the library tables, the classifier returns one of the four labels; being a total function,
  it raises nothing.
\<close>

theorem normalize_status_canonical:
  "normalize_status ucd (CStr cy_Yarokli) = cy_Yarokli
   \<and> normalize_status ucd (CStr cy_Yaroksiz) = cy_Yaroksiz
   \<and> normalize_status ucd (CStr cy_Taqhmirtalab) = cy_Taqhmirtalab
   \<and> normalize_status ucd (CStr cy_Xolati_nomaqhlum) = cy_Xolati_nomaqhlum
   \<and> (\<forall>L v. normalize_status L v
          \<in> { cy_Yarokli, cy_Yaroksiz, cy_Taqhmirtalab, cy_Xolati_nomaqhlum })"
proof -
  have "normalize_status ucd (CStr cy_Yarokli) = cy_Yarokli"
    by (simp add: lexicon ucd_defs text_defs status_defs)
  moreover have "normalize_status ucd (CStr cy_Yaroksiz) = cy_Yaroksiz"
    by (simp add: lexicon ucd_defs text_defs status_defs)
  moreover have "normalize_status ucd (CStr cy_Taqhmirtalab) = cy_Taqhmirtalab"
    by (simp add: lexicon ucd_defs text_defs status_defs)
  moreover have "normalize_status ucd (CStr cy_Xolati_nomaqhlum) = cy_Xolati_nomaqhlum"
    by (simp add: lexicon ucd_defs text_defs status_defs)
  moreover have "normalize_status L v
      \<in> { cy_Yarokli, cy_Yaroksiz, cy_Taqhmirtalab, cy_Xolati_nomaqhlum }" for L v
    by (simp add: normalize_status_def Let_def split: cell.split)
  ultimately show ?thesis by blast
qed

section \<open>The tracker parser\<close>

lemma tracker_negative_phrase:
  assumes "py_in cy_mavzhud_ehmas s"
  shows "normalize_tracker_flag ucd (CStr s) = False"
proof -
  let ?p = "cy_mavzhud_ehmas"
  let ?s = "py_strip ucd s"
  let ?t = "py_replace 44 46 ?s"
  have p_ne: "?p \<noteq> []"
    by (simp add: lexicon)
  have hd_p: "\<not> lib_isspace ucd (hd ?p)" and last_p: "\<not> lib_isspace ucd (last ?p)"
    by (simp_all add: lexicon ucd_defs)
  have in_s: "py_in ?p ?s"
    using assms p_ne hd_p last_p by (rule py_in_strip)
  then have s_ne: "?s \<noteq> []"
    using p_ne by (auto simp: py_in_iff)
  have "map (\<lambda>c. if c = 44 then 46 else c) ?p = ?p"
    by (simp add: lexicon)
  with in_s have "py_in ?p ?t"
    unfolding py_replace_def by (rule py_in_map)
  then have "py_in ?p (py_strip ucd ?t)"
    using p_ne hd_p last_p by (rule py_in_strip)
  then have "set ?p \<subseteq> set (py_strip ucd ?t)"
    by (rule py_in_set)
  then have "1084 \<in> set (py_strip ucd ?t)"
    by (auto simp: lexicon)
  moreover have "\<not> float_char ucd 1084"
    by (simp add: float_char_def ascii_lower_def lexicon ucd_defs)
  ultimately have no_float: "py_float ucd ?t = None"
    by (auto simp: py_float_def Let_def list_all_iff)
  have "map ucd_lower_cp ?p = ?p"
    by (simp add: lexicon ucd_lower_cp_def)
  with in_s have "py_in ?p (map ucd_lower_cp ?s)"
    by (rule py_in_map)
  then have low: "py_in ?p (lib_lower ucd ?s)"
    by (simp add: ucd_def)
  show ?thesis
    using s_ne no_float low by (simp add: normalize_tracker_flag_def Let_def)
qed

text \<open>
  C7. The tracker parser gives false on \<^verbatim>\<open>"0"\<close>, true on \<^verbatim>\<open>"1.5"\<close>, and false on every
  string that contains the phrase \<open>cy_mavzhud_ehmas\<close> ("not available"), although the phrase
  contains the keyword \<open>cy_mavzhud\<close> ("available") that gives true when the phrase is absent.
\<close>

theorem normalize_tracker_flag_cases:
  "normalize_tracker_flag ucd (CStr la_0) = False
   \<and> normalize_tracker_flag ucd (CStr la_1_p_5) = True
   \<and> (\<forall>s. py_in cy_mavzhud_ehmas s \<longrightarrow> normalize_tracker_flag ucd (CStr s) = False)
   \<and> py_in cy_mavzhud cy_mavzhud_ehmas
   \<and> normalize_tracker_flag ucd (CStr cy_mavzhud) = True"
proof -
  have "normalize_tracker_flag ucd (CStr la_0) = False"
    by (simp add: normalize_tracker_flag_def float_defs text_defs ucd_defs lexicon)
  moreover have "normalize_tracker_flag ucd (CStr la_1_p_5) = True"
    by (simp add: normalize_tracker_flag_def float_defs text_defs ucd_defs lexicon)
  moreover have "py_in cy_mavzhud cy_mavzhud_ehmas"
    by (simp add: lexicon)
  moreover have "normalize_tracker_flag ucd (CStr cy_mavzhud) = True"
    by (simp add: normalize_tracker_flag_def float_defs text_defs ucd_defs lexicon)
  ultimately show ?thesis
    using tracker_negative_phrase by blast
qed

theorem normalize_tracker_flag_cases_witness:
  "py_in cy_mavzhud_ehmas cy_GPS_mavzhud_ehmas
   \<and> normalize_tracker_flag ucd (CStr cy_GPS_mavzhud_ehmas) = False"
proof -
  have "py_in cy_mavzhud_ehmas cy_GPS_mavzhud_ehmas"
    by (simp add: lexicon)
  then show ?thesis
    using normalize_tracker_flag_cases by blast
qed

section \<open>The schema resolver\<close>

lemma find_append_case:
  "find P (xs @ ys) = (case find P xs of Some x \<Rightarrow> Some x | None \<Rightarrow> find P ys)"
  by (induction xs) auto

lemma map_of_fold_update:
  "map_of (fold (\<lambda>c m. AList.update (f c) c m) cols m0) k =
     (case find (\<lambda>c. f c = k) (rev cols) of Some c \<Rightarrow> Some c | None \<Rightarrow> map_of m0 k)"
proof (induction cols arbitrary: m0)
  case Nil
  then show ?case by simp
next
  case (Cons c cols)
  show ?case
    by (simp add: Cons.IH find_append_case update_conv' split: option.split)
qed

lemma norm_map_Some:
  assumes "map_of (norm_map L cols) k = Some c"
  shows "c \<in> set cols \<and> normalize_header L c = k"
proof -
  from assms have "find (\<lambda>c. normalize_header L c = k) (rev cols) = Some c"
    by (simp add: norm_map_def map_of_fold_update split: option.splits)
  then obtain i where "i < length (rev cols)" and "rev cols ! i = c"
    and k: "normalize_header L c = k"
    by (auto simp: find_Some_iff)
  then have "c \<in> set (rev cols)"
    using nth_mem by blast
  with k show ?thesis
    by simp
qed

lemma norm_map_defined:
  assumes "h \<in> set cols"
  shows "map_of (norm_map L cols) (normalize_header L h) \<noteq> None"
proof -
  from assms have "find (\<lambda>c. normalize_header L c = normalize_header L h) (rev cols) \<noteq> None"
    by (auto simp: find_None_iff)
  then show ?thesis
    by (auto simp: norm_map_def map_of_fold_update split: option.splits)
qed

lemma distinct_fold_update:
  "distinct (map fst m0) \<Longrightarrow> distinct (map fst (fold (\<lambda>c m. AList.update (f c) c m) cols m0))"
  by (induction cols arbitrary: m0) (simp_all add: distinct_update)

lemma norm_map_entry:
  assumes "(nc, orig) \<in> set (norm_map L cols)"
  shows "orig \<in> set cols \<and> normalize_header L orig = nc"
proof -
  have "distinct (map fst (norm_map L cols))"
    unfolding norm_map_def by (rule distinct_fold_update) simp
  with assms have "map_of (norm_map L cols) nc = Some orig"
    by simp
  then show ?thesis
    by (rule norm_map_Some)
qed

lemma exact_match_Some:
  "exact_match L nm aliases = Some h \<Longrightarrow>
     \<exists>a \<in> set aliases. map_of nm (normalize_header L a) = Some h"
  by (induction aliases) (auto split: option.splits)

lemma exact_match_defined:
  "a \<in> set aliases \<Longrightarrow> map_of nm (normalize_header L a) \<noteq> None \<Longrightarrow>
     exact_match L nm aliases \<noteq> None"
  by (induction aliases) (auto split: option.splits)

lemma token_match_Some:
  "token_match nm ts = Some h \<Longrightarrow>
     \<exists>nc. (nc, h) \<in> set nm \<and> (\<exists>tokens \<in> set ts. \<exists>tok \<in> set tokens. py_in tok nc)"
proof (induction ts)
  case Nil
  then show ?case by simp
next
  case (Cons tokens ts)
  show ?case
  proof (cases "find (\<lambda>(nc, orig). list_ex (\<lambda>tok. py_in tok nc) tokens) nm")
    case None
    with Cons show ?thesis by auto
  next
    case (Some p)
    obtain nc orig where p: "p = (nc, orig)" by (cases p)
    from Some p have "(nc, orig) \<in> set nm" and "list_ex (\<lambda>tok. py_in tok nc) tokens"
      by (auto simp: find_Some_iff dest: nth_mem)
    moreover from Some p Cons.prems have "h = orig" by simp
    ultimately show ?thesis
      by (auto simp: list_ex_iff)
  qed
qed

text \<open>
  C4. When some header has the normalized form of some alias, \<open>find_column\<close> returns a header
  of the sheet whose normalized form is that of an alias, whatever other headers there are:
  the substring step and the token step are not reached.
\<close>

theorem find_column_exact:
  assumes "\<exists>h \<in> set cols. \<exists>a \<in> set aliases. normalize_header L h = normalize_header L a"
  shows "\<exists>h'. find_column L cols aliases = Some h' \<and> h' \<in> set cols
           \<and> (\<exists>a \<in> set aliases. normalize_header L h' = normalize_header L a)
           \<and> find_column L cols aliases = exact_match L (norm_map L cols) aliases"
proof -
  from assms obtain h a where h: "h \<in> set cols" and a: "a \<in> set aliases"
    and eq: "normalize_header L h = normalize_header L a" by blast
  from h have "map_of (norm_map L cols) (normalize_header L a) \<noteq> None"
    using norm_map_defined [of h cols L] eq by simp
  with a have "exact_match L (norm_map L cols) aliases \<noteq> None"
    by (rule exact_match_defined)
  then obtain h' where h': "exact_match L (norm_map L cols) aliases = Some h'"
    by blast
  then obtain a' where "a' \<in> set aliases"
    and "map_of (norm_map L cols) (normalize_header L a') = Some h'"
    using exact_match_Some by blast
  then have "h' \<in> set cols \<and> (\<exists>a \<in> set aliases. normalize_header L h' = normalize_header L a)"
    using norm_map_Some by blast
  moreover have "find_column L cols aliases = Some h'"
    using h' by (simp add: find_column_def)
  ultimately show ?thesis
    using h' by simp
qed

theorem find_column_exact_witness:
  "(\<exists>h \<in> set [la_Qty1, cy_Kolichestvo]. \<exists>a \<in> set QTY_ALIASES.
      normalize_header ucd h = normalize_header ucd a)
   \<and> py_in (normalize_header ucd la_Qty) (normalize_header ucd la_Qty1)
   \<and> length (normalize_header ucd la_Qty1) < length (normalize_header ucd cy_Kolichestvo)
   \<and> find_column ucd [la_Qty1, cy_Kolichestvo] QTY_ALIASES = Some cy_Kolichestvo"
proof -
  have ex: "\<exists>h \<in> set [la_Qty1, cy_Kolichestvo]. \<exists>a \<in> set QTY_ALIASES.
      normalize_header ucd h = normalize_header ucd a"
    by (simp add: QTY_ALIASES_def)
  have "find_column ucd [la_Qty1, cy_Kolichestvo] QTY_ALIASES
        = exact_match ucd (norm_map ucd [la_Qty1, cy_Kolichestvo]) QTY_ALIASES"
    using find_column_exact [OF ex] by blast
  also have "\<dots> = Some cy_Kolichestvo"
    by (simp add: column_defs text_defs ucd_defs lexicon)
  finally have "find_column ucd [la_Qty1, cy_Kolichestvo] QTY_ALIASES = Some cy_Kolichestvo" .
  moreover have "py_in (normalize_header ucd la_Qty) (normalize_header ucd la_Qty1)"
    by (simp add: column_defs text_defs ucd_defs lexicon)
  moreover have
    "length (normalize_header ucd la_Qty1) < length (normalize_header ucd cy_Kolichestvo)"
    by (simp add: column_defs text_defs ucd_defs lexicon)
  ultimately show ?thesis
    using ex by blast
qed

text \<open>
  C9, as the program has it. When neither the exact step nor the substring step resolves the
  role, \<open>find_column\<close> returns what the token step finds, and the token step does not know the
  role: it returns a header of the sheet that contains a token of one of the three token sets,
  tried in the order status, region, type, whatever the aliases are.
\<close>

theorem find_column_token_step:
  assumes "exact_match L (norm_map L cols) aliases = None"
    and "truthy (substring_match L (norm_map L cols) aliases) = None"
  shows "find_column L cols aliases = token_match (norm_map L cols) token_sets
         \<and> (\<forall>h. find_column L cols aliases = Some h \<longrightarrow>
               h \<in> set cols
               \<and> (\<exists>tokens \<in> set token_sets. \<exists>tok \<in> set tokens. py_in tok (normalize_header L h)))"
proof -
  have eq: "find_column L cols aliases = token_match (norm_map L cols) token_sets"
    using assms by (auto simp: find_column_def truthy_def split: option.splits if_splits)
  have "h \<in> set cols
        \<and> (\<exists>tokens \<in> set token_sets. \<exists>tok \<in> set tokens. py_in tok (normalize_header L h))"
    if "find_column L cols aliases = Some h" for h
  proof -
    from that eq obtain nc where "(nc, h) \<in> set (norm_map L cols)"
      and tok: "\<exists>tokens \<in> set token_sets. \<exists>tok \<in> set tokens. py_in tok nc"
      using token_match_Some by metis
    then have "h \<in> set cols" and "normalize_header L h = nc"
      using norm_map_entry by blast+
    with tok show ?thesis by simp
  qed
  with eq show ?thesis by blast
qed

theorem find_column_token_step_witness:
  "exact_match ucd (norm_map ucd [la_Status]) TYPE_ALIASES = None
   \<and> truthy (substring_match ucd (norm_map ucd [la_Status]) TYPE_ALIASES) = None
   \<and> find_column ucd [la_Status] TYPE_ALIASES = token_match (norm_map ucd [la_Status]) token_sets
   \<and> token_match (norm_map ucd [la_Status]) token_sets = Some la_Status"
proof -
  have 1: "exact_match ucd (norm_map ucd [la_Status]) TYPE_ALIASES = None"
    by (simp add: column_defs text_defs ucd_defs lexicon)
  have 2: "truthy (substring_match ucd (norm_map ucd [la_Status]) TYPE_ALIASES) = None"
    by (simp add: truthy_def column_defs text_defs ucd_defs lexicon)
  have "token_match (norm_map ucd [la_Status]) token_sets = Some la_Status"
    by (simp add: column_defs text_defs ucd_defs lexicon)
  then show ?thesis
    using 1 2 find_column_token_step [OF 1 2] by simp
qed

text \<open>
  C9, as the claim states it, fails: resolving the type role on a sheet whose only header is
  \<^verbatim>\<open>Status\<close> reaches the token step, which returns that header; it contains a token of the
  status set and none of the type set.
\<close>

theorem find_column_role_counterexample:
  "exact_match ucd (norm_map ucd [la_Status]) TYPE_ALIASES = None
   \<and> substring_match ucd (norm_map ucd [la_Status]) TYPE_ALIASES = None
   \<and> find_column ucd [la_Status] TYPE_ALIASES = Some la_Status
   \<and> list_ex (\<lambda>tok. py_in tok (normalize_header ucd la_Status)) (token_sets ! 0)
   \<and> \<not> list_ex (\<lambda>tok. py_in tok (normalize_header ucd la_Status)) (token_sets ! 2)"
  by (simp add: column_defs text_defs ucd_defs lexicon)

section \<open>The aggregation engine\<close>

lemma groupby_sum_mset:
  assumes "mset xs = mset ys"
  shows "groupby_sum key xs = groupby_sum key ys"
proof -
  from assms have "set xs = set ys"
    by (rule mset_eq_setD)
  then have "set (map key xs) = set (map key ys)"
    by simp
  then have keys: "sort (remdups (map key xs)) = sort (remdups (map key ys))"
    by (metis sorted_list_of_set_sort_remdups)
  have "sum_list (map qty (filter P xs)) = sum_list (map qty (filter P ys))" for P
  proof -
    have "mset (map qty (filter P xs)) = mset (map qty (filter P ys))"
      using assms by simp
    then show ?thesis
      by (metis sum_mset_sum_list)
  qed
  with keys show ?thesis
    by (simp add: groupby_sum_def)
qed

lemma ranked_mset:
  assumes "mset xs = mset ys"
  shows "ranked key P xs = ranked key P ys"
proof -
  from assms have m: "mset (filter P xs) = mset (filter P ys)"
    by simp
  then have "groupby_sum key (filter P xs) = groupby_sum key (filter P ys)"
    by (rule groupby_sum_mset)
  moreover from m have "filter P xs = [] \<longleftrightarrow> filter P ys = []"
    by (metis mset_zero_iff)
  ultimately show ?thesis
    by (simp add: ranked_def Let_def)
qed

lemma groupby_sum_split:
  assumes "\<And>q. key (r\<lparr>qty := q\<rparr>) = key r"
  shows "groupby_sum key (xs @ [r\<lparr>qty := a\<rparr>, r\<lparr>qty := b\<rparr>])
         = groupby_sum key (xs @ [r\<lparr>qty := a + b\<rparr>])"
proof -
  have "set (map key (xs @ [r\<lparr>qty := a\<rparr>, r\<lparr>qty := b\<rparr>])) = set (map key (xs @ [r\<lparr>qty := a + b\<rparr>]))"
    by (simp add: assms)
  then have "sort (remdups (map key (xs @ [r\<lparr>qty := a\<rparr>, r\<lparr>qty := b\<rparr>])))
             = sort (remdups (map key (xs @ [r\<lparr>qty := a + b\<rparr>])))"
    by (metis sorted_list_of_set_sort_remdups)
  moreover have "sum_list (map qty (filter (\<lambda>x. key x = k) (xs @ [r\<lparr>qty := a\<rparr>, r\<lparr>qty := b\<rparr>])))
             = sum_list (map qty (filter (\<lambda>x. key x = k) (xs @ [r\<lparr>qty := a + b\<rparr>])))" for k
    by (simp add: assms)
  ultimately show ?thesis
    by (simp only: groupby_sum_def)
qed

lemma ranked_split:
  assumes key: "\<And>q. key (r\<lparr>qty := q\<rparr>) = key r" and P: "\<And>q. P (r\<lparr>qty := q\<rparr>) = P r"
    and df: "mset df = M + {#r\<lparr>qty := a + b\<rparr>#}"
    and df': "mset df' = M + {#r\<lparr>qty := a\<rparr>, r\<lparr>qty := b\<rparr>#}"
  shows "ranked key P df = ranked key P df'"
proof -
  obtain ms where ms: "mset ms = M"
    using ex_mset by blast
  have 1: "ranked key P df = ranked key P (ms @ [r\<lparr>qty := a + b\<rparr>])"
    by (rule ranked_mset) (simp add: df ms)
  have 2: "ranked key P df' = ranked key P (ms @ [r\<lparr>qty := a\<rparr>, r\<lparr>qty := b\<rparr>])"
    by (rule ranked_mset) (simp add: df' ms)
  have 3: "ranked key P (ms @ [r\<lparr>qty := a\<rparr>, r\<lparr>qty := b\<rparr>]) = ranked key P (ms @ [r\<lparr>qty := a + b\<rparr>])"
  proof (cases "P r")
    case True
    then have "filter P (ms @ [r\<lparr>qty := a\<rparr>, r\<lparr>qty := b\<rparr>]) = filter P ms @ [r\<lparr>qty := a\<rparr>, r\<lparr>qty := b\<rparr>]"
      and "filter P (ms @ [r\<lparr>qty := a + b\<rparr>]) = filter P ms @ [r\<lparr>qty := a + b\<rparr>]"
      by (simp_all add: P)
    then show ?thesis
      using groupby_sum_split [of key r "filter P ms" a b, OF key]
      by (simp add: ranked_def Let_def)
  next
    case False
    then show ?thesis
      by (simp add: ranked_def Let_def P)
  qed
  from 1 2 3 show ?thesis by simp
qed

lemma sort_values_desc_sorted: "sorted_wrt (\<lambda>a b. snd b \<le> snd a) (sort_values_desc t)"
proof -
  have "sorted (map snd (sort_key snd (rev t)))"
    by (rule sorted_sort_key)
  then have "sorted_wrt (\<lambda>a b. snd a \<le> snd b) (sort_key snd (rev t))"
    by (simp add: sorted_map)
  then show ?thesis
    by (simp add: sort_values_desc_def sorted_wrt_rev)
qed

lemma ranked_sorted: "sorted_wrt (\<lambda>a b. snd b \<le> snd a) (ranked key P df)"
  by (simp add: ranked_def Let_def sort_values_desc_sorted)

lemma count_type_per_region_ranked:
  "count_type_per_region L df t =
     (case truthy (normalize_tech_type L (CStr t)) of
        None \<Rightarrow> []
      | Some nt \<Rightarrow> ranked region_name (\<lambda>r. type_normalized r = nt) df)"
  by (simp add: count_type_per_region_def ranked_def Let_def split: option.split)

lemma get_status_distribution_for_type_region_ranked:
  "get_status_distribution_for_type_region L df t g =
     (case truthy (normalize_tech_type L (CStr t)) of
        None \<Rightarrow> []
      | Some nt \<Rightarrow> ranked status_normalized (\<lambda>r. region_name r = g \<and> type_normalized r = nt) df)"
  by (simp add: get_status_distribution_for_type_region_def ranked_def Let_def split: option.split)

lemma all_types_summary_ranked: "all_types_summary df = ranked type_normalized (\<lambda>r. True) df"
  by (simp add: all_types_summary_def ranked_def Let_def)

lemma get_status_distribution_any_ranked:
  "get_status_distribution_any df = ranked status_normalized (\<lambda>r. True) df"
  by (simp add: get_status_distribution_any_def ranked_def Let_def)

lemma count_trackers_by_region_ranked:
  "count_trackers_by_region df = ranked region_name has_tracker df"
  by (simp add: count_trackers_by_region_def ranked_def Let_def)

lemmas views_ranked =
  count_type_per_region_ranked get_status_distribution_for_type_region_ranked
  all_types_summary_ranked get_status_distribution_any_ranked count_trackers_by_region_ranked

lemmas agg_defs =
  ranked_def groupby_sum_def sort_values_desc_def ranked_views_def ranked_as_specified_def

text \<open>
  C5, as the program has it: each of the five ranked views is sorted in descending order of
  the summed quantity. Nothing orders rows of equal quantity by their key without regard to
  case.
\<close>

theorem ranked_views_descending:
  "list_all (sorted_wrt (\<lambda>a b. snd b \<le> snd a)) (ranked_views L tech_type region df)"
  by (simp add: ranked_views_def views_ranked ranked_sorted split: option.split)

text \<open>
  C5, as the claim states it, fails: of two types of quantity 1 each, \<open>cy_ZIL\<close> and
  \<open>cy_Zdanie\<close>, the summary lists \<open>cy_ZIL\<close> first, in the order of the code points, whereas
  without regard to case \<open>cy_Zdanie\<close> comes first.
\<close>

theorem ranked_views_ties_counterexample:
  "all_types_summary
     [\<lparr>region_name = cy_Xorazm, city_district = cy_Xorazm, type_normalized = cy_Zdanie,
        status_normalized = cy_Yarokli, qty = 1, has_tracker = False\<rparr>,
      \<lparr>region_name = cy_Xorazm, city_district = cy_Xorazm, type_normalized = cy_ZIL,
        status_normalized = cy_Yarokli, qty = 1, has_tracker = False\<rparr>]
     = [(cy_ZIL, 1), (cy_Zdanie, 1)]
   \<and> \<not> ranked_as_specified ucd
        (all_types_summary
          [\<lparr>region_name = cy_Xorazm, city_district = cy_Xorazm, type_normalized = cy_Zdanie,
             status_normalized = cy_Yarokli, qty = 1, has_tracker = False\<rparr>,
           \<lparr>region_name = cy_Xorazm, city_district = cy_Xorazm, type_normalized = cy_ZIL,
             status_normalized = cy_Yarokli, qty = 1, has_tracker = False\<rparr>])"
  by (simp add: all_types_summary_def agg_defs ucd_defs lexicon)

text \<open>
  C8. The totals of the five views, as multisets of pairs of key and summed quantity, are the
  same for two datasets that are permutations of each other, and for two datasets of which one
  has a record of quantity \<open>a + b\<close> where the other has two records of quantities \<open>a\<close> and \<open>b\<close>
  that agree with it in every other field.
\<close>

theorem group_and_sum_invariant:
  assumes "mset df = mset df'
           \<or> (\<exists>M r a b. mset df = M + {#r\<lparr>qty := a + b\<rparr>#}
                        \<and> mset df' = M + {#r\<lparr>qty := a\<rparr>, r\<lparr>qty := b\<rparr>#})"
  shows "map mset (ranked_views L tech_type region df)
         = map mset (ranked_views L tech_type region df')"
proof -
  have "ranked key P df = ranked key P df'"
    if "\<And>r q. key (r\<lparr>qty := q\<rparr>) = key r" and "\<And>r q. P (r\<lparr>qty := q\<rparr>) = P r" for key P
    using assms
  proof
    assume "mset df = mset df'"
    then show ?thesis by (rule ranked_mset)
  next
    assume "\<exists>M r a b. mset df = M + {#r\<lparr>qty := a + b\<rparr>#}
                      \<and> mset df' = M + {#r\<lparr>qty := a\<rparr>, r\<lparr>qty := b\<rparr>#}"
    then obtain M r a b where "mset df = M + {#r\<lparr>qty := a + b\<rparr>#}"
      and "mset df' = M + {#r\<lparr>qty := a\<rparr>, r\<lparr>qty := b\<rparr>#}"
      by blast
    with that show ?thesis
      by (intro ranked_split [where r = r and a = a and b = b and M = M]) auto
  qed
  then show ?thesis
    by (simp add: ranked_views_def views_ranked split: option.split)
qed

theorem group_and_sum_invariant_witness:
  "mset [\<lparr>region_name = cy_Xorazm, city_district = cy_Xorazm, type_normalized = cy_ZIL,
          status_normalized = cy_Yarokli, qty = 2 + 3, has_tracker = True\<rparr>]
     = {#} + {#\<lparr>region_name = cy_Xorazm, city_district = cy_Xorazm, type_normalized = cy_ZIL,
          status_normalized = cy_Yarokli, qty = 0, has_tracker = True\<rparr>\<lparr>qty := 2 + 3\<rparr>#}
   \<and> map mset (ranked_views ucd cy_zil cy_Xorazm
        [\<lparr>region_name = cy_Xorazm, city_district = cy_Xorazm, type_normalized = cy_ZIL,
           status_normalized = cy_Yarokli, qty = 2 + 3, has_tracker = True\<rparr>])
     = map mset (ranked_views ucd cy_zil cy_Xorazm
        [\<lparr>region_name = cy_Xorazm, city_district = cy_Xorazm, type_normalized = cy_ZIL,
           status_normalized = cy_Yarokli, qty = 2, has_tracker = True\<rparr>,
         \<lparr>region_name = cy_Xorazm, city_district = cy_Xorazm, type_normalized = cy_ZIL,
           status_normalized = cy_Yarokli, qty = 3, has_tracker = True\<rparr>])
   \<and> all_types_summary
        [\<lparr>region_name = cy_Xorazm, city_district = cy_Xorazm, type_normalized = cy_ZIL,
           status_normalized = cy_Yarokli, qty = 2, has_tracker = True\<rparr>,
         \<lparr>region_name = cy_Xorazm, city_district = cy_Xorazm, type_normalized = cy_ZIL,
           status_normalized = cy_Yarokli, qty = 3, has_tracker = True\<rparr>] = [(cy_ZIL, 5)]"
proof -
  let ?r = "\<lparr>region_name = cy_Xorazm, city_district = cy_Xorazm, type_normalized = cy_ZIL,
          status_normalized = cy_Yarokli, qty = 0, has_tracker = True\<rparr>"
  have "\<exists>M r a b. mset [?r\<lparr>qty := 2 + 3\<rparr>] = M + {#r\<lparr>qty := a + b\<rparr>#}
          \<and> mset [?r\<lparr>qty := 2\<rparr>, ?r\<lparr>qty := 3\<rparr>] = M + {#r\<lparr>qty := a\<rparr>, r\<lparr>qty := b\<rparr>#}"
    by (intro exI [of _ "{#}"] exI [of _ ?r] exI [of _ 2] exI [of _ 3]) simp
  then have "map mset (ranked_views ucd cy_zil cy_Xorazm [?r\<lparr>qty := 2 + 3\<rparr>])
           = map mset (ranked_views ucd cy_zil cy_Xorazm [?r\<lparr>qty := 2\<rparr>, ?r\<lparr>qty := 3\<rparr>])"
    by (intro group_and_sum_invariant) blast
  moreover have "all_types_summary [?r\<lparr>qty := 2\<rparr>, ?r\<lparr>qty := 3\<rparr>] = [(cy_ZIL, 5)]"
    by (simp add: all_types_summary_def agg_defs)
  ultimately show ?thesis
    by simp
qed

section \<open>The cache\<close>

lemma fetch_all:
  assumes "cache_key region = la_ALL"
  shows "fetch load_single load_all sheets region = load_all"
  using assms by (auto simp: fetch_def cache_key_def split: option.splits)

text \<open>
  C2. A call that is not forced and finds under its key an entry whose expiry is later than
  \<open>now\<close> returns the dataset of the entry and leaves the state as it is, the counter of loads
  included. A call that is forced, or finds no entry, or finds one whose expiry is \<open>now\<close> or
  earlier, starts one load: the load of the region when the key is a region, the combined load
  when it is \<open>la_ALL\<close>. If the load returns, its dataset is stored under the key with the
  expiry \<open>now + CACHE_TTL\<close> and returned; if it raises, the dataset of the entry under the key
  is returned, expired or not, and the empty dataset if there is none. So of two calls for a
  key that are not forced, the first finding no live entry and its load returning, the second
  made after the first has returned, only the first loads when the second comes less than
  \<open>CACHE_TTL\<close> after the first, and both return what it loaded; when the second comes later,
  it loads again. A call is its two steps with nothing in between.
\<close>

theorem get_df_async_cache:
  "(CACHE st (cache_key region) = Some (df, expiry) \<and> now < expiry \<longrightarrow>
      get_df_async ls la sheets now region False st = (df, st))
   \<and> ((force \<or> CACHE st (cache_key region) = None
         \<or> (\<exists>d expiry. CACHE st (cache_key region) = Some (d, expiry) \<and> expiry \<le> now))
        \<and> fetch ls la sheets region = Inr df \<longrightarrow>
      get_df_async ls la sheets now region force st
        = (df, st\<lparr>fetches := fetches st + 1,
                   CACHE := (CACHE st)(cache_key region \<mapsto> (df, now + CACHE_TTL))\<rparr>))
   \<and> ((force \<or> CACHE st (cache_key region) = None
         \<or> (\<exists>d expiry. CACHE st (cache_key region) = Some (d, expiry) \<and> expiry \<le> now))
        \<and> fetch ls la sheets region = Inl e \<longrightarrow>
      get_df_async ls la sheets now region force st
        = ((case CACHE st (cache_key region) of Some (d, expiry) \<Rightarrow> d | None \<Rightarrow> []),
           st\<lparr>fetches := fetches st + 1\<rparr>))
   \<and> ((CACHE st (cache_key region) = None
         \<or> (\<exists>d expiry. CACHE st (cache_key region) = Some (d, expiry) \<and> expiry \<le> now))
        \<and> fetch ls la sheets region = Inr df \<and> now \<le> now' \<longrightarrow>
      fst (get_df_async ls la sheets now region False st) = df
      \<and> fetches (snd (get_df_async ls la sheets now region False st)) = fetches st + 1
      \<and> (now' < now + CACHE_TTL \<longrightarrow>
           get_df_async ls' la' sheets' now' region False
             (snd (get_df_async ls la sheets now region False st))
           = (df, snd (get_df_async ls la sheets now region False st)))
      \<and> (now + CACHE_TTL \<le> now' \<and> fetch ls' la' sheets' region = Inr df' \<longrightarrow>
           get_df_async ls' la' sheets' now' region False
             (snd (get_df_async ls la sheets now region False st))
           = (df', st\<lparr>fetches := fetches st + 2,
                       CACHE := (CACHE st)(cache_key region \<mapsto> (df', now' + CACHE_TTL))\<rparr>)))
   \<and> (truthy region = Some r \<and> r \<noteq> la_ALL \<longrightarrow>
        cache_key region = r
        \<and> fetch ls la sheets region
            = (case ls (r, (case map_of sheets r of Some sid \<Rightarrow> sid | None \<Rightarrow> None)) of
                 Inl e \<Rightarrow> Inl e
               | Inr (name, df) \<Rightarrow> Inr df))
   \<and> (truthy region = None \<or> truthy region = Some la_ALL \<longrightarrow>
        cache_key region = la_ALL \<and> fetch ls la sheets region = la)
   \<and> get_df_async ls la sheets now region force st
       = (case get_df_begin now region force st of
            (Some df, st1) \<Rightarrow> (df, st1)
          | (None, st1) \<Rightarrow> get_df_end (fetch ls la sheets region) now region st1)"
proof -
  let ?k = "cache_key region"
  let ?stale = "CACHE st ?k = None \<or> (\<exists>d expiry. CACHE st ?k = Some (d, expiry) \<and> expiry \<le> now)"
  have stale: "cached st ?k now = None" if "?stale"
    using that by (auto simp: cached_def)
  have hit: "get_df_async ls la sheets now region False st = (df, st)"
    if "CACHE st ?k = Some (df, expiry) \<and> now < expiry" for df expiry
    using that by (simp add: get_df_async_def cached_def)
  have load: "get_df_async ls la sheets now region force st
        = (df, st\<lparr>fetches := fetches st + 1,
                   CACHE := (CACHE st)(?k \<mapsto> (df, now + CACHE_TTL))\<rparr>)"
    if "force \<or> ?stale" and "fetch ls la sheets region = Inr df" for df force
    using that stale by (auto simp: get_df_async_def Let_def)
  have fail: "get_df_async ls la sheets now region force st
        = ((case CACHE st ?k of Some (d, expiry) \<Rightarrow> d | None \<Rightarrow> []),
           st\<lparr>fetches := fetches st + 1\<rparr>)"
    if "force \<or> ?stale" and "fetch ls la sheets region = Inl e"
    using that stale by (auto simp: get_df_async_def Let_def split: option.splits)
  have two: "fst (get_df_async ls la sheets now region False st) = df
      \<and> fetches (snd (get_df_async ls la sheets now region False st)) = fetches st + 1
      \<and> (now' < now + CACHE_TTL \<longrightarrow>
           get_df_async ls' la' sheets' now' region False
             (snd (get_df_async ls la sheets now region False st))
           = (df, snd (get_df_async ls la sheets now region False st)))
      \<and> (now + CACHE_TTL \<le> now' \<and> fetch ls' la' sheets' region = Inr df' \<longrightarrow>
           get_df_async ls' la' sheets' now' region False
             (snd (get_df_async ls la sheets now region False st))
           = (df', st\<lparr>fetches := fetches st + 2,
                       CACHE := (CACHE st)(?k \<mapsto> (df', now' + CACHE_TTL))\<rparr>))"
    if "?stale" and "fetch ls la sheets region = Inr df"
  proof -
    from that have first: "get_df_async ls la sheets now region False st
        = (df, st\<lparr>fetches := fetches st + 1,
                   CACHE := (CACHE st)(?k \<mapsto> (df, now + CACHE_TTL))\<rparr>)"
      by (intro load) auto
    show ?thesis
      unfolding first by (simp add: get_df_async_def cached_def Let_def)
  qed
  have single: "cache_key region = r
        \<and> fetch ls la sheets region
            = (case ls (r, (case map_of sheets r of Some sid \<Rightarrow> sid | None \<Rightarrow> None)) of
                 Inl e \<Rightarrow> Inl e
               | Inr (name, df) \<Rightarrow> Inr df)"
    if "truthy region = Some r \<and> r \<noteq> la_ALL"
    using that by (simp add: cache_key_def fetch_def)
  have combined: "cache_key region = la_ALL \<and> fetch ls la sheets region = la"
    if "truthy region = None \<or> truthy region = Some la_ALL"
    using that by (auto simp: cache_key_def fetch_def)
  have steps: "get_df_async ls la sheets now region force st
       = (case get_df_begin now region force st of
            (Some df, st1) \<Rightarrow> (df, st1)
          | (None, st1) \<Rightarrow> get_df_end (fetch ls la sheets region) now region st1)"
    by (simp add: get_df_async_def get_df_begin_def get_df_end_def Let_def
             split: option.splits sum.splits)
  from hit load fail two single combined steps show ?thesis
    by blast
qed

theorem get_df_async_cache_witness:
  "CACHE \<lparr>CACHE = Map.empty, fetches = 0\<rparr> (cache_key (Some cy_Xorazm)) = None
   \<and> fetch (\<lambda>rs. Inr (fst rs, [\<lparr>region_name = cy_Xorazm, city_district = cy_Xorazm,
          type_normalized = cy_ZIL, status_normalized = cy_Yarokli, qty = 1,
          has_tracker = False\<rparr>])) (Inl []) [] (Some cy_Xorazm) = Inr [\<lparr>region_name = cy_Xorazm, city_district = cy_Xorazm,
          type_normalized = cy_ZIL, status_normalized = cy_Yarokli, qty = 1,
          has_tracker = False\<rparr>]
   \<and> (0::int) \<le> 5 \<and> 5 < 0 + CACHE_TTL
   \<and> get_df_async (\<lambda>rs. Inl []) (Inl []) [] 5 (Some cy_Xorazm) False
        (snd (get_df_async (\<lambda>rs. Inr (fst rs, [\<lparr>region_name = cy_Xorazm, city_district = cy_Xorazm,
          type_normalized = cy_ZIL, status_normalized = cy_Yarokli, qty = 1,
          has_tracker = False\<rparr>])) (Inl []) []
           0 (Some cy_Xorazm) False \<lparr>CACHE = Map.empty, fetches = 0\<rparr>))
      = ([\<lparr>region_name = cy_Xorazm, city_district = cy_Xorazm,
          type_normalized = cy_ZIL, status_normalized = cy_Yarokli, qty = 1,
          has_tracker = False\<rparr>],
         \<lparr>CACHE = [cy_Xorazm \<mapsto> ([\<lparr>region_name = cy_Xorazm, city_district = cy_Xorazm,
          type_normalized = cy_ZIL, status_normalized = cy_Yarokli, qty = 1,
          has_tracker = False\<rparr>], CACHE_TTL)], fetches = 1\<rparr>)
   \<and> CACHE \<lparr>CACHE = [cy_Xorazm \<mapsto> ([\<lparr>region_name = cy_Xorazm, city_district = cy_Xorazm,
          type_normalized = cy_ZIL, status_normalized = cy_Yarokli, qty = 1,
          has_tracker = False\<rparr>], 10)], fetches = 1\<rparr> (cache_key (Some cy_Xorazm))
       = Some ([\<lparr>region_name = cy_Xorazm, city_district = cy_Xorazm,
          type_normalized = cy_ZIL, status_normalized = cy_Yarokli, qty = 1,
          has_tracker = False\<rparr>], 10)
   \<and> (10::int) \<le> 100
   \<and> fetch (\<lambda>rs. Inr (fst rs, [\<lparr>region_name = cy_Xorazm, city_district = cy_Xorazm,
          type_normalized = cy_ZIL, status_normalized = cy_Yaroksiz, qty = 2,
          has_tracker = False\<rparr>])) (Inl []) [] (Some cy_Xorazm) = Inr [\<lparr>region_name = cy_Xorazm, city_district = cy_Xorazm,
          type_normalized = cy_ZIL, status_normalized = cy_Yaroksiz, qty = 2,
          has_tracker = False\<rparr>]
   \<and> get_df_async (\<lambda>rs. Inr (fst rs, [\<lparr>region_name = cy_Xorazm, city_district = cy_Xorazm,
          type_normalized = cy_ZIL, status_normalized = cy_Yaroksiz, qty = 2,
          has_tracker = False\<rparr>])) (Inl []) [] 100 (Some cy_Xorazm) False
        \<lparr>CACHE = [cy_Xorazm \<mapsto> ([\<lparr>region_name = cy_Xorazm, city_district = cy_Xorazm,
          type_normalized = cy_ZIL, status_normalized = cy_Yarokli, qty = 1,
          has_tracker = False\<rparr>], 10)], fetches = 1\<rparr>
      = ([\<lparr>region_name = cy_Xorazm, city_district = cy_Xorazm,
          type_normalized = cy_ZIL, status_normalized = cy_Yaroksiz, qty = 2,
          has_tracker = False\<rparr>],
         \<lparr>CACHE = [cy_Xorazm \<mapsto> ([\<lparr>region_name = cy_Xorazm, city_district = cy_Xorazm,
          type_normalized = cy_ZIL, status_normalized = cy_Yaroksiz, qty = 2,
          has_tracker = False\<rparr>], 100 + CACHE_TTL)], fetches = 2\<rparr>)
   \<and> (9::int) < 10
   \<and> get_df_async (\<lambda>rs. Inr (fst rs, [\<lparr>region_name = cy_Xorazm, city_district = cy_Xorazm,
          type_normalized = cy_ZIL, status_normalized = cy_Yaroksiz, qty = 2,
          has_tracker = False\<rparr>])) (Inl []) [] 9 (Some cy_Xorazm) False
        \<lparr>CACHE = [cy_Xorazm \<mapsto> ([\<lparr>region_name = cy_Xorazm, city_district = cy_Xorazm,
          type_normalized = cy_ZIL, status_normalized = cy_Yarokli, qty = 1,
          has_tracker = False\<rparr>], 10)], fetches = 1\<rparr>
      = ([\<lparr>region_name = cy_Xorazm, city_district = cy_Xorazm,
          type_normalized = cy_ZIL, status_normalized = cy_Yarokli, qty = 1,
          has_tracker = False\<rparr>], \<lparr>CACHE = [cy_Xorazm \<mapsto> ([\<lparr>region_name = cy_Xorazm, city_district = cy_Xorazm,
          type_normalized = cy_ZIL, status_normalized = cy_Yarokli, qty = 1,
          has_tracker = False\<rparr>], 10)], fetches = 1\<rparr>)
   \<and> fetch (\<lambda>rs. Inl []) (Inl la_429) [] None = Inl la_429
   \<and> get_df_async (\<lambda>rs. Inl []) (Inl la_429) [] 100 None False
        \<lparr>CACHE = [la_ALL \<mapsto> ([\<lparr>region_name = cy_Xorazm, city_district = cy_Xorazm,
          type_normalized = cy_ZIL, status_normalized = cy_Yarokli, qty = 1,
          has_tracker = False\<rparr>], 10)], fetches = 1\<rparr>
      = ([\<lparr>region_name = cy_Xorazm, city_district = cy_Xorazm,
          type_normalized = cy_ZIL, status_normalized = cy_Yarokli, qty = 1,
          has_tracker = False\<rparr>], \<lparr>CACHE = [la_ALL \<mapsto> ([\<lparr>region_name = cy_Xorazm, city_district = cy_Xorazm,
          type_normalized = cy_ZIL, status_normalized = cy_Yarokli, qty = 1,
          has_tracker = False\<rparr>], 10)], fetches = 2\<rparr>)
   \<and> get_df_async (\<lambda>rs. Inl []) (Inl la_429) [] 0 None False \<lparr>CACHE = Map.empty, fetches = 0\<rparr>
      = ([], \<lparr>CACHE = Map.empty, fetches = 1\<rparr>)"
proof -
  let ?rec = "\<lparr>region_name = cy_Xorazm, city_district = cy_Xorazm,
          type_normalized = cy_ZIL, status_normalized = cy_Yarokli, qty = 1,
          has_tracker = False\<rparr>"
  let ?rec2 = "\<lparr>region_name = cy_Xorazm, city_district = cy_Xorazm,
          type_normalized = cy_ZIL, status_normalized = cy_Yaroksiz, qty = 2,
          has_tracker = False\<rparr>"
  let ?st = "\<lparr>CACHE = Map.empty, fetches = 0\<rparr>"
  let ?old = "\<lparr>CACHE = [cy_Xorazm \<mapsto> ([?rec], 10)], fetches = 1\<rparr>"
  let ?all = "\<lparr>CACHE = [la_ALL \<mapsto> ([?rec], 10)], fetches = 1\<rparr>"
  let ?ls = "\<lambda>rs :: ustr \<times> ustr option. (Inr (fst rs, [?rec]) :: exn + ustr \<times> dataset)"
  let ?ls2 = "\<lambda>rs :: ustr \<times> ustr option. (Inr (fst rs, [?rec2]) :: exn + ustr \<times> dataset)"
  let ?no = "\<lambda>rs :: ustr \<times> ustr option. (Inl [] :: exn + ustr \<times> dataset)"
  have key: "cache_key (Some cy_Xorazm) = cy_Xorazm"
    by (simp add: cache_key_def truthy_def lexicon)
  have key0: "cache_key None = la_ALL"
    by (simp add: cache_key_def truthy_def)
  have 1: "CACHE ?st (cache_key (Some cy_Xorazm)) = None"
    by simp
  have 2: "fetch ?ls (Inl []) [] (Some cy_Xorazm) = Inr [?rec]"
    by (simp add: fetch_def truthy_def lexicon)
  have 3: "(0::int) \<le> 5 \<and> 5 < 0 + CACHE_TTL"
    by (simp add: CACHE_TTL_def)
  have 4: "fetch ?no (Inl la_429) [] None = Inl la_429"
    by (simp add: fetch_def truthy_def)
  have 5: "CACHE ?old (cache_key (Some cy_Xorazm)) = Some ([?rec], 10)"
    by (simp add: key)
  have 6: "fetch ?ls2 (Inl []) [] (Some cy_Xorazm) = Inr [?rec2]"
    by (simp add: fetch_def truthy_def lexicon)
  have 7: "CACHE ?all (cache_key None) = Some ([?rec], 10)"
    by (simp add: key0)
  have 8: "CACHE ?st (cache_key None) = None"
    by simp
  note two = get_df_async_cache [where st = ?st and region = "Some cy_Xorazm" and now = 0
      and now' = 5 and ls = ?ls and la = "Inl []" and sheets = "[]" and df = "[?rec]"
      and ls' = ?no and la' = "Inl []" and sheets' = "[]" and force = False]
  note expired = get_df_async_cache [where st = ?old and region = "Some cy_Xorazm"
      and now = 100 and ls = ?ls2 and la = "Inl []" and sheets = "[]" and df = "[?rec2]"
      and force = False]
  note live = get_df_async_cache [where st = ?old and region = "Some cy_Xorazm"
      and now = 9 and ls = ?ls2 and la = "Inl []" and sheets = "[]" and df = "[?rec]"
      and expiry = 10]
  note stale = get_df_async_cache [where st = ?all and region = None and now = 100
      and ls = ?no and la = "Inl la_429" and sheets = "[]" and e = "la_429" and force = False]
  note none = get_df_async_cache [where st = ?st and region = None and now = 0
      and ls = ?no and la = "Inl la_429" and sheets = "[]" and e = "la_429" and force = False]
  from two 1 2 3 have
    a: "get_df_async ?ls (Inl []) [] 0 (Some cy_Xorazm) False ?st
        = ([?rec], ?st\<lparr>fetches := fetches ?st + 1,
             CACHE := (CACHE ?st)(cache_key (Some cy_Xorazm) \<mapsto> ([?rec], 0 + CACHE_TTL))\<rparr>)"
    and b: "get_df_async ?no (Inl []) [] 5 (Some cy_Xorazm) False
             (snd (get_df_async ?ls (Inl []) [] 0 (Some cy_Xorazm) False ?st))
           = ([?rec], snd (get_df_async ?ls (Inl []) [] 0 (Some cy_Xorazm) False ?st))"
    by blast+
  from expired 5 6 have
    c: "get_df_async ?ls2 (Inl []) [] 100 (Some cy_Xorazm) False ?old
        = ([?rec2], ?old\<lparr>fetches := fetches ?old + 1,
             CACHE := (CACHE ?old)(cache_key (Some cy_Xorazm) \<mapsto> ([?rec2], 100 + CACHE_TTL))\<rparr>)"
    by simp
  have 9: "(9::int) < 10"
    by simp
  from live 5 9 have
    d: "get_df_async ?ls2 (Inl []) [] 9 (Some cy_Xorazm) False ?old = ([?rec], ?old)"
    by blast
  from stale 4 7 have
    e: "get_df_async ?no (Inl la_429) [] 100 None False ?all
        = ((case CACHE ?all (cache_key None) of Some (d, expiry) \<Rightarrow> d | None \<Rightarrow> []),
           ?all\<lparr>fetches := fetches ?all + 1\<rparr>)"
    by simp
  from none 4 8 have
    f: "get_df_async ?no (Inl la_429) [] 0 None False ?st
        = ((case CACHE ?st (cache_key None) of Some (d, expiry) \<Rightarrow> d | None \<Rightarrow> []),
           ?st\<lparr>fetches := fetches ?st + 1\<rparr>)"
    by blast
  from a b have ab: "get_df_async ?no (Inl []) [] 5 (Some cy_Xorazm) False
             (snd (get_df_async ?ls (Inl []) [] 0 (Some cy_Xorazm) False ?st))
           = ([?rec], \<lparr>CACHE = [cy_Xorazm \<mapsto> ([?rec], CACHE_TTL)], fetches = 1\<rparr>)"
    by (simp add: key)
  from c have c': "get_df_async ?ls2 (Inl []) [] 100 (Some cy_Xorazm) False ?old
      = ([?rec2], \<lparr>CACHE = [cy_Xorazm \<mapsto> ([?rec2], 100 + CACHE_TTL)], fetches = 2\<rparr>)"
    by (simp add: key)
  from e have e': "get_df_async ?no (Inl la_429) [] 100 None False ?all
      = ([?rec], \<lparr>CACHE = [la_ALL \<mapsto> ([?rec], 10)], fetches = 2\<rparr>)"
    by (simp add: key0)
  from f have f': "get_df_async ?no (Inl la_429) [] 0 None False ?st
      = ([], \<lparr>CACHE = Map.empty, fetches = 1\<rparr>)"
    by simp
  from 1 2 3 4 5 6 ab c' d e' f' show ?thesis
    by simp
qed

text \<open>
  Two calls for the key \<open>la_ALL\<close>, neither forced, at the times 0 and 5, on the empty cache:
  the second begins while the first awaits its load. Both find no entry and both load.
\<close>

theorem get_df_async_overlap_counterexample:
  "fst (get_df_begin 0 None False \<lparr>CACHE = Map.empty, fetches = 0\<rparr>) = None
   \<and> fst (get_df_begin 5 None False
          (snd (get_df_begin 0 None False \<lparr>CACHE = Map.empty, fetches = 0\<rparr>))) = None
   \<and> (5::int) < 0 + CACHE_TTL
   \<and> get_df_end (Inr [\<lparr>region_name = cy_Xorazm, city_district = cy_Xorazm,
          type_normalized = cy_ZIL, status_normalized = cy_Yarokli, qty = 1,
          has_tracker = False\<rparr>]) 5 None
        (snd (get_df_end (Inr [\<lparr>region_name = cy_Xorazm, city_district = cy_Xorazm,
          type_normalized = cy_ZIL, status_normalized = cy_Yarokli, qty = 1,
          has_tracker = False\<rparr>]) 0 None
          (snd (get_df_begin 5 None False
            (snd (get_df_begin 0 None False \<lparr>CACHE = Map.empty, fetches = 0\<rparr>))))))
      = ([\<lparr>region_name = cy_Xorazm, city_district = cy_Xorazm,
          type_normalized = cy_ZIL, status_normalized = cy_Yarokli, qty = 1,
          has_tracker = False\<rparr>], \<lparr>CACHE = [la_ALL \<mapsto> ([\<lparr>region_name = cy_Xorazm, city_district = cy_Xorazm,
          type_normalized = cy_ZIL, status_normalized = cy_Yarokli, qty = 1,
          has_tracker = False\<rparr>], 5 + CACHE_TTL)], fetches = 2\<rparr>)"
  by (simp add: get_df_begin_def get_df_end_def cached_def cache_key_def truthy_def
        CACHE_TTL_def)

section \<open>Loads that fail\<close>

lemma load_fails_empty:
  assumes "load_fails L (fst rs) calls"
  shows "load_single_region_sync L calls rs = (fst rs, [])"
  using assms
  by (cases rs)
     (auto simp: load_single_region_sync_def load_fails_def split: option.splits sum.splits if_splits)

lemma load_without_sheet:
  assumes "truthy (snd rs) = None"
  shows "load_single_region_sync L calls rs = (fst rs, [])"
  using assms by (cases rs) (simp add: load_single_region_sync_def)

lemma load_all_empty:
  assumes "\<forall>rs \<in> set sheets. truthy (snd rs) \<noteq> None \<longrightarrow> load_fails L (fst rs) (calls rs)"
  shows "load_all_regions_async sheets (run_sync L calls) = []"
proof -
  let ?regions = "filter (\<lambda>(name, sid). truthy sid \<noteq> None) sheets"
  let ?part = "\<lambda>r :: exn + ustr \<times> dataset.
     case r of Inl e \<Rightarrow> [] | Inr (name, df) \<Rightarrow> if df \<noteq> [] then [df] else []"
  have "?part (run_sync L calls rs) = []" if "rs \<in> set ?regions" for rs
  proof -
    from that assms have "load_fails L (fst rs) (calls rs)"
      by auto
    then show ?thesis
      by (simp add: run_sync_def load_fails_empty)
  qed
  then have "\<forall>x \<in> set (map ?part (map (run_sync L calls) ?regions)). x = []"
    by auto
  then have parts: "concat (map ?part (map (run_sync L calls) ?regions)) = []"
    unfolding concat_eq_Nil_conv .
  show ?thesis
    unfolding load_all_regions_async_def Let_def parts by simp
qed

text \<open>
  C10. When the load of every region that has a sheet fails, each failure is caught in
  \<open>load_single_region_sync\<close>, the combined load is the empty dataset, and a call of the cache
  for the key \<open>la_ALL\<close> that loads stores the empty dataset with the expiry \<open>now + CACHE_TTL\<close>
  in the place of whatever entry there was; a later call that is not forced and comes before
  that expiry returns the empty dataset and loads nothing, whatever the sheets would answer.
\<close>

theorem all_loads_fail:
  assumes "\<forall>rs \<in> set sheets. truthy (snd rs) \<noteq> None \<longrightarrow> load_fails L (fst rs) (calls rs)"
    and "cache_key region = la_ALL"
  shows "load_all_regions_async sheets (run_sync L calls) = []
    \<and> (force \<or> cached st la_ALL now = None \<longrightarrow>
         get_df L calls sheets now region force st
           = ([], st\<lparr>fetches := fetches st + 1,
                      CACHE := (CACHE st)(la_ALL \<mapsto> ([], now + CACHE_TTL))\<rparr>)
         \<and> (now' < now + CACHE_TTL \<longrightarrow>
              get_df L calls' sheets now' region False
                (snd (get_df L calls sheets now region force st))
              = ([], snd (get_df L calls sheets now region force st))))"
proof -
  have empty: "load_all_regions_async sheets (run_sync L calls) = []"
    using assms(1) by (rule load_all_empty)
  have f: "fetch (run_sync L calls) (Inr (load_all_regions_async sheets (run_sync L calls)))
             sheets region = Inr []"
    using fetch_all [OF assms(2)] empty by simp
  have "get_df L calls sheets now region force st
           = ([], st\<lparr>fetches := fetches st + 1,
                      CACHE := (CACHE st)(la_ALL \<mapsto> ([], now + CACHE_TTL))\<rparr>)"
    if "force \<or> cached st la_ALL now = None"
    using that f assms(2)
    by (auto simp: get_df_def get_df_async_def Let_def split: option.splits)
  moreover have "get_df L calls' sheets now' region False
                (st\<lparr>fetches := fetches st + 1,
                      CACHE := (CACHE st)(la_ALL \<mapsto> ([], now + CACHE_TTL))\<rparr>)
              = ([], st\<lparr>fetches := fetches st + 1,
                      CACHE := (CACHE st)(la_ALL \<mapsto> ([], now + CACHE_TTL))\<rparr>)"
    if "now' < now + CACHE_TTL"
    using that assms(2) by (simp add: get_df_def get_df_async_def cached_def Let_def)
  ultimately show ?thesis
    using empty by auto
qed

theorem all_loads_fail_witness:
  "truthy (Some la_sheet1) = Some la_sheet1 \<and> truthy None = None
   \<and> attempt ucd cy_Xorazm (Raises la_429) = Inl la_429 \<and> py_in la_429 la_429
   \<and> load_fails ucd cy_Xorazm (Raises la_429, Raises [])
   \<and> load_single_region_sync ucd (Raises la_429, Raises []) (cy_Xorazm, Some la_sheet1)
       = (cy_Xorazm, [])
   \<and> cache_key None = la_ALL
   \<and> cached \<lparr>CACHE = [la_ALL \<mapsto> ([\<lparr>region_name = cy_Xorazm, city_district = cy_Xorazm,
          type_normalized = cy_ZIL, status_normalized = cy_Yarokli, qty = 1,
          has_tracker = False\<rparr>], 10)], fetches = 3\<rparr> la_ALL 20 = None
   \<and> (30::int) < 20 + CACHE_TTL
   \<and> get_df ucd (\<lambda>rs. (Raises la_429, Raises []))
        [(cy_Xorazm, Some la_sheet1), (cy_Navoiy, None)] 20 None False
        \<lparr>CACHE = [la_ALL \<mapsto> ([\<lparr>region_name = cy_Xorazm, city_district = cy_Xorazm,
          type_normalized = cy_ZIL, status_normalized = cy_Yarokli, qty = 1,
          has_tracker = False\<rparr>], 10)], fetches = 3\<rparr>
      = ([], \<lparr>CACHE = [la_ALL \<mapsto> ([], 20 + CACHE_TTL)], fetches = 4\<rparr>)
   \<and> get_df ucd (\<lambda>rs. (Frame \<lparr>columns = [], rows = []\<rparr>, Raises []))
        [(cy_Xorazm, Some la_sheet1), (cy_Navoiy, None)] 30 None False
        \<lparr>CACHE = [la_ALL \<mapsto> ([], 20 + CACHE_TTL)], fetches = 4\<rparr>
      = ([], \<lparr>CACHE = [la_ALL \<mapsto> ([], 20 + CACHE_TTL)], fetches = 4\<rparr>)"
proof -
  let ?sheets = "[(cy_Xorazm, Some la_sheet1), (cy_Navoiy, None)]"
  let ?calls = "\<lambda>rs :: ustr \<times> ustr option. (Raises la_429, Raises [])"
  let ?st = "\<lparr>CACHE = [la_ALL \<mapsto> ([\<lparr>region_name = cy_Xorazm, city_district = cy_Xorazm,
          type_normalized = cy_ZIL, status_normalized = cy_Yarokli, qty = 1,
          has_tracker = False\<rparr>], 10)], fetches = 3\<rparr>"
  have 1: "\<forall>rs \<in> set ?sheets. truthy (snd rs) \<noteq> None \<longrightarrow> load_fails ucd (fst rs) (?calls rs)"
    by (simp add: load_fails_def attempt_def truthy_def lexicon)
  have 2: "cache_key None = la_ALL"
    by (simp add: cache_key_def truthy_def)
  have 3: "cached ?st la_ALL 20 = None"
    by (simp add: cached_def)
  have 4: "(30::int) < 20 + CACHE_TTL"
    by (simp add: CACHE_TTL_def)
  note inst0 = all_loads_fail [OF 1 2]
  note inst = inst0 [where force = False and st = ?st and now = 20 and now' = 30
      and calls' = "\<lambda>rs. (Frame \<lparr>columns = [], rows = []\<rparr>, Raises [])"]
  from inst 3 4 have
    a: "get_df ucd ?calls ?sheets 20 None False ?st
        = ([], ?st\<lparr>fetches := fetches ?st + 1,
                    CACHE := (CACHE ?st)(la_ALL \<mapsto> ([], 20 + CACHE_TTL))\<rparr>)"
    and b: "get_df ucd (\<lambda>rs. (Frame \<lparr>columns = [], rows = []\<rparr>, Raises [])) ?sheets 30 None False
              (snd (get_df ucd ?calls ?sheets 20 None False ?st))
            = ([], snd (get_df ucd ?calls ?sheets 20 None False ?st))"
    by blast+
  from a have a': "get_df ucd ?calls ?sheets 20 None False ?st
        = ([], \<lparr>CACHE = [la_ALL \<mapsto> ([], 20 + CACHE_TTL)], fetches = 4\<rparr>)"
    by simp
  with b have "get_df ucd (\<lambda>rs. (Frame \<lparr>columns = [], rows = []\<rparr>, Raises [])) ?sheets 30 None False
        \<lparr>CACHE = [la_ALL \<mapsto> ([], 20 + CACHE_TTL)], fetches = 4\<rparr>
      = ([], \<lparr>CACHE = [la_ALL \<mapsto> ([], 20 + CACHE_TTL)], fetches = 4\<rparr>)"
    by simp
  moreover have "truthy (Some la_sheet1) = Some la_sheet1 \<and> truthy None = None
      \<and> attempt ucd cy_Xorazm (Raises la_429) = Inl la_429 \<and> py_in la_429 la_429
      \<and> load_fails ucd cy_Xorazm (Raises la_429, Raises [])
      \<and> load_single_region_sync ucd (Raises la_429, Raises []) (cy_Xorazm, Some la_sheet1)
          = (cy_Xorazm, [])"
    by (simp add: load_single_region_sync_def load_fails_def attempt_def truthy_def lexicon)
  ultimately show ?thesis
    using a' 2 3 4 by blast
qed

section \<open>The quantity of a record\<close>

lemma collect_Inr:
  "collect xs = Inr vs \<Longrightarrow> length vs = length xs \<and> (\<forall>i < length xs. xs ! i = Inr (vs ! i))"
proof (induction xs arbitrary: vs)
  case Nil
  then show ?case by simp
next
  case (Cons x xs)
  from Cons.prems obtain v ws where x: "x = Inr v" and ws: "collect xs = Inr ws"
    and vs: "vs = v # ws"
    by (auto split: sum.splits)
  from Cons.IH [OF ws] have "length ws = length xs"
    and "\<forall>i < length xs. xs ! i = Inr (ws ! i)" by simp_all
  with x vs show ?case
    by (auto simp: nth_Cons split: nat.split)
qed

lemma collect_all_Inr:
  "\<forall>x \<in> set xs. \<not> isl x \<Longrightarrow> \<exists>vs. collect xs = Inr vs"
proof (induction xs)
  case Nil
  then show ?case by simp
next
  case (Cons x xs)
  then obtain vs where "collect xs = Inr vs" by auto
  moreover from Cons.prems obtain v where "x = Inr v" by (cases x) auto
  ultimately show ?case by simp
qed

lemma qty_column_cells:
  assumes "qty_column L cells = Inr qs"
  shows "length qs = length cells"
    and "i < length cells \<Longrightarrow> 1 \<le> qs ! i"
    and "i < length cells \<Longrightarrow> lib_to_numeric L (cells ! i) = NumNaN \<Longrightarrow> qs ! i = 1"
    and "i < length cells \<Longrightarrow> lib_to_numeric L (cells ! i) = NumInt n \<Longrightarrow>
           qs ! i = (if n \<le> 0 then 1 else n)"
proof -
  from assms obtain vs where vs: "collect (map (astype_int L) cells) = Inr vs"
    and qs: "qs = map (\<lambda>q. if q \<le> 0 then 1 else q) vs"
    by (auto simp: qty_column_def split: sum.splits)
  from collect_Inr [OF vs] have len: "length vs = length cells"
    and nth: "\<forall>i < length cells. astype_int L (cells ! i) = Inr (vs ! i)"
    by simp_all
  show "length qs = length cells"
    using qs len by simp
  show "1 \<le> qs ! i" if "i < length cells"
    using that qs len by simp
  show "qs ! i = 1" if "i < length cells" and "lib_to_numeric L (cells ! i) = NumNaN"
  proof -
    from that nth have "vs ! i = 0"
      by (auto simp: astype_int_def)
    with that(1) qs len show ?thesis by simp
  qed
  show "qs ! i = (if n \<le> 0 then 1 else n)"
    if "i < length cells" and "lib_to_numeric L (cells ! i) = NumInt n"
  proof -
    from that nth have "vs ! i = n"
      by (auto simp: astype_int_def)
    with that(1) qs len show ?thesis by simp
  qed
qed

lemma qty_column_nth:
  assumes "qty_column L cells = Inr qs" and "i < length cells"
  shows "qs ! i = spec_quantity L (cells ! i)"
proof (cases "lib_to_numeric L (cells ! i)")
  case (NumInt n)
  with assms show ?thesis
    by (simp add: qty_column_cells(4) spec_quantity_def)
next
  case NumNaN
  with assms show ?thesis
    by (simp add: qty_column_cells(3) spec_quantity_def)
next
  case NumNonFinite
  from assms(1) obtain vs where "collect (map (astype_int L) cells) = Inr vs"
    by (auto simp: qty_column_def split: sum.splits)
  from collect_Inr [OF this] assms(2) have "astype_int L (cells ! i) = Inr (vs ! i)"
    by simp
  with NumNonFinite show ?thesis
    by (simp add: astype_int_def)
qed

lemma collect_astype_int:
  assumes "\<forall>c \<in> set cells. lib_to_numeric L c \<noteq> NumNonFinite"
  shows "collect (map (astype_int L) cells)
           = Inr (map (\<lambda>c. case lib_to_numeric L c of NumInt i \<Rightarrow> i | _ \<Rightarrow> 0) cells)"
  using assms
proof (induction cells)
  case Nil
  then show ?case by simp
next
  case (Cons c cells)
  then show ?case
    by (cases "lib_to_numeric L c") (simp_all add: astype_int_def)
qed

lemma qty_column_spec:
  assumes "\<forall>c \<in> set cells. lib_to_numeric L c \<noteq> NumNonFinite"
  shows "qty_column L cells = Inr (map (spec_quantity L) cells)"
proof -
  have "(let q = (case lib_to_numeric L c of NumInt i \<Rightarrow> i | _ \<Rightarrow> 0) in if q \<le> 0 then 1 else q)
          = spec_quantity L c" for c
    by (cases "lib_to_numeric L c") (simp_all add: spec_quantity_def)
  then show ?thesis
    unfolding qty_column_def collect_astype_int [OF assms]
    by (simp add: Let_def comp_def)
qed

lemma collect_non_finite:
  assumes "c \<in> set cells" and "lib_to_numeric L c = NumNonFinite"
  shows "collect (map (astype_int L) cells) = Inl non_finite_message"
  using assms(1)
proof (induction cells)
  case Nil
  then show ?case by simp
next
  case (Cons x cells)
  show ?case
  proof (cases "lib_to_numeric L x")
    case NumNonFinite
    then show ?thesis
      by (simp add: astype_int_def)
  next
    case (NumInt i)
    then have x: "astype_int L x = Inr i"
      by (simp add: astype_int_def)
    from NumInt Cons assms(2) have "collect (map (astype_int L) cells) = Inl non_finite_message"
      by auto
    with x show ?thesis
      by simp
  next
    case NumNaN
    then have x: "astype_int L x = Inr 0"
      by (simp add: astype_int_def)
    from NumNaN Cons assms(2) have "collect (map (astype_int L) cells) = Inl non_finite_message"
      by auto
    with x show ?thesis
      by simp
  qed
qed

lemma build_dataset_non_finite:
  assumes "\<not> frame_empty df"
    and "truthy (find_column L (columns (rename_columns (py_strip L) df)) QTY_ALIASES) = Some qc"
    and "r \<in> set (rows (rename_columns (py_strip L) df))"
    and "lib_to_numeric L (cell_of r qc) = NumNonFinite"
  shows "build_dataset L region df = Inl non_finite_message"
proof -
  let ?df = "rename_columns (py_strip L) df"
  from assms(3) have "cell_of r qc \<in> set (get_col ?df qc)"
    by (simp add: get_col_def)
  from collect_non_finite [OF this assms(4)]
  have "qty_column L (get_col ?df qc) = Inl non_finite_message"
    by (simp add: qty_column_def)
  with assms(2) have "add_qty L (find_column L (columns ?df) QTY_ALIASES) ?df
                      = Inl non_finite_message"
    by (simp add: add_qty_def)
  with assms(1) show ?thesis
    by (simp add: build_dataset_def Let_def)
qed

lemma no_429_in_non_finite_message:
  "\<not> py_in la_429 non_finite_message"
  by (simp add: non_finite_message_def lexicon)

lemma qty_is_update:
  assumes "qty_is P r" and "c \<noteq> la_qty"
  shows "qty_is P (AList.update c v r)"
  using assms by (simp add: qty_is_def update_conv')

lemma qty_is_set_col:
  assumes "\<forall>r \<in> set (rows df). qty_is P r" and "c \<noteq> la_qty"
  shows "\<forall>r \<in> set (rows (set_col c vs df)). qty_is P r"
proof
  fix r'
  assume "r' \<in> set (rows (set_col c vs df))"
  then obtain r v where "(r, v) \<in> set (zip (rows df) vs)" and r': "r' = AList.update c v r"
    by (auto simp: set_col_def)
  then have "r \<in> set (rows df)"
    by (auto dest: set_zip_leftD)
  with assms r' show "qty_is P r'"
    by (simp add: qty_is_update)
qed

lemma qty_is_set_col_const:
  assumes "\<forall>r \<in> set (rows df). qty_is P r" and "c \<noteq> la_qty"
  shows "\<forall>r \<in> set (rows (set_col_const c v df)). qty_is P r"
  unfolding set_col_const_def using assms by (rule qty_is_set_col)

lemma qty_is_fillna:
  assumes "\<forall>r \<in> set (rows df). qty_is P r"
  shows "\<forall>r \<in> set (rows (set_col c (map (fillna d) (get_col df c)) df)). qty_is P r"
proof
  fix r'
  assume "r' \<in> set (rows (set_col c (map (fillna d) (get_col df c)) df))"
  then obtain r where r: "r \<in> set (rows df)"
    and r': "r' = AList.update c (fillna d (cell_of r c)) r"
    by (auto simp: set_col_def get_col_def zip_map2 zip_same_conv_map)
  from assms r have q: "qty_is P r" by blast
  show "qty_is P r'"
  proof (cases "c = la_qty")
    case True
    from q obtain n where "map_of r la_qty = Some (CInt n)" and "P n"
      by (auto simp: qty_is_def)
    with True r' show ?thesis
      by (simp add: qty_is_def cell_of_def fillna_def update_conv')
  next
    case False
    with q r' show ?thesis by (simp add: qty_is_update)
  qed
qed

lemma qty_is_filter_rows:
  assumes "\<forall>r \<in> set (rows df). qty_is P r"
  shows "\<forall>r \<in> set (rows (filter_rows Q df)). qty_is P r"
  using assms by (simp add: filter_rows_def)

lemma qty_is_add_qty:
  assumes "add_qty L qty_col df = Inr df1"
  shows "\<forall>r \<in> set (rows df1). qty_is (\<lambda>n. 1 \<le> n) r"
proof -
  from assms obtain qs where df1: "df1 = set_col la_qty (map CInt qs) df"
    and qs: "(case truthy qty_col of
                Some qc \<Rightarrow> qty_column L (get_col df qc)
              | None \<Rightarrow> Inr (replicate (length (rows df)) 1)) = Inr qs"
    by (auto simp: add_qty_def split: sum.splits)
  have "\<forall>q \<in> set qs. 1 \<le> q"
  proof (cases "truthy qty_col")
    case None
    with qs show ?thesis by auto
  next
    case (Some qc)
    with qs have "qty_column L (get_col df qc) = Inr qs" by simp
    from qty_column_cells(1,2) [OF this] show ?thesis
      by (metis in_set_conv_nth)
  qed
  then show ?thesis
    unfolding df1 by (auto simp: set_col_def qty_is_def update_conv' dest!: set_zip_rightD)
qed

lemma qty_is_add_qty_cell:
  assumes "add_qty L qty_col df = Inr df1" and "truthy qty_col = Some qc"
  shows "\<forall>r' \<in> set (rows df1).
           qty_is (\<lambda>n. \<exists>r \<in> set (rows df). n = spec_quantity L (cell_of r qc)) r'"
proof
  fix r'
  assume r': "r' \<in> set (rows df1)"
  from assms obtain qs where df1: "df1 = set_col la_qty (map CInt qs) df"
    and qs: "qty_column L (get_col df qc) = Inr qs"
    by (auto simp: add_qty_def split: sum.splits)
  from qty_column_cells(1) [OF qs] have len: "length qs = length (rows df)"
    by (simp add: get_col_def)
  from r' df1 obtain r v where "(r, v) \<in> set (zip (rows df) (map CInt qs))"
    and upd: "r' = AList.update la_qty v r"
    by (auto simp: set_col_def)
  then obtain i where i: "i < length (rows df)" and r: "r = rows df ! i" and v: "v = CInt (qs ! i)"
    using len by (auto simp: in_set_zip)
  from qty_column_nth [OF qs, of i] i
  have "qs ! i = spec_quantity L (cell_of (rows df ! i) qc)"
    by (simp add: get_col_def)
  moreover from i have "rows df ! i \<in> set (rows df)"
    by simp
  ultimately show "qty_is (\<lambda>n. \<exists>r \<in> set (rows df). n = spec_quantity L (cell_of r qc)) r'"
    unfolding upd v by (auto simp: qty_is_def update_conv')
qed

lemma qty_is_add_qty_default:
  assumes "add_qty L qty_col df = Inr df1" and "truthy qty_col = None"
  shows "\<forall>r \<in> set (rows df1). qty_is (\<lambda>n. n = 1) r"
proof -
  from assms have "df1 = set_col la_qty (map CInt (replicate (length (rows df)) 1)) df"
    by (auto simp: add_qty_def)
  then show ?thesis
    by (auto simp: set_col_def qty_is_def update_conv' dest!: set_zip_rightD)
qed

lemma qty_is_add_type:
  assumes "\<forall>r \<in> set (rows df). qty_is P r"
  shows "\<forall>r \<in> set (rows (add_type L tc df)). qty_is P r"
  unfolding add_type_def
  by (intro qty_is_filter_rows qty_is_set_col assms) (simp add: lexicon)

lemma qty_is_add_status:
  assumes "\<forall>r \<in> set (rows df). qty_is P r"
  shows "\<forall>r \<in> set (rows (add_status L status_col df)). qty_is P r"
proof (cases "truthy status_col")
  case None
  have "\<forall>r \<in> set (rows (set_col_const la_status_normalized (CStr cy_Xolati_nomaqhlum) df)).
          qty_is P r"
    by (intro qty_is_set_col_const assms) (simp add: lexicon)
  with None show ?thesis
    by (simp add: add_status_def)
next
  case (Some sc)
  let ?df1 = "set_col sc (map (fillna (CStr [])) (get_col df sc)) df"
  have "\<forall>r \<in> set (rows (set_col la_status_normalized
                 (map (\<lambda>v. CStr (normalize_status L v)) (get_col ?df1 sc)) ?df1)). qty_is P r"
    by (intro qty_is_set_col qty_is_fillna assms) (simp add: lexicon)
  with Some show ?thesis
    by (simp add: add_status_def Let_def)
qed

lemma qty_is_add_district:
  assumes "\<forall>r \<in> set (rows df). qty_is P r"
  shows "\<forall>r \<in> set (rows (add_district L region region_col df)). qty_is P r"
proof (cases "truthy region_col")
  case None
  have "\<forall>r \<in> set (rows (set_col_const la_city_district (CStr region) df)). qty_is P r"
    by (intro qty_is_set_col_const assms) (simp add: lexicon)
  with None show ?thesis
    by (simp add: add_district_def)
next
  case (Some rc)
  have "\<forall>r \<in> set (rows (set_col la_city_district
                 (map (district_of L region) (get_col df rc)) df)). qty_is P r"
    by (intro qty_is_set_col assms) (simp add: lexicon)
  with Some show ?thesis
    by (simp add: add_district_def)
qed

lemma qty_is_add_tracker:
  assumes "\<forall>r \<in> set (rows df). qty_is P r"
  shows "\<forall>r \<in> set (rows (add_tracker L df)). qty_is P r"
proof (cases "truthy (find_column L (columns df) TRACKER_ALIASES)")
  case None
  have "\<forall>r \<in> set (rows (set_col_const la_has_tracker (CBool False) df)). qty_is P r"
    by (intro qty_is_set_col_const assms) (simp add: lexicon)
  with None show ?thesis
    by (simp add: add_tracker_def)
next
  case (Some tc)
  have "\<forall>r \<in> set (rows (set_col la_has_tracker
                 (map (\<lambda>v. CBool (normalize_tracker_flag L v)) (get_col df tc)) df)). qty_is P r"
    by (intro qty_is_set_col assms) (simp add: lexicon)
  with Some show ?thesis
    by (simp add: add_tracker_def)
qed

lemma to_dataset_qty:
  assumes "\<forall>r \<in> set (rows df). qty_is P r"
  shows "\<forall>x \<in> set (to_dataset df). P (qty x)"
  using assms by (auto simp: to_dataset_def qty_is_def cell_of_def int_of_cell_def)

lemma build_dataset_qty_is:
  assumes "build_dataset L region df0 = Inr ds"
    and step: "\<And>df1. add_qty L (find_column L (columns (rename_columns (py_strip L) df0))
                  QTY_ALIASES) (rename_columns (py_strip L) df0) = Inr df1 \<Longrightarrow>
                \<forall>r \<in> set (rows df1). qty_is P r"
  shows "\<forall>x \<in> set ds. P (qty x)"
proof (cases "frame_empty df0")
  case True
  with assms(1) show ?thesis
    by (simp add: build_dataset_def)
next
  case False
  let ?df = "rename_columns (py_strip L) df0"
  let ?qc = "find_column L (columns ?df) QTY_ALIASES"
  from False assms(1) obtain df1 where df1: "add_qty L ?qc ?df = Inr df1"
    by (auto simp: build_dataset_def Let_def split: sum.splits)
  let ?df2 = "set_col_const la_region_name (CStr region) df1"
  from step [OF df1] have "\<forall>r \<in> set (rows ?df2). qty_is P r"
    by (intro qty_is_set_col_const) (simp_all add: lexicon)
  then have inv: "\<forall>r \<in> set (rows (add_tracker L (add_district L region rc
                      (add_status L sc (add_type L tc ?df2))))). qty_is P r" for rc sc tc
    by (intro qty_is_add_tracker qty_is_add_district qty_is_add_status qty_is_add_type)
  show ?thesis
  proof (cases "truthy (find_column L (columns ?df) TYPE_ALIASES)")
    case None
    with False assms(1) df1 show ?thesis
      by (simp add: build_dataset_def Let_def)
  next
    case (Some tc)
    with False assms(1) df1 have "ds = to_dataset (add_tracker L
        (add_district L region (find_column L (columns ?df) REGION_ALIASES)
          (add_status L (find_column L (columns ?df) STATUS_ALIASES) (add_type L tc ?df2))))"
      by (simp add: build_dataset_def Let_def)
    then show ?thesis
      using to_dataset_qty [OF inv] by simp
  qed
qed

lemma attempt_qty:
  assumes "attempt L region a = Inr ds"
  shows "\<forall>x \<in> set ds. 1 \<le> qty x"
proof (cases a)
  case (Raises e)
  with assms show ?thesis by (simp add: attempt_def)
next
  case (Frame df0)
  with assms have "build_dataset L region df0 = Inr ds"
    by (simp add: attempt_def)
  then show ?thesis
    by (rule build_dataset_qty_is) (rule qty_is_add_qty)
qed

lemma load_single_region_sync_qty:
  "\<forall>x \<in> set (snd (load_single_region_sync L calls rs)). 1 \<le> qty x"
proof (cases rs)
  case (Pair region sheet_id)
  show ?thesis
    unfolding Pair load_single_region_sync_def
    by (auto split: option.splits sum.splits dest: attempt_qty)
qed

text \<open>
  C3. Every record that \<open>load_single_region_sync\<close> returns has a quantity of at least 1, and
  the quantity 1 when no quantity column is resolved. When one is resolved and none of its
  cells is a non-finite number, lines 418 and 419 raise nothing and give every row the quantity
  of the specification for its cell: 1 for a cell that is not a number, is missing, or is zero
  or negative. But a cell that \<^verbatim>\<open>pd.to_numeric\<close> reads as an infinite number is not coerced:
  \<^verbatim>\<open>astype(int)\<close> raises on the column at line 418, the exception does not mention 429, so
  the handler of lines 473 and 533 answers with the empty frame, and the region has no
  record at all, those of the rows with good quantities included.
\<close>

theorem quantity_column_coercion:
  "(\<forall>x \<in> set (snd (load_single_region_sync L calls rs)). 1 \<le> qty x)
   \<and> (\<forall>region df ds.
         truthy (find_column L (columns (rename_columns (py_strip L) df)) QTY_ALIASES) = None
         \<and> build_dataset L region df = Inr ds \<longrightarrow> (\<forall>x \<in> set ds. qty x = 1))
   \<and> (\<forall>df qc.
         qc \<noteq> [] \<and> (\<forall>r \<in> set (rows df). lib_to_numeric L (cell_of r qc) \<noteq> NumNonFinite) \<longrightarrow>
         add_qty L (Some qc) df
           = Inr (set_col la_qty (map (\<lambda>r. CInt (spec_quantity L (cell_of r qc))) (rows df)) df))
   \<and> (\<forall>region df ds qc.
         truthy (find_column L (columns (rename_columns (py_strip L) df)) QTY_ALIASES) = Some qc
         \<and> build_dataset L region df = Inr ds \<longrightarrow>
         (\<forall>x \<in> set ds. \<exists>r \<in> set (rows (rename_columns (py_strip L) df)).
                         qty x = spec_quantity L (cell_of r qc)))
   \<and> (\<forall>region sheet_id second df qc r.
         \<not> frame_empty df
         \<and> truthy (find_column L (columns (rename_columns (py_strip L) df)) QTY_ALIASES) = Some qc
         \<and> r \<in> set (rows (rename_columns (py_strip L) df))
         \<and> lib_to_numeric L (cell_of r qc) = NumNonFinite \<longrightarrow>
         build_dataset L region df = Inl non_finite_message
         \<and> (truthy sheet_id \<noteq> None \<longrightarrow>
              load_single_region_sync L (Frame df, second) (region, sheet_id) = (region, [])))"
proof (intro conjI allI impI)
  show "\<forall>x \<in> set (snd (load_single_region_sync L calls rs)). 1 \<le> qty x"
    by (rule load_single_region_sync_qty)
next
  fix region df ds
  assume a: "truthy (find_column L (columns (rename_columns (py_strip L) df)) QTY_ALIASES) = None
             \<and> build_dataset L region df = Inr ds"
  then have "build_dataset L region df = Inr ds" ..
  then show "\<forall>x \<in> set ds. qty x = 1"
  proof (rule build_dataset_qty_is)
    fix df1
    assume "add_qty L (find_column L (columns (rename_columns (py_strip L) df)) QTY_ALIASES)
              (rename_columns (py_strip L) df) = Inr df1"
    then show "\<forall>r \<in> set (rows df1). qty_is (\<lambda>n. n = 1) r"
      using a by (intro qty_is_add_qty_default) auto
  qed
next
  fix df :: frame and qc
  assume a: "qc \<noteq> [] \<and> (\<forall>r \<in> set (rows df). lib_to_numeric L (cell_of r qc) \<noteq> NumNonFinite)"
  then have "\<forall>c \<in> set (get_col df qc). lib_to_numeric L c \<noteq> NumNonFinite"
    by (simp add: get_col_def)
  from qty_column_spec [OF this]
  have "qty_column L (get_col df qc) = Inr (map (\<lambda>r. spec_quantity L (cell_of r qc)) (rows df))"
    by (simp add: get_col_def comp_def)
  with a show "add_qty L (Some qc) df
           = Inr (set_col la_qty (map (\<lambda>r. CInt (spec_quantity L (cell_of r qc))) (rows df)) df)"
    by (simp add: add_qty_def truthy_def comp_def)
next
  fix region df ds qc
  let ?df = "rename_columns (py_strip L) df"
  assume a: "truthy (find_column L (columns ?df) QTY_ALIASES) = Some qc
             \<and> build_dataset L region df = Inr ds"
  then have "build_dataset L region df = Inr ds" ..
  then have "\<forall>x \<in> set ds. \<exists>r \<in> set (rows ?df). qty x = spec_quantity L (cell_of r qc)"
  proof (rule build_dataset_qty_is)
    fix df1
    assume "add_qty L (find_column L (columns ?df) QTY_ALIASES) ?df = Inr df1"
    then show "\<forall>r' \<in> set (rows df1).
                 qty_is (\<lambda>n. \<exists>r \<in> set (rows ?df). n = spec_quantity L (cell_of r qc)) r'"
      using a by (intro qty_is_add_qty_cell) auto
  qed
  then show "\<forall>x \<in> set ds. \<exists>r \<in> set (rows ?df). qty x = spec_quantity L (cell_of r qc)" .
next
  fix region :: ustr and sheet_id second df qc r
  assume a: "\<not> frame_empty df
         \<and> truthy (find_column L (columns (rename_columns (py_strip L) df)) QTY_ALIASES) = Some qc
         \<and> r \<in> set (rows (rename_columns (py_strip L) df))
         \<and> lib_to_numeric L (cell_of r qc) = NumNonFinite"
  then show raises: "build_dataset L region df = Inl non_finite_message"
    by (intro build_dataset_non_finite) auto
  assume "truthy sheet_id \<noteq> None"
  with raises show "load_single_region_sync L (Frame df, second) (region, sheet_id) = (region, [])"
    by (auto simp: load_single_region_sync_def attempt_def no_429_in_non_finite_message)
qed

theorem quantity_column_coercion_witness:
  "snd (load_single_region_sync ucd
         (Frame \<lparr>columns = [cy_Naimenovanie_texniki, cy_Soni],
           rows = [[(cy_Naimenovanie_texniki, CStr cy_Kamaz), (cy_Soni, CInt 0)],
                 [(cy_Naimenovanie_texniki, CStr cy_ZIL), (cy_Soni, CStr cy_bor)],
                 [(cy_Naimenovanie_texniki, CStr cy_UAZ), (cy_Soni, CInt 3)]]\<rparr>, Raises [])
         (cy_Sirdaryo, Some la_sheet1))
     = [\<lparr>region_name = cy_Sirdaryo, city_district = cy_Sirdaryo, type_normalized = cy_Kamaz,
          status_normalized = cy_Xolati_nomaqhlum, qty = 1, has_tracker = False\<rparr>,
         \<lparr>region_name = cy_Sirdaryo, city_district = cy_Sirdaryo, type_normalized = cy_ZIL,
          status_normalized = cy_Xolati_nomaqhlum, qty = 1, has_tracker = False\<rparr>,
         \<lparr>region_name = cy_Sirdaryo, city_district = cy_Sirdaryo, type_normalized = cy_UAZ,
          status_normalized = cy_Xolati_nomaqhlum, qty = 3, has_tracker = False\<rparr>]
   \<and> list_all (\<lambda>x. 1 \<le> qty x) (snd (load_single_region_sync ucd
         (Frame \<lparr>columns = [cy_Naimenovanie_texniki, cy_Soni],
           rows = [[(cy_Naimenovanie_texniki, CStr cy_Kamaz), (cy_Soni, CInt 0)],
                 [(cy_Naimenovanie_texniki, CStr cy_ZIL), (cy_Soni, CStr cy_bor)],
                 [(cy_Naimenovanie_texniki, CStr cy_UAZ), (cy_Soni, CInt 3)]]\<rparr>, Raises [])
         (cy_Sirdaryo, Some la_sheet1)))
   \<and> list_all (\<lambda>r. lib_to_numeric ucd (cell_of r cy_Soni) \<noteq> NumNonFinite) (rows \<lparr>columns = [cy_Soni],
           rows = [[(cy_Soni, CInt 0)], [(cy_Soni, CStr [])], [(cy_Soni, CStr cy_bor)],
                 [(cy_Soni, CInt (- 2))], [(cy_Soni, CInt 3)], [(cy_Soni, CFloat [50, 46, 55])],
                 [(cy_Soni, CNaN)]]\<rparr>)
   \<and> add_qty ucd (Some cy_Soni) \<lparr>columns = [cy_Soni],
           rows = [[(cy_Soni, CInt 0)], [(cy_Soni, CStr [])], [(cy_Soni, CStr cy_bor)],
                 [(cy_Soni, CInt (- 2))], [(cy_Soni, CInt 3)], [(cy_Soni, CFloat [50, 46, 55])],
                 [(cy_Soni, CNaN)]]\<rparr>
     = Inr \<lparr>columns = [cy_Soni, la_qty],
           rows = [[(cy_Soni, CInt 0), (la_qty, CInt 1)],
                 [(cy_Soni, CStr []), (la_qty, CInt 1)],
                 [(cy_Soni, CStr cy_bor), (la_qty, CInt 1)],
                 [(cy_Soni, CInt (- 2)), (la_qty, CInt 1)],
                 [(cy_Soni, CInt 3), (la_qty, CInt 3)],
                 [(cy_Soni, CFloat [50, 46, 55]), (la_qty, CInt 2)],
                 [(cy_Soni, CNaN), (la_qty, CInt 1)]]\<rparr>
   \<and> list_all (\<lambda>x. list_ex (\<lambda>r. qty x = spec_quantity ucd (cell_of r cy_Soni)) (rows \<lparr>columns = [cy_Naimenovanie_texniki, cy_Soni],
           rows = [[(cy_Naimenovanie_texniki, CStr cy_Kamaz), (cy_Soni, CInt 0)],
                 [(cy_Naimenovanie_texniki, CStr cy_ZIL), (cy_Soni, CStr cy_bor)],
                 [(cy_Naimenovanie_texniki, CStr cy_UAZ), (cy_Soni, CInt 3)]]\<rparr>))
       [\<lparr>region_name = cy_Sirdaryo, city_district = cy_Sirdaryo, type_normalized = cy_Kamaz,
          status_normalized = cy_Xolati_nomaqhlum, qty = 1, has_tracker = False\<rparr>,
         \<lparr>region_name = cy_Sirdaryo, city_district = cy_Sirdaryo, type_normalized = cy_ZIL,
          status_normalized = cy_Xolati_nomaqhlum, qty = 1, has_tracker = False\<rparr>,
         \<lparr>region_name = cy_Sirdaryo, city_district = cy_Sirdaryo, type_normalized = cy_UAZ,
          status_normalized = cy_Xolati_nomaqhlum, qty = 3, has_tracker = False\<rparr>]
   \<and> \<not> frame_empty \<lparr>columns = [cy_Naimenovanie_texniki, cy_Soni],
           rows = [[(cy_Naimenovanie_texniki, CStr cy_UAZ), (cy_Soni, CInt 3)],
                 [(cy_Naimenovanie_texniki, CStr cy_ZIL), (cy_Soni, CFloat (45 # la_inf))]]\<rparr>
   \<and> truthy (find_column ucd (columns (rename_columns (py_strip ucd) \<lparr>columns = [cy_Naimenovanie_texniki, cy_Soni],
           rows = [[(cy_Naimenovanie_texniki, CStr cy_UAZ), (cy_Soni, CInt 3)],
                 [(cy_Naimenovanie_texniki, CStr cy_ZIL), (cy_Soni, CFloat (45 # la_inf))]]\<rparr>)) QTY_ALIASES)
     = Some cy_Soni
   \<and> [(cy_Naimenovanie_texniki, CStr cy_ZIL), (cy_Soni, CFloat (45 # la_inf))]
       \<in> set (rows (rename_columns (py_strip ucd) \<lparr>columns = [cy_Naimenovanie_texniki, cy_Soni],
           rows = [[(cy_Naimenovanie_texniki, CStr cy_UAZ), (cy_Soni, CInt 3)],
                 [(cy_Naimenovanie_texniki, CStr cy_ZIL), (cy_Soni, CFloat (45 # la_inf))]]\<rparr>))
   \<and> lib_to_numeric ucd (cell_of [(cy_Naimenovanie_texniki, CStr cy_ZIL), (cy_Soni, CFloat (45 # la_inf))] cy_Soni) = NumNonFinite
   \<and> map (\<lambda>r. spec_quantity ucd (cell_of r cy_Soni)) (rows \<lparr>columns = [cy_Naimenovanie_texniki, cy_Soni],
           rows = [[(cy_Naimenovanie_texniki, CStr cy_UAZ), (cy_Soni, CInt 3)],
                 [(cy_Naimenovanie_texniki, CStr cy_ZIL), (cy_Soni, CFloat (45 # la_inf))]]\<rparr>) = [3, 1]
   \<and> build_dataset ucd cy_Sirdaryo \<lparr>columns = [cy_Naimenovanie_texniki, cy_Soni],
           rows = [[(cy_Naimenovanie_texniki, CStr cy_UAZ), (cy_Soni, CInt 3)],
                 [(cy_Naimenovanie_texniki, CStr cy_ZIL), (cy_Soni, CFloat (45 # la_inf))]]\<rparr> = Inl non_finite_message
   \<and> load_single_region_sync ucd (Frame \<lparr>columns = [cy_Naimenovanie_texniki, cy_Soni],
           rows = [[(cy_Naimenovanie_texniki, CStr cy_UAZ), (cy_Soni, CInt 3)],
                 [(cy_Naimenovanie_texniki, CStr cy_ZIL), (cy_Soni, CFloat (45 # la_inf))]]\<rparr>, Raises []) (cy_Sirdaryo, Some la_sheet1)
     = (cy_Sirdaryo, [])
   \<and> truthy (find_column ucd (columns (rename_columns (py_strip ucd)
         \<lparr>columns = [cy_Naimenovanie_texniki],
           rows = [[(cy_Naimenovanie_texniki, CStr cy_Kamaz)]]\<rparr>)) QTY_ALIASES) = None
   \<and> build_dataset ucd cy_Sirdaryo
         \<lparr>columns = [cy_Naimenovanie_texniki],
           rows = [[(cy_Naimenovanie_texniki, CStr cy_Kamaz)]]\<rparr>
     = Inr [\<lparr>region_name = cy_Sirdaryo, city_district = cy_Sirdaryo, type_normalized = cy_Kamaz,
          status_normalized = cy_Xolati_nomaqhlum, qty = 1, has_tracker = False\<rparr>]
   \<and> list_all (\<lambda>x. qty x = 1)
       [\<lparr>region_name = cy_Sirdaryo, city_district = cy_Sirdaryo, type_normalized = cy_Kamaz,
          status_normalized = cy_Xolati_nomaqhlum, qty = 1, has_tracker = False\<rparr>]"
proof -
  let ?a0 = "\<lparr>columns = [cy_Naimenovanie_texniki, cy_Soni],
        rows = [[(cy_Naimenovanie_texniki, CStr cy_Kamaz), (cy_Soni, CInt 0)],
              [(cy_Naimenovanie_texniki, CStr cy_ZIL), (cy_Soni, CStr cy_bor)],
              [(cy_Naimenovanie_texniki, CStr cy_UAZ), (cy_Soni, CInt 3)]]\<rparr>"
  have a_ne: "\<not> frame_empty ?a0"
    by (simp add: frame_empty_def)
  have a_rn: "rename_columns (py_strip ucd) ?a0 = ?a0"
    by (simp add: rename_columns_def text_defs ucd_defs lexicon)
  have a_sc: "find_column ucd [cy_Naimenovanie_texniki, cy_Soni] STATUS_ALIASES = None"
    by (simp add: column_defs text_defs ucd_defs lexicon)
  have a_tc: "find_column ucd [cy_Naimenovanie_texniki, cy_Soni] TYPE_ALIASES = Some cy_Naimenovanie_texniki"
    by (simp add: column_defs text_defs ucd_defs lexicon)
  have a_rc: "find_column ucd [cy_Naimenovanie_texniki, cy_Soni] REGION_ALIASES = None"
    by (simp add: column_defs text_defs ucd_defs lexicon)
  have a_qc: "find_column ucd [cy_Naimenovanie_texniki, cy_Soni] QTY_ALIASES = Some cy_Soni"
    by (simp add: column_defs text_defs ucd_defs lexicon)
  let ?a1 = "\<lparr>columns = [cy_Naimenovanie_texniki, cy_Soni, la_qty],
        rows = [[(cy_Naimenovanie_texniki, CStr cy_Kamaz), (cy_Soni, CInt 0), (la_qty, CInt 1)],
              [(cy_Naimenovanie_texniki, CStr cy_ZIL), (cy_Soni, CStr cy_bor), (la_qty, CInt 1)],
              [(cy_Naimenovanie_texniki, CStr cy_UAZ), (cy_Soni, CInt 3), (la_qty, CInt 3)]]\<rparr>"
  have a_q: "add_qty ucd (Some cy_Soni) ?a0 = Inr ?a1"
    by (simp add: add_qty_def qty_column_def astype_int_def frame_defs ucd_defs lexicon)
  let ?a2 = "\<lparr>columns = [cy_Naimenovanie_texniki, cy_Soni, la_qty, la_region_name],
        rows = [[(cy_Naimenovanie_texniki, CStr cy_Kamaz), (cy_Soni, CInt 0), (la_qty, CInt 1), (la_region_name, CStr cy_Sirdaryo)],
              [(cy_Naimenovanie_texniki, CStr cy_ZIL), (cy_Soni, CStr cy_bor), (la_qty, CInt 1), (la_region_name, CStr cy_Sirdaryo)],
              [(cy_Naimenovanie_texniki, CStr cy_UAZ), (cy_Soni, CInt 3), (la_qty, CInt 3), (la_region_name, CStr cy_Sirdaryo)]]\<rparr>"
  have a_r: "set_col_const la_region_name (CStr cy_Sirdaryo) ?a1 = ?a2"
    by (simp add: frame_defs lexicon)
  let ?a3 = "\<lparr>columns = [cy_Naimenovanie_texniki, cy_Soni, la_qty, la_region_name, la_type_normalized],
        rows = [[(cy_Naimenovanie_texniki, CStr cy_Kamaz), (cy_Soni, CInt 0), (la_qty, CInt 1), (la_region_name, CStr cy_Sirdaryo), (la_type_normalized, CStr cy_Kamaz)],
              [(cy_Naimenovanie_texniki, CStr cy_ZIL), (cy_Soni, CStr cy_bor), (la_qty, CInt 1), (la_region_name, CStr cy_Sirdaryo), (la_type_normalized, CStr cy_ZIL)],
              [(cy_Naimenovanie_texniki, CStr cy_UAZ), (cy_Soni, CInt 3), (la_qty, CInt 3), (la_region_name, CStr cy_Sirdaryo), (la_type_normalized, CStr cy_UAZ)]]\<rparr>"
  have a_t: "add_type ucd cy_Naimenovanie_texniki ?a2 = ?a3"
    by (simp add: add_type_def normalize_tech_type_def type_mapping_def summary_keywords_def
        frame_defs text_defs ucd_defs lexicon)
  let ?a4 = "\<lparr>columns = [cy_Naimenovanie_texniki, cy_Soni, la_qty, la_region_name, la_type_normalized, la_status_normalized],
        rows = [[(cy_Naimenovanie_texniki, CStr cy_Kamaz), (cy_Soni, CInt 0), (la_qty, CInt 1), (la_region_name, CStr cy_Sirdaryo), (la_type_normalized, CStr cy_Kamaz), (la_status_normalized, CStr cy_Xolati_nomaqhlum)],
              [(cy_Naimenovanie_texniki, CStr cy_ZIL), (cy_Soni, CStr cy_bor), (la_qty, CInt 1), (la_region_name, CStr cy_Sirdaryo), (la_type_normalized, CStr cy_ZIL), (la_status_normalized, CStr cy_Xolati_nomaqhlum)],
              [(cy_Naimenovanie_texniki, CStr cy_UAZ), (cy_Soni, CInt 3), (la_qty, CInt 3), (la_region_name, CStr cy_Sirdaryo), (la_type_normalized, CStr cy_UAZ), (la_status_normalized, CStr cy_Xolati_nomaqhlum)]]\<rparr>"
  have a_s: "add_status ucd None ?a3 = ?a4"
    by (simp add: add_status_def frame_defs lexicon)
  let ?a5 = "\<lparr>columns = [cy_Naimenovanie_texniki, cy_Soni, la_qty, la_region_name, la_type_normalized, la_status_normalized, la_city_district],
        rows = [[(cy_Naimenovanie_texniki, CStr cy_Kamaz), (cy_Soni, CInt 0), (la_qty, CInt 1), (la_region_name, CStr cy_Sirdaryo), (la_type_normalized, CStr cy_Kamaz), (la_status_normalized, CStr cy_Xolati_nomaqhlum), (la_city_district, CStr cy_Sirdaryo)],
              [(cy_Naimenovanie_texniki, CStr cy_ZIL), (cy_Soni, CStr cy_bor), (la_qty, CInt 1), (la_region_name, CStr cy_Sirdaryo), (la_type_normalized, CStr cy_ZIL), (la_status_normalized, CStr cy_Xolati_nomaqhlum), (la_city_district, CStr cy_Sirdaryo)],
              [(cy_Naimenovanie_texniki, CStr cy_UAZ), (cy_Soni, CInt 3), (la_qty, CInt 3), (la_region_name, CStr cy_Sirdaryo), (la_type_normalized, CStr cy_UAZ), (la_status_normalized, CStr cy_Xolati_nomaqhlum), (la_city_district, CStr cy_Sirdaryo)]]\<rparr>"
  have a_d: "add_district ucd cy_Sirdaryo None ?a4 = ?a5"
    by (simp add: add_district_def frame_defs lexicon)
  have a_kc: "find_column ucd [cy_Naimenovanie_texniki, cy_Soni, la_qty, la_region_name, la_type_normalized, la_status_normalized, la_city_district] TRACKER_ALIASES = Some la_status_normalized"
    by (simp add: column_defs text_defs ucd_defs lexicon)
  let ?a6 = "\<lparr>columns = [cy_Naimenovanie_texniki, cy_Soni, la_qty, la_region_name, la_type_normalized, la_status_normalized, la_city_district, la_has_tracker],
        rows = [[(cy_Naimenovanie_texniki, CStr cy_Kamaz), (cy_Soni, CInt 0), (la_qty, CInt 1), (la_region_name, CStr cy_Sirdaryo), (la_type_normalized, CStr cy_Kamaz), (la_status_normalized, CStr cy_Xolati_nomaqhlum), (la_city_district, CStr cy_Sirdaryo), (la_has_tracker, CBool False)],
              [(cy_Naimenovanie_texniki, CStr cy_ZIL), (cy_Soni, CStr cy_bor), (la_qty, CInt 1), (la_region_name, CStr cy_Sirdaryo), (la_type_normalized, CStr cy_ZIL), (la_status_normalized, CStr cy_Xolati_nomaqhlum), (la_city_district, CStr cy_Sirdaryo), (la_has_tracker, CBool False)],
              [(cy_Naimenovanie_texniki, CStr cy_UAZ), (cy_Soni, CInt 3), (la_qty, CInt 3), (la_region_name, CStr cy_Sirdaryo), (la_type_normalized, CStr cy_UAZ), (la_status_normalized, CStr cy_Xolati_nomaqhlum), (la_city_district, CStr cy_Sirdaryo), (la_has_tracker, CBool False)]]\<rparr>"
  have a_f0: "normalize_tracker_flag ucd (CStr cy_Xolati_nomaqhlum) = False"
    by (simp add: normalize_tracker_flag_def float_defs text_defs ucd_defs lexicon)
  have a_k: "add_tracker ucd ?a5 = ?a6"
    by (simp add: add_tracker_def frame_defs a_kc [unfolded lexicon]
        a_f0 [unfolded lexicon] lexicon)
  have a_ds: "to_dataset ?a6 = [\<lparr>region_name = cy_Sirdaryo, city_district = cy_Sirdaryo, type_normalized = cy_Kamaz,
          status_normalized = cy_Xolati_nomaqhlum, qty = 1, has_tracker = False\<rparr>,
         \<lparr>region_name = cy_Sirdaryo, city_district = cy_Sirdaryo, type_normalized = cy_ZIL,
          status_normalized = cy_Xolati_nomaqhlum, qty = 1, has_tracker = False\<rparr>,
         \<lparr>region_name = cy_Sirdaryo, city_district = cy_Sirdaryo, type_normalized = cy_UAZ,
          status_normalized = cy_Xolati_nomaqhlum, qty = 3, has_tracker = False\<rparr>]"
    by (simp add: frame_defs lexicon)
  have a: "build_dataset ucd cy_Sirdaryo ?a0 = Inr [\<lparr>region_name = cy_Sirdaryo, city_district = cy_Sirdaryo, type_normalized = cy_Kamaz,
          status_normalized = cy_Xolati_nomaqhlum, qty = 1, has_tracker = False\<rparr>,
         \<lparr>region_name = cy_Sirdaryo, city_district = cy_Sirdaryo, type_normalized = cy_ZIL,
          status_normalized = cy_Xolati_nomaqhlum, qty = 1, has_tracker = False\<rparr>,
         \<lparr>region_name = cy_Sirdaryo, city_district = cy_Sirdaryo, type_normalized = cy_UAZ,
          status_normalized = cy_Xolati_nomaqhlum, qty = 3, has_tracker = False\<rparr>]"
    by (simp add: build_dataset_def truthy_def lexicon
        a_ne [unfolded lexicon] a_rn [unfolded lexicon] a_sc [unfolded lexicon] a_tc [unfolded lexicon] a_rc [unfolded lexicon]
        a_qc [unfolded lexicon] a_q [unfolded lexicon] a_r [unfolded lexicon] a_t [unfolded lexicon] a_s [unfolded lexicon]
        a_d [unfolded lexicon] a_k [unfolded lexicon] a_ds [unfolded lexicon])
  let ?b0 = "\<lparr>columns = [cy_Naimenovanie_texniki],
        rows = [[(cy_Naimenovanie_texniki, CStr cy_Kamaz)]]\<rparr>"
  have b_ne: "\<not> frame_empty ?b0"
    by (simp add: frame_empty_def)
  have b_rn: "rename_columns (py_strip ucd) ?b0 = ?b0"
    by (simp add: rename_columns_def text_defs ucd_defs lexicon)
  have b_sc: "find_column ucd [cy_Naimenovanie_texniki] STATUS_ALIASES = None"
    by (simp add: column_defs text_defs ucd_defs lexicon)
  have b_tc: "find_column ucd [cy_Naimenovanie_texniki] TYPE_ALIASES = Some cy_Naimenovanie_texniki"
    by (simp add: column_defs text_defs ucd_defs lexicon)
  have b_rc: "find_column ucd [cy_Naimenovanie_texniki] REGION_ALIASES = None"
    by (simp add: column_defs text_defs ucd_defs lexicon)
  have b_qc: "find_column ucd [cy_Naimenovanie_texniki] QTY_ALIASES = None"
    by (simp add: column_defs text_defs ucd_defs lexicon)
  let ?b1 = "\<lparr>columns = [cy_Naimenovanie_texniki, la_qty],
        rows = [[(cy_Naimenovanie_texniki, CStr cy_Kamaz), (la_qty, CInt 1)]]\<rparr>"
  have b_q: "add_qty ucd (None) ?b0 = Inr ?b1"
    by (simp add: add_qty_def qty_column_def astype_int_def frame_defs ucd_defs lexicon)
  let ?b2 = "\<lparr>columns = [cy_Naimenovanie_texniki, la_qty, la_region_name],
        rows = [[(cy_Naimenovanie_texniki, CStr cy_Kamaz), (la_qty, CInt 1), (la_region_name, CStr cy_Sirdaryo)]]\<rparr>"
  have b_r: "set_col_const la_region_name (CStr cy_Sirdaryo) ?b1 = ?b2"
    by (simp add: frame_defs lexicon)
  let ?b3 = "\<lparr>columns = [cy_Naimenovanie_texniki, la_qty, la_region_name, la_type_normalized],
        rows = [[(cy_Naimenovanie_texniki, CStr cy_Kamaz), (la_qty, CInt 1), (la_region_name, CStr cy_Sirdaryo), (la_type_normalized, CStr cy_Kamaz)]]\<rparr>"
  have b_t: "add_type ucd cy_Naimenovanie_texniki ?b2 = ?b3"
    by (simp add: add_type_def normalize_tech_type_def type_mapping_def summary_keywords_def
        frame_defs text_defs ucd_defs lexicon)
  let ?b4 = "\<lparr>columns = [cy_Naimenovanie_texniki, la_qty, la_region_name, la_type_normalized, la_status_normalized],
        rows = [[(cy_Naimenovanie_texniki, CStr cy_Kamaz), (la_qty, CInt 1), (la_region_name, CStr cy_Sirdaryo), (la_type_normalized, CStr cy_Kamaz), (la_status_normalized, CStr cy_Xolati_nomaqhlum)]]\<rparr>"
  have b_s: "add_status ucd None ?b3 = ?b4"
    by (simp add: add_status_def frame_defs lexicon)
  let ?b5 = "\<lparr>columns = [cy_Naimenovanie_texniki, la_qty, la_region_name, la_type_normalized, la_status_normalized, la_city_district],
        rows = [[(cy_Naimenovanie_texniki, CStr cy_Kamaz), (la_qty, CInt 1), (la_region_name, CStr cy_Sirdaryo), (la_type_normalized, CStr cy_Kamaz), (la_status_normalized, CStr cy_Xolati_nomaqhlum), (la_city_district, CStr cy_Sirdaryo)]]\<rparr>"
  have b_d: "add_district ucd cy_Sirdaryo None ?b4 = ?b5"
    by (simp add: add_district_def frame_defs lexicon)
  have b_kc: "find_column ucd [cy_Naimenovanie_texniki, la_qty, la_region_name, la_type_normalized, la_status_normalized, la_city_district] TRACKER_ALIASES = Some la_status_normalized"
    by (simp add: column_defs text_defs ucd_defs lexicon)
  let ?b6 = "\<lparr>columns = [cy_Naimenovanie_texniki, la_qty, la_region_name, la_type_normalized, la_status_normalized, la_city_district, la_has_tracker],
        rows = [[(cy_Naimenovanie_texniki, CStr cy_Kamaz), (la_qty, CInt 1), (la_region_name, CStr cy_Sirdaryo), (la_type_normalized, CStr cy_Kamaz), (la_status_normalized, CStr cy_Xolati_nomaqhlum), (la_city_district, CStr cy_Sirdaryo), (la_has_tracker, CBool False)]]\<rparr>"
  have b_f0: "normalize_tracker_flag ucd (CStr cy_Xolati_nomaqhlum) = False"
    by (simp add: normalize_tracker_flag_def float_defs text_defs ucd_defs lexicon)
  have b_k: "add_tracker ucd ?b5 = ?b6"
    by (simp add: add_tracker_def frame_defs b_kc [unfolded lexicon]
        b_f0 [unfolded lexicon] lexicon)
  have b_ds: "to_dataset ?b6 = [\<lparr>region_name = cy_Sirdaryo, city_district = cy_Sirdaryo, type_normalized = cy_Kamaz,
          status_normalized = cy_Xolati_nomaqhlum, qty = 1, has_tracker = False\<rparr>]"
    by (simp add: frame_defs lexicon)
  have b: "build_dataset ucd cy_Sirdaryo ?b0 = Inr [\<lparr>region_name = cy_Sirdaryo, city_district = cy_Sirdaryo, type_normalized = cy_Kamaz,
          status_normalized = cy_Xolati_nomaqhlum, qty = 1, has_tracker = False\<rparr>]"
    by (simp add: build_dataset_def truthy_def lexicon
        b_ne [unfolded lexicon] b_rn [unfolded lexicon] b_sc [unfolded lexicon] b_tc [unfolded lexicon] b_rc [unfolded lexicon]
        b_qc [unfolded lexicon] b_q [unfolded lexicon] b_r [unfolded lexicon] b_t [unfolded lexicon] b_s [unfolded lexicon]
        b_d [unfolded lexicon] b_k [unfolded lexicon] b_ds [unfolded lexicon])
  have load: "snd (load_single_region_sync ucd (Frame ?a0, Raises []) (cy_Sirdaryo, Some la_sheet1))
     = [\<lparr>region_name = cy_Sirdaryo, city_district = cy_Sirdaryo, type_normalized = cy_Kamaz,
          status_normalized = cy_Xolati_nomaqhlum, qty = 1, has_tracker = False\<rparr>,
         \<lparr>region_name = cy_Sirdaryo, city_district = cy_Sirdaryo, type_normalized = cy_ZIL,
          status_normalized = cy_Xolati_nomaqhlum, qty = 1, has_tracker = False\<rparr>,
         \<lparr>region_name = cy_Sirdaryo, city_district = cy_Sirdaryo, type_normalized = cy_UAZ,
          status_normalized = cy_Xolati_nomaqhlum, qty = 3, has_tracker = False\<rparr>]"
    by (simp add: load_single_region_sync_def attempt_def truthy_def a [unfolded lexicon] lexicon)
  have no_qty: "truthy (find_column ucd (columns (rename_columns (py_strip ucd) ?b0)) QTY_ALIASES)
                = None"
    by (simp add: truthy_def b_rn b_qc)
  have q_name: "cy_Soni \<noteq> []"
    by (simp add: lexicon)
  have a_qty: "truthy (find_column ucd (columns (rename_columns (py_strip ucd) ?a0)) QTY_ALIASES)
               = Some cy_Soni"
    by (simp add: truthy_def a_rn a_qc q_name)
  let ?q0 = "\<lparr>columns = [cy_Soni],
           rows = [[(cy_Soni, CInt 0)], [(cy_Soni, CStr [])], [(cy_Soni, CStr cy_bor)],
                 [(cy_Soni, CInt (- 2))], [(cy_Soni, CInt 3)], [(cy_Soni, CFloat [50, 46, 55])],
                 [(cy_Soni, CNaN)]]\<rparr>"
  let ?q1 = "\<lparr>columns = [cy_Soni, la_qty],
           rows = [[(cy_Soni, CInt 0), (la_qty, CInt 1)],
                 [(cy_Soni, CStr []), (la_qty, CInt 1)],
                 [(cy_Soni, CStr cy_bor), (la_qty, CInt 1)],
                 [(cy_Soni, CInt (- 2)), (la_qty, CInt 1)],
                 [(cy_Soni, CInt 3), (la_qty, CInt 3)],
                 [(cy_Soni, CFloat [50, 46, 55]), (la_qty, CInt 2)],
                 [(cy_Soni, CNaN), (la_qty, CInt 1)]]\<rparr>"
  have q_fin: "list_all (\<lambda>r. lib_to_numeric ucd (cell_of r cy_Soni) \<noteq> NumNonFinite) (rows ?q0)"
    by (simp add: cell_of_def digits_val_def ucd_defs lexicon)
  have q_spec: "set_col la_qty (map (\<lambda>r. CInt (spec_quantity ucd (cell_of r cy_Soni))) (rows ?q0)) ?q0
                = ?q1"
    by (simp add: spec_quantity_def set_col_def cell_of_def digits_val_def ucd_defs lexicon)
  let ?c0 = "\<lparr>columns = [cy_Naimenovanie_texniki, cy_Soni],
           rows = [[(cy_Naimenovanie_texniki, CStr cy_UAZ), (cy_Soni, CInt 3)],
                 [(cy_Naimenovanie_texniki, CStr cy_ZIL), (cy_Soni, CFloat (45 # la_inf))]]\<rparr>"
  let ?cr = "[(cy_Naimenovanie_texniki, CStr cy_ZIL), (cy_Soni, CFloat (45 # la_inf))]"
  have c_ne: "\<not> frame_empty ?c0"
    by (simp add: frame_empty_def)
  have c_rn: "rename_columns (py_strip ucd) ?c0 = ?c0"
    by (simp add: rename_columns_def text_defs ucd_defs lexicon)
  have c_qty: "truthy (find_column ucd (columns (rename_columns (py_strip ucd) ?c0)) QTY_ALIASES)
               = Some cy_Soni"
    by (simp add: truthy_def c_rn a_qc q_name)
  have c_in: "?cr \<in> set (rows (rename_columns (py_strip ucd) ?c0))"
    by (simp add: c_rn)
  have c_nf: "lib_to_numeric ucd (cell_of ?cr cy_Soni) = NumNonFinite"
    by (simp add: cell_of_def ucd_defs lexicon)
  have c_spec: "map (\<lambda>r. spec_quantity ucd (cell_of r cy_Soni)) (rows ?c0) = [3, 1]"
    by (simp add: spec_quantity_def cell_of_def ucd_defs lexicon)
  have c_sid: "truthy (Some la_sheet1) \<noteq> None"
    by (simp add: truthy_def lexicon)
  note inst = quantity_column_coercion [of ucd "(Frame ?a0, Raises [])" "(cy_Sirdaryo, Some la_sheet1)"]
  from inst have all: "list_all (\<lambda>x. 1 \<le> qty x)
      (snd (load_single_region_sync ucd (Frame ?a0, Raises []) (cy_Sirdaryo, Some la_sheet1)))"
    unfolding list_all_iff by blast
  from inst no_qty b have one: "list_all (\<lambda>x. qty x = 1)
       [\<lparr>region_name = cy_Sirdaryo, city_district = cy_Sirdaryo, type_normalized = cy_Kamaz,
          status_normalized = cy_Xolati_nomaqhlum, qty = 1, has_tracker = False\<rparr>]"
    unfolding list_all_iff by blast
  from inst q_name q_fin have "add_qty ucd (Some cy_Soni) ?q0
      = Inr (set_col la_qty (map (\<lambda>r. CInt (spec_quantity ucd (cell_of r cy_Soni))) (rows ?q0)) ?q0)"
    unfolding list_all_iff by blast
  then have q: "add_qty ucd (Some cy_Soni) ?q0 = Inr ?q1"
    unfolding q_spec .
  from inst a_qty a have "\<forall>x \<in> set [\<lparr>region_name = cy_Sirdaryo, city_district = cy_Sirdaryo, type_normalized = cy_Kamaz,
          status_normalized = cy_Xolati_nomaqhlum, qty = 1, has_tracker = False\<rparr>,
         \<lparr>region_name = cy_Sirdaryo, city_district = cy_Sirdaryo, type_normalized = cy_ZIL,
          status_normalized = cy_Xolati_nomaqhlum, qty = 1, has_tracker = False\<rparr>,
         \<lparr>region_name = cy_Sirdaryo, city_district = cy_Sirdaryo, type_normalized = cy_UAZ,
          status_normalized = cy_Xolati_nomaqhlum, qty = 3, has_tracker = False\<rparr>].
      \<exists>r \<in> set (rows (rename_columns (py_strip ucd) ?a0)).
        qty x = spec_quantity ucd (cell_of r cy_Soni)"
    by blast
  then have rows: "list_all (\<lambda>x. list_ex (\<lambda>r. qty x = spec_quantity ucd (cell_of r cy_Soni)) (rows ?a0))
       [\<lparr>region_name = cy_Sirdaryo, city_district = cy_Sirdaryo, type_normalized = cy_Kamaz,
          status_normalized = cy_Xolati_nomaqhlum, qty = 1, has_tracker = False\<rparr>,
         \<lparr>region_name = cy_Sirdaryo, city_district = cy_Sirdaryo, type_normalized = cy_ZIL,
          status_normalized = cy_Xolati_nomaqhlum, qty = 1, has_tracker = False\<rparr>,
         \<lparr>region_name = cy_Sirdaryo, city_district = cy_Sirdaryo, type_normalized = cy_UAZ,
          status_normalized = cy_Xolati_nomaqhlum, qty = 3, has_tracker = False\<rparr>]"
    unfolding a_rn list_all_iff list_ex_iff .
  from inst c_ne c_qty c_in c_nf c_sid
  have c: "build_dataset ucd cy_Sirdaryo ?c0 = Inl non_finite_message
           \<and> load_single_region_sync ucd (Frame ?c0, Raises []) (cy_Sirdaryo, Some la_sheet1)
             = (cy_Sirdaryo, [])"
    by blast
  from load all no_qty b one q_fin q rows c_ne c_qty c_in c_nf c_spec c show ?thesis
    by blast
qed
end
